theory Spec2Isabelle
  imports Complex_Main "HOL-Library.Sublist"
begin

section \<open>Python values and exceptions\<close>

text \<open>
  The program is Python 2 (\<^verbatim>\<open>except Exception, e\<close>).  An exception that leaves a
  function is a value of \<open>error\<close>; an operation on a store returns its outcome together
  with the store as the call leaves it, so that what an exception leaves behind is part of
  the model.
\<close>

datatype error =
    TypeError
  | UnboundLocalError
  | NameError
  | OperationalError
  | IntegrityError
  | ProgrammingError
  | NotImplementedError
  | ValueError
  | GenericException string
  | SystemExit int

section \<open>The connection factory (database.py, database_connect)\<close>

text \<open>
  \<^verbatim>\<open>s.replace(old, "")\<close>: the occurrences of \<open>old\<close> are removed from left to right,
  without overlap.  With an empty \<open>old\<close> Python returns \<open>s\<close>.
\<close>

fun remove_all :: "string \<Rightarrow> string \<Rightarrow> string" where
  "remove_all old [] = []"
| "remove_all old (c # cs) =
     (if old \<noteq> [] \<and> prefix old (c # cs)
      then remove_all old (drop (length old - 1) cs)
      else c # remove_all old cs)"

text \<open>The keyword arguments of \<^verbatim>\<open>database_connect\<close>, handed on to the constructor unchanged.\<close>

record connect_options =
  auto_commit :: bool
  journal_mode :: string
  synchronous_off :: bool
  exclusive_lock :: bool
  check_if_exists :: bool

datatype backend = MBTilesSQLite | MBTilesPostgres | MBTilesMySQL | MBTilesMongoDB

text \<open>
  What \<^verbatim>\<open>database_connect\<close> does: it calls one constructor with a connection string and
  the options, or it logs an error and calls \<^verbatim>\<open>sys.exit(1)\<close>.
\<close>

datatype connect_outcome =
    Construct backend string connect_options
  | LogErrorAndExit string int

definition database_connect :: "string \<Rightarrow> connect_options \<Rightarrow> connect_outcome" where
  "database_connect connect_string opts =
     (if suffix ''.mbtiles'' connect_string then
        Construct MBTilesSQLite connect_string opts
      else if sublist ''driver=postgres'' connect_string \<or> prefix ''pg:'' connect_string then
        Construct MBTilesPostgres (remove_all ''driver=postgres'' connect_string) opts
      else if sublist ''driver=mysql'' connect_string \<or> prefix ''my:'' connect_string then
        Construct MBTilesMySQL (remove_all ''driver=mysql'' connect_string) opts
      else if sublist ''driver=mongodb'' connect_string \<or> prefix ''mongodb:'' connect_string then
        Construct MBTilesMongoDB (remove_all ''driver=mongodb'' connect_string) opts
      else
        LogErrorAndExit ''Unknown database connection string'' 1)"

text \<open>The backend a call of \<^verbatim>\<open>database_connect\<close> constructs, if it constructs one.\<close>

fun constructed :: "connect_outcome \<Rightarrow> backend option" where
  "constructed (Construct b _ _) = Some b"
| "constructed (LogErrorAndExit _ _) = None"

definition default_options :: connect_options where
  "default_options =
     \<lparr>auto_commit = False, journal_mode = ''wal'', synchronous_off = False,
      exclusive_lock = False, check_if_exists = False\<rparr>"

section \<open>The coordinate converter (util_convert.py)\<close>

text \<open>
  \<^verbatim>\<open>util_convert.py\<close> imports \<^verbatim>\<open>coordinate_to_tile\<close>, \<^verbatim>\<open>tile_to_coordinate\<close> and
  \<^verbatim>\<open>flip_y\<close> from \<^verbatim>\<open>util.py\<close>, which is not among the sources.  The three functions
  below stand for them; the functions of \<^verbatim>\<open>util_convert.py\<close> after them are translated
  from the source.  Zoom levels are natural numbers, columns and rows integers,
  coordinates real numbers (the program computes them in floating point).
\<close>

text \<open>
  Modelled from the spec: \<^verbatim>\<open>util.flip_y\<close> is missing.  The specification gives
  \<^verbatim>\<open>flipped_row = 2^z - 1 - row\<close>.
\<close>

definition flip_y :: "nat \<Rightarrow> int \<Rightarrow> int" where
  "flip_y zoom y = (2 ^ zoom - 1) - y"

text \<open>
  Modelled from the spec: \<^verbatim>\<open>util.tile_to_coordinate\<close> is missing.  The specification
  names the standard slippy-map projection: the longitude is linear in the column, the
  latitude is the inverse Mercator function of the row.  \<^verbatim>\<open>convert_tile_to_bbox\<close> asks
  for the points half a tile around \<open>(x, y)\<close>, and the specification's envelope of the
  tile (0, 0, 0) is the whole world: the function takes the centre of a tile as its
  address, so the point \<open>(x, y)\<close> lies \<open>x + 1/2\<close> tiles from the left edge of the world
  and \<open>y + 1/2\<close> tiles from its top edge.
\<close>

definition tile_to_coordinate :: "real \<Rightarrow> real \<Rightarrow> nat \<Rightarrow> real \<times> real" where
  "tile_to_coordinate tile_x tile_y tile_z =
     (let n = 2 ^ tile_z;
          lon_deg = (tile_x + 1 / 2) / n * 360 - 180;
          lat_rad = arctan (sinh (pi * (1 - 2 * (tile_y + 1 / 2) / n)))
      in (lon_deg, lat_rad * 180 / pi))"

text \<open>
  Modelled from the spec: \<^verbatim>\<open>util.coordinate_to_tile\<close> is missing.  The specification
  asks for the projection of the same kind in the other direction, consistent with
  \<^verbatim>\<open>tile_to_coordinate\<close>: the column and the row of the tile that holds the point,
  kept within the tiles of the zoom level, 0 to \<open>2^z - 1\<close>.  The specification's scenario
  \<^verbatim>\<open>bbox_to_tiles(-180,-85,180,85, min_zoom=0, max_zoom=0, flip_y=False)\<close> yields exactly
  \<^verbatim>\<open>[(0,0,0)]\<close>, although the longitude 180 is the left edge of a column 1.
\<close>

definition coordinate_to_tile :: "real \<Rightarrow> real \<Rightarrow> nat \<Rightarrow> int \<times> int" where
  "coordinate_to_tile lon_deg lat_deg zoom =
     (let n = 2 ^ zoom;
          lat_rad = lat_deg * pi / 180;
          xtile = \<lfloor>(lon_deg + 180) / 360 * n\<rfloor>;
          ytile = \<lfloor>(1 - ln (tan lat_rad + 1 / cos lat_rad) / pi) / 2 * n\<rfloor>
      in (max 0 (min (2 ^ zoom - 1) xtile), max 0 (min (2 ^ zoom - 1) ytile)))"

text \<open>
  From the source.  A bounding box is \<^verbatim>\<open>[min_x, min_y, max_x, max_y]\<close>; the generators
  are the lists of what they yield; \<^verbatim>\<open>range(a, b + 1)\<close> is \<open>[a..b]\<close>.
\<close>

type_synonym bbox = "real \<times> real \<times> real \<times> real"

definition convert_tile_to_bbox :: "nat \<Rightarrow> int \<Rightarrow> int \<Rightarrow> bool \<Rightarrow> bbox" where
  "convert_tile_to_bbox tile_z tile_x tile_y flip_tile_y =
     (let tile_y = (if flip_tile_y then flip_y tile_z tile_y else tile_y);
          (min_x, min_y) = tile_to_coordinate (real_of_int tile_x - 0.5) (real_of_int tile_y + 0.5) tile_z;
          (max_x, max_y) = tile_to_coordinate (real_of_int tile_x + 0.5) (real_of_int tile_y - 0.5) tile_z
      in (min_x, min_y, max_x, max_y))"

definition tiles_for_bbox ::
    "real \<Rightarrow> real \<Rightarrow> real \<Rightarrow> real \<Rightarrow> nat \<Rightarrow> bool \<Rightarrow> (nat \<times> int \<times> int) list" where
  "tiles_for_bbox left bottom right top' tile_z flip_tile_y =
     (let (min_x, min_y) = coordinate_to_tile left bottom tile_z;
          (max_x, max_y) = coordinate_to_tile right top' tile_z;
          (min_y, max_y) = (if min_y > max_y then (max_y, min_y) else (min_y, max_y))
      in [(tile_z, tile_x, if flip_tile_y then flip_y tile_z tile_y else tile_y).
            tile_x \<leftarrow> [min_x..max_x], tile_y \<leftarrow> [min_y..max_y]])"

definition convert_bbox_to_tiles ::
    "real \<Rightarrow> real \<Rightarrow> real \<Rightarrow> real \<Rightarrow> bool \<Rightarrow> nat \<Rightarrow> nat \<Rightarrow> (nat \<times> int \<times> int) list" where
  "convert_bbox_to_tiles left bottom right top' flip_tile_y min_zoom max_zoom =
     concat (map (\<lambda>tile_z. tiles_for_bbox left bottom right top' tile_z flip_tile_y)
               [min_zoom..<max_zoom + 1])"

text \<open>
  The round trip of C2: the bounding box of a tile, and the tiles of that box at the zoom
  level of the tile.
\<close>

definition round_trip :: "nat \<Rightarrow> int \<Rightarrow> int \<Rightarrow> bool \<Rightarrow> (nat \<times> int \<times> int) list" where
  "round_trip z x y flip =
     (case convert_tile_to_bbox z x y flip of
        (left, bottom, right, top') \<Rightarrow> convert_bbox_to_tiles left bottom right top' flip z z)"

section \<open>The relational stores: schema, rows and the handle\<close>

text \<open>
  The SQLite, Postgres and MySQL classes keep the same tables.  A store is its schema
  (relations with their column names, indexes, stored procedures), the rows of its tables
  and the two capability caches of the Python handle.  Zoom, column, row and scale are
  integers as the callers pass them; \<^verbatim>\<open>tile_id\<close> and \<^verbatim>\<open>updated_at\<close> can be NULL.
\<close>

datatype relation = Table "string list" | View "string list"

record map_row =
  zoom_level :: int
  tile_column :: int
  tile_row :: int
  tile_scale :: int
  tile_id :: "string option"
  updated_at :: "int option"

record image_row =
  image_id :: "string option"
  image_data :: string

text \<open>A row of \<^verbatim>\<open>tiles\<close>: of the view that joins map and images, or of a table of that name.\<close>

record tiles_row =
  t_zoom_level :: int
  t_tile_column :: int
  t_tile_row :: int
  t_tile_scale :: int
  t_tile_data :: string
  t_updated_at :: "int option"

record sql_store =
  relations :: "string \<rightharpoonup> relation"
  indexes :: "string \<rightharpoonup> string \<times> string list"
  procs :: "string \<Rightarrow> nat set"
  map_rows :: "map_row list"
  images_rows :: "image_row list"
  metadata_rows :: "(string \<times> string) list"
  tiles_rows :: "tiles_row list"
  database_is_compacted :: "bool option"
  database_has_scale :: "bool option"

fun columns_of :: "relation \<Rightarrow> string list" where
  "columns_of (Table cols) = cols"
| "columns_of (View cols) = cols"

definition is_table :: "sql_store \<Rightarrow> string \<Rightarrow> bool" where
  "is_table db n = (case relations db n of Some (Table _) \<Rightarrow> True | _ \<Rightarrow> False)"

text \<open>A statement that names columns of a relation fails unless the relation has them.\<close>

definition has_columns :: "sql_store \<Rightarrow> string \<Rightarrow> string list \<Rightarrow> bool" where
  "has_columns db n cols =
     (case relations db n of
        None \<Rightarrow> False
      | Some r \<Rightarrow> list_all (\<lambda>c. c \<in> set (columns_of r)) cols)"

subsection \<open>Statements as steps\<close>

text \<open>
  A step runs on a store and returns the exception it raised, if any, with the store it
  leaves.  \<open>run\<close> is a sequence of statements, \<open>try_except\<close> a
  \<^verbatim>\<open>try: ... except E: pass\<close> block.
\<close>

type_synonym 's step = "'s \<Rightarrow> error option \<times> 's"

fun run :: "'s step list \<Rightarrow> 's step" where
  "run [] s = (None, s)"
| "run (f # fs) s =
     (case f s of
        (None, s') \<Rightarrow> run fs s'
      | (Some e, s') \<Rightarrow> (Some e, s'))"

definition try_except :: "(error \<Rightarrow> bool) \<Rightarrow> 's step \<Rightarrow> 's step" where
  "try_except caught f s =
     (case f s of
        (None, s') \<Rightarrow> (None, s')
      | (Some e, s') \<Rightarrow> if caught e then (None, s') else (Some e, s'))"

definition skip :: "'s step" where
  "skip s = (None, s)"

text \<open>A statement that fails leaves the store as it found it.\<close>

definition stmt :: "('s \<Rightarrow> error + 's) \<Rightarrow> 's step" where
  "stmt f s = (case f s of Inl e \<Rightarrow> (Some e, s) | Inr s' \<Rightarrow> (None, s'))"

definition is_OperationalError :: "error \<Rightarrow> bool" where
  "is_OperationalError e = (e = OperationalError)"

definition any_exception :: "error \<Rightarrow> bool" where
  "any_exception e = (case e of SystemExit _ \<Rightarrow> False | _ \<Rightarrow> True)"

definition bare_except :: "error \<Rightarrow> bool" where
  "bare_except e = True"

subsection \<open>Keys of a unique index\<close>

datatype sql_value = IntV int | TextV string | Null

definition opt_int :: "int option \<Rightarrow> sql_value" where
  "opt_int v = (case v of None \<Rightarrow> Null | Some i \<Rightarrow> IntV i)"

definition opt_text :: "string option \<Rightarrow> sql_value" where
  "opt_text v = (case v of None \<Rightarrow> Null | Some t \<Rightarrow> TextV t)"

definition map_col :: "map_row \<Rightarrow> string \<Rightarrow> sql_value" where
  "map_col r c =
     (if c = ''zoom_level'' then IntV (zoom_level r)
      else if c = ''tile_column'' then IntV (tile_column r)
      else if c = ''tile_row'' then IntV (tile_row r)
      else if c = ''tile_scale'' then IntV (tile_scale r)
      else if c = ''tile_id'' then opt_text (tile_id r)
      else if c = ''updated_at'' then opt_int (updated_at r)
      else Null)"

definition image_col :: "image_row \<Rightarrow> string \<Rightarrow> sql_value" where
  "image_col r c =
     (if c = ''tile_id'' then opt_text (image_id r)
      else if c = ''tile_data'' then TextV (image_data r)
      else Null)"

definition metadata_col :: "string \<times> string \<Rightarrow> string \<Rightarrow> sql_value" where
  "metadata_col r c =
     (if c = ''name'' then TextV (fst r)
      else if c = ''value'' then TextV (snd r)
      else Null)"

definition table_keys :: "sql_store \<Rightarrow> string \<Rightarrow> string list \<Rightarrow> sql_value list list" where
  "table_keys db tbl cols =
     (if tbl = ''map'' then map (\<lambda>r. map (map_col r) cols) (map_rows db)
      else if tbl = ''images'' then map (\<lambda>r. map (image_col r) cols) (images_rows db)
      else if tbl = ''metadata'' then map (\<lambda>r. map (metadata_col r) cols) (metadata_rows db)
      else [])"

text \<open>
  A unique index cannot be built over rows that repeat a key; a key with a NULL in it
  repeats nothing.
\<close>

definition duplicate_keys :: "sql_store \<Rightarrow> string \<Rightarrow> string list \<Rightarrow> bool" where
  "duplicate_keys db tbl cols =
     (\<not> distinct (filter (\<lambda>k. Null \<notin> set k) (table_keys db tbl cols)))"

text \<open>A table that has just been created has no rows.\<close>

definition clear_rows :: "string \<Rightarrow> sql_store \<Rightarrow> sql_store" where
  "clear_rows n db =
     (if n = ''map'' then db\<lparr>map_rows := []\<rparr>
      else if n = ''images'' then db\<lparr>images_rows := []\<rparr>
      else if n = ''metadata'' then db\<lparr>metadata_rows := []\<rparr>
      else if n = ''tiles'' then db\<lparr>tiles_rows := []\<rparr>
      else db)"

definition add_table :: "string \<Rightarrow> string list \<Rightarrow> sql_store \<Rightarrow> sql_store" where
  "add_table n cols db = clear_rows n (db\<lparr>relations := (relations db)(n \<mapsto> Table cols)\<rparr>)"

definition add_index :: "string \<Rightarrow> string \<Rightarrow> string list \<Rightarrow> sql_store \<Rightarrow> sql_store" where
  "add_index n tbl cols db = db\<lparr>indexes := (indexes db)(n \<mapsto> (tbl, cols))\<rparr>"

definition add_view :: "string \<Rightarrow> string list \<Rightarrow> sql_store \<Rightarrow> sql_store" where
  "add_view n cols db = db\<lparr>relations := (relations db)(n \<mapsto> View cols)\<rparr>"

text \<open>The column lists of the statements of \<^verbatim>\<open>mbtiles_setup\<close>.\<close>

definition images_columns :: "string list" where
  "images_columns = [''tile_id'', ''tile_data'']"

definition map_columns :: "string list" where
  "map_columns =
     [''zoom_level'', ''tile_column'', ''tile_row'', ''tile_scale'', ''tile_id'', ''updated_at'']"

definition metadata_columns :: "string list" where
  "metadata_columns = [''name'', ''value'']"

definition tiles_view_columns :: "string list" where
  "tiles_view_columns =
     [''zoom_level'', ''tile_column'', ''tile_row'', ''tile_scale'', ''tile_data'', ''updated_at'']"

definition tiles_view_columns_no_scale :: "string list" where
  "tiles_view_columns_no_scale =
     [''zoom_level'', ''tile_column'', ''tile_row'', ''tile_data'', ''updated_at'']"

definition coordinate_columns :: "string list" where
  "coordinate_columns = [''zoom_level'', ''tile_column'', ''tile_row'', ''tile_scale'']"

definition coordinate_columns_no_scale :: "string list" where
  "coordinate_columns_no_scale = [''zoom_level'', ''tile_column'', ''tile_row'']"

text \<open>
  The columns of map and images that a query through the \<^verbatim>\<open>tiles\<close> view reads:
  those the view selects from map, and the \<^verbatim>\<open>tile_id\<close> of both tables in its join.
\<close>

definition view_reads_map :: "string list \<Rightarrow> string list" where
  "view_reads_map vcols = ''tile_id'' # filter (\<lambda>c. c \<noteq> ''tile_data'') vcols"

definition view_sources_ok :: "sql_store \<Rightarrow> string list \<Rightarrow> bool" where
  "view_sources_ok db vcols =
     (has_columns db ''map'' (view_reads_map vcols) \<and> has_columns db ''images'' images_columns)"

section \<open>Schema setup (mbtiles_setup)\<close>

subsection \<open>SQLite\<close>

text \<open>
  The statements of \<^verbatim>\<open>MBTilesSQLite.mbtiles_setup\<close>, with the failures SQLite reports
  as \<^verbatim>\<open>sqlite3.OperationalError\<close> (a missing or existing object, a missing or
  duplicate column) and as \<^verbatim>\<open>sqlite3.IntegrityError\<close> (a unique index over rows
  that repeat a key).  Tables, views and indexes share one name space.  SQLite does not
  look at the tables a view reads when the view is created.
\<close>

definition sqlite_create_table_if_not_exists ::
    "string \<Rightarrow> string list \<Rightarrow> sql_store \<Rightarrow> error + sql_store" where
  "sqlite_create_table_if_not_exists n cols db =
     (case relations db n of
        Some _ \<Rightarrow> Inr db
      | None \<Rightarrow>
          if indexes db n \<noteq> None then Inl OperationalError
          else Inr (add_table n cols db))"

definition sqlite_create_unique_index_if_not_exists ::
    "string \<Rightarrow> string \<Rightarrow> string list \<Rightarrow> sql_store \<Rightarrow> error + sql_store" where
  "sqlite_create_unique_index_if_not_exists n tbl cols db =
     (case relations db tbl of
        Some (Table tcols) \<Rightarrow>
          if relations db n \<noteq> None then Inl OperationalError
          else if indexes db n \<noteq> None then Inr db
          else if \<not> list_all (\<lambda>c. c \<in> set tcols) cols then Inl OperationalError
          else if duplicate_keys db tbl cols then Inl IntegrityError
          else Inr (add_index n tbl cols db)
      | _ \<Rightarrow> Inl OperationalError)"

definition sqlite_alter_table_map_add_column ::
    "string \<Rightarrow> (map_row \<Rightarrow> map_row) \<Rightarrow> sql_store \<Rightarrow> error + sql_store" where
  "sqlite_alter_table_map_add_column col fill db =
     (case relations db ''map'' of
        Some (Table cols) \<Rightarrow>
          if col \<in> set cols then Inl OperationalError
          else Inr (db\<lparr>relations := (relations db)(''map'' \<mapsto> Table (cols @ [col])),
                       map_rows := map fill (map_rows db)\<rparr>)
      | _ \<Rightarrow> Inl OperationalError)"

definition sqlite_drop_index :: "string \<Rightarrow> sql_store \<Rightarrow> error + sql_store" where
  "sqlite_drop_index n db =
     (case indexes db n of
        None \<Rightarrow> Inl OperationalError
      | Some _ \<Rightarrow> Inr (db\<lparr>indexes := (indexes db)(n := None)\<rparr>))"

definition sqlite_drop_view :: "string \<Rightarrow> sql_store \<Rightarrow> error + sql_store" where
  "sqlite_drop_view n db =
     (case relations db n of
        Some (View _) \<Rightarrow> Inr (db\<lparr>relations := (relations db)(n := None)\<rparr>)
      | _ \<Rightarrow> Inl OperationalError)"

definition sqlite_create_view :: "string \<Rightarrow> string list \<Rightarrow> sql_store \<Rightarrow> error + sql_store" where
  "sqlite_create_view n cols db =
     (if relations db n \<noteq> None \<or> indexes db n \<noteq> None then Inl OperationalError
      else Inr (add_view n cols db))"

definition sqlite_mbtiles_setup :: "sql_store step" where
  "sqlite_mbtiles_setup =
     run
      [skip,
       stmt (sqlite_create_table_if_not_exists ''images'' images_columns),
       stmt (sqlite_create_table_if_not_exists ''map'' map_columns),
       stmt (sqlite_create_table_if_not_exists ''metadata'' metadata_columns),
       stmt (sqlite_create_unique_index_if_not_exists ''name'' ''metadata'' [''name'']),
       try_except is_OperationalError
         (run [stmt (sqlite_alter_table_map_add_column ''tile_scale'' (\<lambda>r. r\<lparr>tile_scale := 1\<rparr>)),
               stmt (sqlite_drop_index ''map_index'')]),
       try_except is_OperationalError
         (stmt (sqlite_alter_table_map_add_column ''updated_at'' (\<lambda>r. r\<lparr>updated_at := None\<rparr>))),
       try_except is_OperationalError (stmt (sqlite_drop_view ''tiles'')),
       stmt (sqlite_create_view ''tiles'' tiles_view_columns),
       stmt (sqlite_create_unique_index_if_not_exists ''map_index'' ''map'' coordinate_columns),
       stmt (sqlite_create_unique_index_if_not_exists ''images_id'' ''images'' [''tile_id''])]"

text \<open>
  \<^verbatim>\<open>is_compacted\<close> counts the tables named images or map in \<^verbatim>\<open>sqlite_master\<close>;
  \<^verbatim>\<open>has_scale\<close> tries to select \<^verbatim>\<open>tile_scale\<close> from map.  Both keep their first
  answer in the handle.
\<close>

definition sqlite_is_compacted :: "sql_store \<Rightarrow> bool \<times> sql_store" where
  "sqlite_is_compacted db =
     (case database_is_compacted db of
        None \<Rightarrow>
          (let c = (is_table db ''images'' \<and> is_table db ''map'')
           in (c, db\<lparr>database_is_compacted := Some c\<rparr>))
      | Some c \<Rightarrow> (c, db))"

definition sqlite_has_scale :: "sql_store \<Rightarrow> bool \<times> sql_store" where
  "sqlite_has_scale db =
     (case database_has_scale db of
        None \<Rightarrow>
          (let c = has_columns db ''map'' [''tile_scale'']
           in (c, db\<lparr>database_has_scale := Some c\<rparr>))
      | Some c \<Rightarrow> (c, db))"

section \<open>SQL text and its evaluation\<close>

text \<open>
  The methods build their SQL by appending fragments to a string.  The part after
  \<^verbatim>\<open>WHERE\<close> is modelled as the list of its tokens: a comparison, or the word
  \<^verbatim>\<open>AND\<close>.  The text is well formed when comparisons and \<^verbatim>\<open>AND\<close> alternate,
  beginning and ending with a comparison; otherwise the database refuses the statement.
\<close>

datatype cond =
    ZoomGe int
  | ZoomLe int
  | ZoomEq int
  | ColumnEq int
  | RowEq int
  | ScaleEq int
  | UpdatedGt int
  | UpdatedLt int
  | TileIdNotNull
  | TileIdNull
  | One

datatype sql_token = Cond cond | AND

fun parse_where :: "sql_token list \<Rightarrow> cond list option" where
  "parse_where [Cond c] = Some [c]"
| "parse_where (Cond c # AND # rest) = map_option ((#) c) (parse_where rest)"
| "parse_where _ = None"

fun cond_columns :: "cond \<Rightarrow> string list" where
  "cond_columns (ZoomGe _) = [''zoom_level'']"
| "cond_columns (ZoomLe _) = [''zoom_level'']"
| "cond_columns (ZoomEq _) = [''zoom_level'']"
| "cond_columns (ColumnEq _) = [''tile_column'']"
| "cond_columns (RowEq _) = [''tile_row'']"
| "cond_columns (ScaleEq _) = [''tile_scale'']"
| "cond_columns (UpdatedGt _) = [''updated_at'']"
| "cond_columns (UpdatedLt _) = [''updated_at'']"
| "cond_columns TileIdNotNull = [''tile_id'']"
| "cond_columns TileIdNull = [''tile_id'']"
| "cond_columns One = []"

definition where_columns :: "cond list \<Rightarrow> string list" where
  "where_columns conds = concat (map cond_columns conds)"

text \<open>
  A row is selected when the comparison is true; a comparison with NULL is not true.
\<close>

fun holds :: "cond \<Rightarrow> map_row \<Rightarrow> bool" where
  "holds (ZoomGe n) r = (zoom_level r \<ge> n)"
| "holds (ZoomLe n) r = (zoom_level r \<le> n)"
| "holds (ZoomEq n) r = (zoom_level r = n)"
| "holds (ColumnEq n) r = (tile_column r = n)"
| "holds (RowEq n) r = (tile_row r = n)"
| "holds (ScaleEq n) r = (tile_scale r = n)"
| "holds (UpdatedGt n) r = (case updated_at r of None \<Rightarrow> False | Some u \<Rightarrow> u > n)"
| "holds (UpdatedLt n) r = (case updated_at r of None \<Rightarrow> False | Some u \<Rightarrow> u < n)"
| "holds TileIdNotNull r = (tile_id r \<noteq> None)"
| "holds TileIdNull r = (tile_id r = None)"
| "holds One r = True"

fun holds_tiles :: "cond \<Rightarrow> tiles_row \<Rightarrow> bool" where
  "holds_tiles (ZoomGe n) r = (t_zoom_level r \<ge> n)"
| "holds_tiles (ZoomLe n) r = (t_zoom_level r \<le> n)"
| "holds_tiles (ZoomEq n) r = (t_zoom_level r = n)"
| "holds_tiles (ColumnEq n) r = (t_tile_column r = n)"
| "holds_tiles (RowEq n) r = (t_tile_row r = n)"
| "holds_tiles (ScaleEq n) r = (t_tile_scale r = n)"
| "holds_tiles (UpdatedGt n) r = (case t_updated_at r of None \<Rightarrow> False | Some u \<Rightarrow> u > n)"
| "holds_tiles (UpdatedLt n) r = (case t_updated_at r of None \<Rightarrow> False | Some u \<Rightarrow> u < n)"
| "holds_tiles TileIdNotNull r = False"
| "holds_tiles TileIdNull r = False"
| "holds_tiles One r = True"

definition all_hold :: "cond list \<Rightarrow> map_row \<Rightarrow> bool" where
  "all_hold conds r = list_all (\<lambda>c. holds c r) conds"

definition all_hold_tiles :: "cond list \<Rightarrow> tiles_row \<Rightarrow> bool" where
  "all_hold_tiles conds r = list_all (\<lambda>c. holds_tiles c r) conds"

text \<open>
  The condition of a statement on map: the statement is refused when its text is not
  well formed or when it names a column map does not have (\<open>extra\<close>: the columns the
  statement names outside its condition).  \<open>refused\<close> is the driver's exception.
\<close>

definition map_where ::
    "error \<Rightarrow> sql_store \<Rightarrow> sql_token list \<Rightarrow> string list \<Rightarrow> error + cond list" where
  "map_where refused db toks extra =
     (case parse_where toks of
        None \<Rightarrow> Inl refused
      | Some conds \<Rightarrow>
          if has_columns db ''map'' (extra @ where_columns conds) then Inr conds
          else Inl refused)"

text \<open>\<^verbatim>\<open>SELECT count(zoom_level) FROM map WHERE ...\<close>\<close>

definition count_map :: "error \<Rightarrow> sql_store \<Rightarrow> sql_token list \<Rightarrow> error + int" where
  "count_map refused db toks =
     (case map_where refused db toks [''zoom_level''] of
        Inl e \<Rightarrow> Inl e
      | Inr conds \<Rightarrow> Inr (int (length (filter (all_hold conds) (map_rows db)))))"

text \<open>\<^verbatim>\<open>DELETE FROM images WHERE tile_id IN (SELECT tile_id FROM map WHERE ...)\<close>\<close>

definition selected_tile_ids :: "cond list \<Rightarrow> sql_store \<Rightarrow> string option list" where
  "selected_tile_ids conds db = map tile_id (filter (all_hold conds) (map_rows db))"

definition delete_images_in :: "error \<Rightarrow> sql_token list \<Rightarrow> sql_store \<Rightarrow> error + sql_store" where
  "delete_images_in refused toks db =
     (case map_where refused db toks [''tile_id''] of
        Inl e \<Rightarrow> Inl e
      | Inr conds \<Rightarrow>
          if is_table db ''images'' \<and> has_columns db ''images'' [''tile_id''] then
            Inr (db\<lparr>images_rows :=
                   filter (\<lambda>i. \<not> (image_id i \<noteq> None \<and> image_id i \<in> set (selected_tile_ids conds db)))
                     (images_rows db)\<rparr>)
          else Inl refused)"

text \<open>\<^verbatim>\<open>DELETE FROM map WHERE ...\<close>\<close>

definition delete_map :: "error \<Rightarrow> sql_token list \<Rightarrow> sql_store \<Rightarrow> error + sql_store" where
  "delete_map refused toks db =
     (case map_where refused db toks [] of
        Inl e \<Rightarrow> Inl e
      | Inr conds \<Rightarrow>
          if is_table db ''map'' then
            Inr (db\<lparr>map_rows := filter (\<lambda>r. \<not> all_hold conds r) (map_rows db)\<rparr>)
          else Inl refused)"

text \<open>\<^verbatim>\<open>UPDATE map SET tile_id=NULL, updated_at=<now> WHERE ...\<close>\<close>

definition expire_map :: "error \<Rightarrow> int \<Rightarrow> sql_token list \<Rightarrow> sql_store \<Rightarrow> error + sql_store" where
  "expire_map refused now toks db =
     (case map_where refused db toks [''tile_id'', ''updated_at''] of
        Inl e \<Rightarrow> Inl e
      | Inr conds \<Rightarrow>
          if is_table db ''map'' then
            Inr (db\<lparr>map_rows :=
                   map (\<lambda>r. if all_hold conds r then r\<lparr>tile_id := None, updated_at := Some now\<rparr> else r)
                     (map_rows db)\<rparr>)
          else Inl refused)"

text \<open>
  The rows of \<^verbatim>\<open>tiles\<close>.  The view is the one \<^verbatim>\<open>mbtiles_setup\<close> creates:
  \<^verbatim>\<open>map JOIN images ON map.tile_id IS NOT NULL AND images.tile_id = map.tile_id\<close>; a
  query through it fails when map or images lack a column it reads.  SQL fixes no order of
  the rows; the model takes the order of the nested loop.
\<close>

definition tiles_view_rows :: "sql_store \<Rightarrow> tiles_row list" where
  "tiles_view_rows db =
     [\<lparr>t_zoom_level = zoom_level m, t_tile_column = tile_column m, t_tile_row = tile_row m,
       t_tile_scale = tile_scale m, t_tile_data = image_data i, t_updated_at = updated_at m\<rparr>.
      m \<leftarrow> map_rows db, i \<leftarrow> images_rows db, tile_id m \<noteq> None \<and> image_id i = tile_id m]"

definition tiles_source :: "sql_store \<Rightarrow> (string list \<times> tiles_row list) option" where
  "tiles_source db =
     (case relations db ''tiles'' of
        None \<Rightarrow> None
      | Some (Table cols) \<Rightarrow> Some (cols, tiles_rows db)
      | Some (View cols) \<Rightarrow>
          if view_sources_ok db cols then Some (cols, tiles_view_rows db) else None)"

text \<open>The fourth column tiles() selects: the column \<^verbatim>\<open>tile_scale\<close>, or a constant.\<close>

datatype scale_select = ScaleColumn | ScaleConst int

type_synonym tile = "int \<times> int \<times> int \<times> int \<times> string"

definition tile_of :: "scale_select \<Rightarrow> tiles_row \<Rightarrow> tile" where
  "tile_of sel r =
     (t_zoom_level r, t_tile_column r, t_tile_row r,
      (case sel of ScaleColumn \<Rightarrow> t_tile_scale r | ScaleConst c \<Rightarrow> c),
      t_tile_data r)"

text \<open>\<^verbatim>\<open>SELECT zoom_level, tile_column, tile_row, <scale>, tile_data FROM tiles WHERE ...\<close>\<close>

definition select_tiles ::
    "error \<Rightarrow> sql_store \<Rightarrow> scale_select \<Rightarrow> sql_token list \<Rightarrow> error + tile list" where
  "select_tiles refused db sel toks =
     (case parse_where toks of
        None \<Rightarrow> Inl refused
      | Some conds \<Rightarrow>
          (case tiles_source db of
             None \<Rightarrow> Inl refused
           | Some (cols, rows) \<Rightarrow>
               if list_all (\<lambda>c. c \<in> set cols)
                    ([''zoom_level'', ''tile_column'', ''tile_row''] @
                     (case sel of ScaleColumn \<Rightarrow> [''tile_scale''] | ScaleConst _ \<Rightarrow> []) @
                     [''tile_data''] @ where_columns conds)
               then Inr (map (tile_of sel) (filter (all_hold_tiles conds) rows))
               else Inl refused))"

text \<open>\<^verbatim>\<open>DELETE FROM tiles WHERE ...\<close>: refused on a view.\<close>

definition delete_from_tiles :: "error \<Rightarrow> sql_token list \<Rightarrow> sql_store \<Rightarrow> error + sql_store" where
  "delete_from_tiles refused toks db =
     (case parse_where toks of
        None \<Rightarrow> Inl refused
      | Some conds \<Rightarrow>
          (case relations db ''tiles'' of
             Some (Table cols) \<Rightarrow>
               if list_all (\<lambda>c. c \<in> set cols) (where_columns conds) then
                 Inr (db\<lparr>tiles_rows := filter (\<lambda>r. \<not> all_hold_tiles conds r) (tiles_rows db)\<rparr>)
               else Inl refused
           | _ \<Rightarrow> Inl refused))"

section \<open>The SQLite store (class MBTilesSQLite)\<close>

text \<open>What a method of the model returns: its value or its exception, and the store.\<close>

type_synonym 'a outcome = "(error + 'a) \<times> sql_store"

text \<open>Values a method can return where Python returns more than integers.\<close>

datatype pyval = PyNone | PyInt int | PyTuple "pyval list"

definition py_opt_int :: "int option \<Rightarrow> pyval" where
  "py_opt_int v = (case v of None \<Rightarrow> PyNone | Some i \<Rightarrow> PyInt i)"

text \<open>\<^verbatim>\<open>SELECT max(updated_at) FROM map\<close>: one row, NULL when no row has a value.\<close>

definition max_updated_at :: "sql_store \<Rightarrow> int option" where
  "max_updated_at db =
     (case [u. Some u \<leftarrow> map updated_at (map_rows db)] of
        [] \<Rightarrow> None
      | u # us \<Rightarrow> Some (fold max us u))"

definition sqlite_max_timestamp :: "sql_store \<Rightarrow> pyval" where
  "sqlite_max_timestamp db =
     (if has_columns db ''map'' [''updated_at'']
      then py_opt_int (max_updated_at db)
      else PyInt 0)"

definition sqlite_tiles_count ::
    "sql_store \<Rightarrow> int \<Rightarrow> int \<Rightarrow> int \<Rightarrow> int \<Rightarrow> int option \<Rightarrow> int outcome" where
  "sqlite_tiles_count db min_zoom max_zoom min_timestamp max_timestamp scale =
     (let sql = [];
          sql = sql @ (if min_zoom > 0 then [Cond (ZoomGe min_zoom), AND] else []);
          sql = sql @ (if max_zoom < 18 then [Cond (ZoomLe max_zoom), AND] else []);
          (hs, db) = sqlite_has_scale db;
          sql = sql @ (case scale of
                         Some sc \<Rightarrow> if hs then [Cond (ScaleEq sc), AND] else []
                       | None \<Rightarrow> []);
          (ic, db) = sqlite_is_compacted db;
          sql = sql @
            (if ic then
               (if min_timestamp > 0 then [Cond (UpdatedGt min_timestamp), AND] else []) @
               (if max_timestamp > 0 then [Cond (UpdatedLt max_timestamp), AND] else []) @
               [Cond TileIdNotNull]
             else [])
      in (count_map OperationalError db sql, db))"

text \<open>
  \<^verbatim>\<open>tiles\<close> is a generator: the model returns the list of what it yields (the chunks of
  \<^verbatim>\<open>fetchmany\<close>, one after the other, are the rows of the result).
\<close>

definition sqlite_tiles ::
    "sql_store \<Rightarrow> int \<Rightarrow> int \<Rightarrow> int \<Rightarrow> int \<Rightarrow> int option \<Rightarrow> tile list outcome" where
  "sqlite_tiles db min_zoom max_zoom min_timestamp max_timestamp scale =
     (let (hs, db) = sqlite_has_scale db;
          sel = (if hs then ScaleColumn
                 else (case scale of Some sc \<Rightarrow> ScaleConst sc | None \<Rightarrow> ScaleConst 1));
          sql = [];
          sql = sql @ (if min_zoom > 0 then [Cond (ZoomGe min_zoom), AND] else []);
          sql = sql @ (if max_zoom < 18 then [Cond (ZoomLe max_zoom), AND] else []);
          (hs, db) = sqlite_has_scale db;
          sql = sql @ (case scale of
                         Some sc \<Rightarrow> if hs then [Cond (ScaleEq sc), AND] else []
                       | None \<Rightarrow> []);
          (ic, db) = sqlite_is_compacted db;
          sql = sql @
            (if ic then
               (if min_timestamp > 0 then [Cond (UpdatedGt min_timestamp), AND] else []) @
               (if max_timestamp > 0 then [Cond (UpdatedLt max_timestamp), AND] else [])
             else []);
          sql = sql @ [Cond One]
      in (select_tiles OperationalError db sel sql, db))"

text \<open>
  \<^verbatim>\<open>updates\<close>: the rows of map in the window joined with their image, and (UNION, which
  drops repeated rows) the rows of map in the window with a NULL \<^verbatim>\<open>tile_id\<close>.  The
  bounds are bound parameters; the comparisons are strict for the timestamps.
\<close>

type_synonym update_row = "int \<times> int \<times> int \<times> int \<times> string option \<times> string option"

definition in_window :: "int \<Rightarrow> int \<Rightarrow> int \<Rightarrow> int \<Rightarrow> map_row \<Rightarrow> bool" where
  "in_window min_zoom max_zoom min_timestamp max_timestamp m =
     (zoom_level m \<ge> min_zoom \<and> zoom_level m \<le> max_zoom \<and>
      (case updated_at m of
         None \<Rightarrow> False
       | Some u \<Rightarrow> u > min_timestamp \<and> u < max_timestamp))"

definition updates_rows :: "sql_store \<Rightarrow> int \<Rightarrow> int \<Rightarrow> int \<Rightarrow> int \<Rightarrow> update_row list" where
  "updates_rows db min_zoom max_zoom min_timestamp max_timestamp =
     remdups
       ([(zoom_level m, tile_column m, tile_row m, tile_scale m, Some (image_data i), image_id i).
           m \<leftarrow> map_rows db, i \<leftarrow> images_rows db,
           in_window min_zoom max_zoom min_timestamp max_timestamp m \<and>
           image_id i \<noteq> None \<and> image_id i = tile_id m] @
        [(zoom_level m, tile_column m, tile_row m, tile_scale m, None, None).
           m \<leftarrow> map_rows db,
           in_window min_zoom max_zoom min_timestamp max_timestamp m \<and> tile_id m = None])"

definition sqlite_updates ::
    "sql_store \<Rightarrow> int \<Rightarrow> int \<Rightarrow> int \<Rightarrow> int \<Rightarrow> error + update_row list" where
  "sqlite_updates db min_zoom max_zoom min_timestamp max_timestamp =
     (if has_columns db ''map'' map_columns \<and> has_columns db ''images'' images_columns
      then Inr (updates_rows db min_zoom max_zoom min_timestamp max_timestamp)
      else Inl OperationalError)"

text \<open>
  \<^verbatim>\<open>delete_tiles\<close>.  In the compacted branch the line for \<^verbatim>\<open>max_timestamp\<close> that
  extends \<^verbatim>\<open>sql_images\<close> has no \<^verbatim>\<open>%\<close> between the string and the tuple: Python calls
  the string and raises TypeError.  The other branch appends to a local \<^verbatim>\<open>sql\<close> that
  was never assigned.
\<close>

definition sqlite_delete_tiles ::
    "sql_store \<Rightarrow> int \<Rightarrow> int \<Rightarrow> int \<Rightarrow> int \<Rightarrow> int option \<Rightarrow> unit outcome" where
  "sqlite_delete_tiles db min_zoom max_zoom min_timestamp max_timestamp scale =
     (let (ic, db) = sqlite_is_compacted db in
      if ic then
        (let sql_images = [Cond (ZoomGe min_zoom), AND, Cond (ZoomLe max_zoom)];
             sql_map = [Cond (ZoomGe min_zoom), AND, Cond (ZoomLe max_zoom)];
             (hs, db) = sqlite_has_scale db;
             sql_images = sql_images @
               (case scale of Some sc \<Rightarrow> if hs then [AND, Cond (ScaleEq sc)] else [] | None \<Rightarrow> []);
             sql_map = sql_map @
               (case scale of Some sc \<Rightarrow> if hs then [AND, Cond (ScaleEq sc)] else [] | None \<Rightarrow> []);
             sql_images = sql_images @
               (if min_timestamp > 0 then [AND, Cond (UpdatedGt min_timestamp)] else []);
             sql_map = sql_map @
               (if min_timestamp > 0 then [AND, Cond (UpdatedGt min_timestamp)] else [])
         in if max_timestamp > 0 then (Inl TypeError, db)
            else
              (case delete_images_in OperationalError sql_images db of
                 Inl e \<Rightarrow> (Inl e, db)
               | Inr db \<Rightarrow>
                   (case delete_map OperationalError sql_map db of
                      Inl e \<Rightarrow> (Inl e, db)
                    | Inr db \<Rightarrow> (Inr (), db))))
      else (Inl UnboundLocalError, db))"

text \<open>\<^verbatim>\<open>expire_tile\<close>; \<open>now\<close> is \<^verbatim>\<open>int(time.time())\<close> at the call.\<close>

definition sqlite_expire_tile ::
    "int \<Rightarrow> sql_store \<Rightarrow> int \<Rightarrow> int \<Rightarrow> int \<Rightarrow> int option \<Rightarrow> unit outcome" where
  "sqlite_expire_tile now db tile_z tile_x tile_y scale =
     (let (ic, db) = sqlite_is_compacted db in
      if ic then
        (let sql_images = [Cond (ZoomEq tile_z), AND, Cond (ColumnEq tile_x), AND, Cond (RowEq tile_y)];
             sql_map = [Cond (ZoomEq tile_z), AND, Cond (ColumnEq tile_x), AND, Cond (RowEq tile_y)];
             (hs, db) = sqlite_has_scale db;
             sql_images = sql_images @
               (case scale of Some sc \<Rightarrow> if hs then [AND, Cond (ScaleEq sc)] else [] | None \<Rightarrow> []);
             sql_map = sql_map @
               (case scale of Some sc \<Rightarrow> if hs then [AND, Cond (ScaleEq sc)] else [] | None \<Rightarrow> [])
         in (case delete_images_in OperationalError sql_images db of
               Inl e \<Rightarrow> (Inl e, db)
             | Inr db \<Rightarrow>
                 (case expire_map OperationalError now sql_map db of
                    Inl e \<Rightarrow> (Inl e, db)
                  | Inr db \<Rightarrow> (Inr (), db))))
      else
        (let sql = [Cond (ZoomEq tile_z), AND, Cond (ColumnEq tile_x), AND, Cond (RowEq tile_y)];
             (hs, db) = sqlite_has_scale db;
             sql = sql @
               (case scale of Some sc \<Rightarrow> if hs then [AND, Cond (ScaleEq sc)] else [] | None \<Rightarrow> [])
         in (case delete_from_tiles OperationalError sql db of
               Inl e \<Rightarrow> (Inl e, db)
             | Inr db \<Rightarrow> (Inr (), db))))"

section \<open>The Postgres and MySQL stores (classes MBTilesPostgres, MBTilesMySQL)\<close>

text \<open>
  Neither class overrides \<^verbatim>\<open>is_compacted\<close>, and MySQL does not override
  \<^verbatim>\<open>has_scale\<close>: the base class answers True.  Postgres probes map as SQLite does.
\<close>

definition base_is_compacted :: "sql_store \<Rightarrow> bool \<times> sql_store" where
  "base_is_compacted db = (True, db)"

definition base_has_scale :: "sql_store \<Rightarrow> bool \<times> sql_store" where
  "base_has_scale db = (True, db)"

definition postgres_has_scale :: "sql_store \<Rightarrow> bool \<times> sql_store" where
  "postgres_has_scale db =
     (case database_has_scale db of
        None \<Rightarrow>
          (let c = has_columns db ''map'' [''tile_scale'']
           in (c, db\<lparr>database_has_scale := Some c\<rparr>))
      | Some c \<Rightarrow> (c, db))"

definition postgres_delete_tiles ::
    "sql_store \<Rightarrow> int \<Rightarrow> int \<Rightarrow> int \<Rightarrow> int \<Rightarrow> int option \<Rightarrow> unit outcome" where
  "postgres_delete_tiles db min_zoom max_zoom min_timestamp max_timestamp scale =
     (let sql_images = [Cond (ZoomGe min_zoom), AND, Cond (ZoomLe max_zoom)];
          sql_map = [Cond (ZoomGe min_zoom), AND, Cond (ZoomLe max_zoom)];
          (hs, db) = postgres_has_scale db;
          sql_images = sql_images @
            (case scale of Some sc \<Rightarrow> if hs then [AND, Cond (ScaleEq sc)] else [] | None \<Rightarrow> []);
          sql_map = sql_map @
            (case scale of Some sc \<Rightarrow> if hs then [AND, Cond (ScaleEq sc)] else [] | None \<Rightarrow> []);
          sql_images = sql_images @
            (if min_timestamp > 0 then [AND, Cond (UpdatedGt min_timestamp)] else []);
          sql_map = sql_map @
            (if min_timestamp > 0 then [AND, Cond (UpdatedGt min_timestamp)] else [])
      in if max_timestamp > 0 then (Inl TypeError, db)
         else
           (case delete_images_in ProgrammingError sql_images db of
              Inl e \<Rightarrow> (Inl e, db)
            | Inr db \<Rightarrow>
                (case delete_map ProgrammingError sql_map db of
                   Inl e \<Rightarrow> (Inl e, db)
                 | Inr db \<Rightarrow> (Inr (), db))))"

text \<open>
  The MySQL method goes on, after the two deletions, with the statements of
  \<^verbatim>\<open>expire_tiles\<close> (the class has no method of that name: its body follows
  \<^verbatim>\<open>delete_tiles\<close> without a \<^verbatim>\<open>def\<close> line).
\<close>

definition mysql_delete_tiles ::
    "int \<Rightarrow> sql_store \<Rightarrow> int \<Rightarrow> int \<Rightarrow> int \<Rightarrow> int \<Rightarrow> int option \<Rightarrow> unit outcome" where
  "mysql_delete_tiles now db min_zoom max_zoom min_timestamp max_timestamp scale =
     (let sql_images = [Cond (ZoomGe min_zoom), AND, Cond (ZoomLe max_zoom)];
          sql_map = [Cond (ZoomGe min_zoom), AND, Cond (ZoomLe max_zoom)];
          sql_images = sql_images @
            (case scale of Some sc \<Rightarrow> [AND, Cond (ScaleEq sc)] | None \<Rightarrow> []);
          sql_map = sql_map @
            (case scale of Some sc \<Rightarrow> [AND, Cond (ScaleEq sc)] | None \<Rightarrow> []);
          sql_images = sql_images @
            (if min_timestamp > 0 then [AND, Cond (UpdatedGt min_timestamp)] else []);
          sql_map = sql_map @
            (if min_timestamp > 0 then [AND, Cond (UpdatedGt min_timestamp)] else [])
      in if max_timestamp > 0 then (Inl TypeError, db)
         else
           (case delete_images_in ProgrammingError sql_images db of
              Inl e \<Rightarrow> (Inl e, db)
            | Inr db \<Rightarrow>
                (case delete_map ProgrammingError sql_map db of
                   Inl e \<Rightarrow> (Inl e, db)
                 | Inr db \<Rightarrow>
                     (case delete_images_in ProgrammingError sql_images db of
                        Inl e \<Rightarrow> (Inl e, db)
                      | Inr db \<Rightarrow>
                          (case expire_map ProgrammingError now sql_map db of
                             Inl e \<Rightarrow> (Inl e, db)
                           | Inr db \<Rightarrow> (Inr (), db))))))"

text \<open>
  \<^verbatim>\<open>max_timestamp\<close>.  The query returns one row whatever map holds, so the row
  Postgres fetches is never empty, and MySQL returns the first row itself (a tuple), not
  its field.  A query the server refuses raises.
\<close>

definition postgres_max_timestamp :: "sql_store \<Rightarrow> error + pyval" where
  "postgres_max_timestamp db =
     (if has_columns db ''map'' [''updated_at'']
      then (let result = [py_opt_int (max_updated_at db)]
            in if result = [] then Inr (PyInt 0) else Inr (hd result))
      else Inl ProgrammingError)"

definition mysql_max_timestamp :: "sql_store \<Rightarrow> error + pyval" where
  "mysql_max_timestamp db =
     (if has_columns db ''map'' [''updated_at'']
      then (let result = [PyTuple [py_opt_int (max_updated_at db)]]
            in if result = [] \<or> length result = 0 then Inr (PyInt 0) else Inr (hd result))
      else Inl ProgrammingError)"

text \<open>What a store holds, without the caches of the handle.\<close>

definition contents ::
    "sql_store \<Rightarrow> (string \<rightharpoonup> relation) \<times> (string \<rightharpoonup> string \<times> string list) \<times> (string \<Rightarrow> nat set) \<times>
       map_row list \<times> image_row list \<times> (string \<times> string) list \<times> tiles_row list" where
  "contents db =
     (relations db, indexes db, procs db, map_rows db, images_rows db, metadata_rows db,
      tiles_rows db)"



subsection \<open>What the three servers accept\<close>

text \<open>
  The classes send their SQL text to three different servers, which do not read the same
  language.  Two differences decide what the methods below do.  SQLite alone has
  \<^verbatim>\<open>==\<close> as a comparison operator; Postgres and MySQL compare with \<^verbatim>\<open>=\<close> and refuse
  a statement that holds \<^verbatim>\<open>==\<close>.  SQLite and MySQL take the integer literal
  \<^verbatim>\<open>1\<close> as a condition that is true; Postgres takes only a boolean where a condition
  stands and refuses \<^verbatim>\<open>WHERE 1\<close> and \<^verbatim>\<open>... AND 1\<close> (argument of WHERE, or of AND, must
  be type boolean, not type integer).
\<close>

datatype dialect = SQLiteDialect | PostgresDialect | MySQLDialect

datatype equality = SingleEquals | DoubleEquals

definition knows_equality :: "dialect \<Rightarrow> equality \<Rightarrow> bool" where
  "knows_equality d eq = (eq = SingleEquals \<or> d = SQLiteDialect)"

definition integer_as_condition :: "dialect \<Rightarrow> bool" where
  "integer_as_condition d = (d \<noteq> PostgresDialect)"

text \<open>
  \<^verbatim>\<open>SELECT zoom_level, tile_column, tile_row, <scale>, tile_data FROM tiles WHERE ...\<close>
  as the server of the dialect answers it.
\<close>

definition dialect_select_tiles ::
    "dialect \<Rightarrow> error \<Rightarrow> sql_store \<Rightarrow> scale_select \<Rightarrow> sql_token list \<Rightarrow> error + tile list" where
  "dialect_select_tiles d refused db sel toks =
     (if Cond One \<in> set toks \<and> \<not> integer_as_condition d then Inl refused
      else select_tiles refused db sel toks)"

text \<open>
  The query of \<^verbatim>\<open>updates\<close>, whose join condition compares \<^verbatim>\<open>images.tile_id\<close> and
  \<^verbatim>\<open>map.tile_id\<close> with the operator \<open>eq\<close>.
\<close>

definition updates_query ::
    "dialect \<Rightarrow> equality \<Rightarrow> error \<Rightarrow> sql_store \<Rightarrow> int \<Rightarrow> int \<Rightarrow> int \<Rightarrow> int \<Rightarrow>
       error + update_row list" where
  "updates_query d eq refused db min_zoom max_zoom min_timestamp max_timestamp =
     (if knows_equality d eq \<and>
         has_columns db ''map'' map_columns \<and> has_columns db ''images'' images_columns
      then Inr (updates_rows db min_zoom max_zoom min_timestamp max_timestamp)
      else Inl refused)"

subsection \<open>tiles, updates and expire_tile of the two classes\<close>

text \<open>
  \<^verbatim>\<open>tiles\<close> and \<^verbatim>\<open>updates\<close> open a second connection to the same database for their
  cursor; the classes run with autocommit, so the second connection reads the rows the
  first has written.  Both \<^verbatim>\<open>tiles\<close> methods end their condition with \<^verbatim>\<open>" 1 "\<close>, as
  the SQLite method does.
\<close>

definition postgres_tiles ::
    "sql_store \<Rightarrow> int \<Rightarrow> int \<Rightarrow> int \<Rightarrow> int \<Rightarrow> int option \<Rightarrow> tile list outcome" where
  "postgres_tiles db min_zoom max_zoom min_timestamp max_timestamp scale =
     (let (hs, db) = postgres_has_scale db;
          sel = (if hs then ScaleColumn
                 else (case scale of Some sc \<Rightarrow> ScaleConst sc | None \<Rightarrow> ScaleConst 1));
          sql = [];
          sql = sql @ (if min_zoom > 0 then [Cond (ZoomGe min_zoom), AND] else []);
          sql = sql @ (if max_zoom < 18 then [Cond (ZoomLe max_zoom), AND] else []);
          (hs, db) = postgres_has_scale db;
          sql = sql @ (case scale of
                         Some sc \<Rightarrow> if hs then [Cond (ScaleEq sc), AND] else []
                       | None \<Rightarrow> []);
          sql = sql @ (if min_timestamp > 0 then [Cond (UpdatedGt min_timestamp), AND] else []);
          sql = sql @ (if max_timestamp > 0 then [Cond (UpdatedLt max_timestamp), AND] else []);
          sql = sql @ [Cond One]
      in (dialect_select_tiles PostgresDialect ProgrammingError db sel sql, db))"

definition mysql_tiles ::
    "sql_store \<Rightarrow> int \<Rightarrow> int \<Rightarrow> int \<Rightarrow> int \<Rightarrow> int option \<Rightarrow> tile list outcome" where
  "mysql_tiles db min_zoom max_zoom min_timestamp max_timestamp scale =
     (let sql = [];
          sql = sql @ (if min_zoom > 0 then [Cond (ZoomGe min_zoom), AND] else []);
          sql = sql @ (if max_zoom < 18 then [Cond (ZoomLe max_zoom), AND] else []);
          sql = sql @ (case scale of Some sc \<Rightarrow> [Cond (ScaleEq sc), AND] | None \<Rightarrow> []);
          sql = sql @ (if min_timestamp > 0 then [Cond (UpdatedGt min_timestamp), AND] else []);
          sql = sql @ (if max_timestamp > 0 then [Cond (UpdatedLt max_timestamp), AND] else []);
          sql = sql @ [Cond One]
      in (dialect_select_tiles MySQLDialect ProgrammingError db ScaleColumn sql, db))"

text \<open>
  \<^verbatim>\<open>updates\<close>.  The Postgres method joins with
  \<^verbatim>\<open>(images.tile_id = map.tile_id)\<close>; the MySQL method has the text of the SQLite method,
  with \<^verbatim>\<open>(images.tile_id == map.tile_id)\<close>.
\<close>

definition postgres_updates ::
    "sql_store \<Rightarrow> int \<Rightarrow> int \<Rightarrow> int \<Rightarrow> int \<Rightarrow> error + update_row list" where
  "postgres_updates db min_zoom max_zoom min_timestamp max_timestamp =
     updates_query PostgresDialect SingleEquals ProgrammingError db
       min_zoom max_zoom min_timestamp max_timestamp"

definition mysql_updates ::
    "sql_store \<Rightarrow> int \<Rightarrow> int \<Rightarrow> int \<Rightarrow> int \<Rightarrow> error + update_row list" where
  "mysql_updates db min_zoom max_zoom min_timestamp max_timestamp =
     updates_query MySQLDialect DoubleEquals ProgrammingError db
       min_zoom max_zoom min_timestamp max_timestamp"

text \<open>
  \<^verbatim>\<open>expire_tile\<close>: the two statements of the compacted branch of the SQLite method,
  without a test of \<^verbatim>\<open>is_compacted\<close>.
\<close>

definition postgres_expire_tile ::
    "int \<Rightarrow> sql_store \<Rightarrow> int \<Rightarrow> int \<Rightarrow> int \<Rightarrow> int option \<Rightarrow> unit outcome" where
  "postgres_expire_tile now db tile_z tile_x tile_y scale =
     (let sql_images = [Cond (ZoomEq tile_z), AND, Cond (ColumnEq tile_x), AND, Cond (RowEq tile_y)];
          sql_map = [Cond (ZoomEq tile_z), AND, Cond (ColumnEq tile_x), AND, Cond (RowEq tile_y)];
          (hs, db) = postgres_has_scale db;
          sql_images = sql_images @
            (case scale of Some sc \<Rightarrow> if hs then [AND, Cond (ScaleEq sc)] else [] | None \<Rightarrow> []);
          sql_map = sql_map @
            (case scale of Some sc \<Rightarrow> if hs then [AND, Cond (ScaleEq sc)] else [] | None \<Rightarrow> [])
      in (case delete_images_in ProgrammingError sql_images db of
            Inl e \<Rightarrow> (Inl e, db)
          | Inr db \<Rightarrow>
              (case expire_map ProgrammingError now sql_map db of
                 Inl e \<Rightarrow> (Inl e, db)
               | Inr db \<Rightarrow> (Inr (), db))))"

definition mysql_expire_tile ::
    "int \<Rightarrow> sql_store \<Rightarrow> int \<Rightarrow> int \<Rightarrow> int \<Rightarrow> int option \<Rightarrow> unit outcome" where
  "mysql_expire_tile now db tile_z tile_x tile_y scale =
     (let sql_images = [Cond (ZoomEq tile_z), AND, Cond (ColumnEq tile_x), AND, Cond (RowEq tile_y)];
          sql_map = [Cond (ZoomEq tile_z), AND, Cond (ColumnEq tile_x), AND, Cond (RowEq tile_y)];
          sql_images = sql_images @
            (case scale of Some sc \<Rightarrow> [AND, Cond (ScaleEq sc)] | None \<Rightarrow> []);
          sql_map = sql_map @
            (case scale of Some sc \<Rightarrow> [AND, Cond (ScaleEq sc)] | None \<Rightarrow> [])
      in (case delete_images_in ProgrammingError sql_images db of
            Inl e \<Rightarrow> (Inl e, db)
          | Inr db \<Rightarrow>
              (case expire_map ProgrammingError now sql_map db of
                 Inl e \<Rightarrow> (Inl e, db)
               | Inr db \<Rightarrow> (Inr (), db))))"

section \<open>Schema setup of the Postgres and MySQL stores\<close>

subsection \<open>Postgres\<close>

text \<open>
  The statements of \<^verbatim>\<open>MBTilesPostgres.mbtiles_setup\<close>.  Tables, views and indexes are
  the relations of \<^verbatim>\<open>pg_class\<close>; the method looks a name up there before it creates an
  index.  Postgres checks the tables and columns a view reads when the view is created,
  and replaces a view only by one that keeps the old columns in front.  A refused
  statement is a \<^verbatim>\<open>psycopg2.ProgrammingError\<close>, a unique index over repeated keys a
  \<^verbatim>\<open>psycopg2.IntegrityError\<close>; the connection commits every statement by itself.
\<close>

definition pg_class_count :: "sql_store \<Rightarrow> string \<Rightarrow> nat" where
  "pg_class_count db n = (if relations db n \<noteq> None \<or> indexes db n \<noteq> None then 1 else 0)"

definition pg_create_table_if_not_exists ::
    "string \<Rightarrow> string list \<Rightarrow> sql_store \<Rightarrow> error + sql_store" where
  "pg_create_table_if_not_exists n cols db =
     (if pg_class_count db n \<noteq> 0 then Inr db else Inr (add_table n cols db))"

definition pg_create_unique_index ::
    "string \<Rightarrow> string \<Rightarrow> string list \<Rightarrow> sql_store \<Rightarrow> error + sql_store" where
  "pg_create_unique_index n tbl cols db =
     (if pg_class_count db n \<noteq> 0 then Inl ProgrammingError
      else
        (case relations db tbl of
           Some (Table tcols) \<Rightarrow>
             if \<not> list_all (\<lambda>c. c \<in> set tcols) cols then Inl ProgrammingError
             else if duplicate_keys db tbl cols then Inl IntegrityError
             else Inr (add_index n tbl cols db)
         | _ \<Rightarrow> Inl ProgrammingError))"

definition pg_create_or_replace_view ::
    "string \<Rightarrow> string list \<Rightarrow> sql_store \<Rightarrow> error + sql_store" where
  "pg_create_or_replace_view n cols db =
     (if \<not> view_sources_ok db cols then Inl ProgrammingError
      else
        (case relations db n of
           Some (Table _) \<Rightarrow> Inl ProgrammingError
         | Some (View old) \<Rightarrow>
             if prefix old cols then Inr (add_view n cols db) else Inl ProgrammingError
         | None \<Rightarrow>
             if indexes db n \<noteq> None then Inl ProgrammingError
             else Inr (add_view n cols db)))"

text \<open>A stored procedure is known by its name and the number of its arguments.\<close>

definition pg_create_or_replace_function :: "string \<Rightarrow> nat \<Rightarrow> sql_store \<Rightarrow> error + sql_store" where
  "pg_create_or_replace_function n arity db =
     Inr (db\<lparr>procs := (procs db)(n := insert arity (procs db n))\<rparr>)"

text \<open>
  The tests of the method: a name that \<^verbatim>\<open>pg_class\<close> does not have yet, the answer of
  \<^verbatim>\<open>has_scale()\<close>, a procedure name that \<^verbatim>\<open>pg_proc\<close> does not have yet.
\<close>

definition if_pg_class_missing :: "string \<Rightarrow> sql_store step \<Rightarrow> sql_store step" where
  "if_pg_class_missing n f db = (if pg_class_count db n = 0 then f db else (None, db))"

definition if_has_scale :: "sql_store step \<Rightarrow> sql_store step \<Rightarrow> sql_store step" where
  "if_has_scale f g db = (let (hs, db) = postgres_has_scale db in if hs then f db else g db)"

definition if_pg_proc_missing :: "string \<Rightarrow> sql_store step \<Rightarrow> sql_store step" where
  "if_pg_proc_missing n f db = (if procs db n = {} then f db else (None, db))"

definition postgres_mbtiles_setup :: "sql_store step" where
  "postgres_mbtiles_setup =
     run
      [stmt (pg_create_table_if_not_exists ''images'' images_columns),
       stmt (pg_create_table_if_not_exists ''map'' map_columns),
       stmt (pg_create_table_if_not_exists ''metadata'' metadata_columns),
       if_pg_class_missing ''metadata_name_index''
         (stmt (pg_create_unique_index ''metadata_name_index'' ''metadata'' [''name''])),
       if_has_scale
         (stmt (pg_create_or_replace_view ''tiles'' tiles_view_columns))
         (stmt (pg_create_or_replace_view ''tiles'' tiles_view_columns_no_scale)),
       if_pg_class_missing ''map_coordinate_index''
         (if_has_scale
            (stmt (pg_create_unique_index ''map_coordinate_index'' ''map'' coordinate_columns))
            (stmt (pg_create_unique_index ''map_coordinate_index'' ''map''
                     coordinate_columns_no_scale))),
       if_pg_class_missing ''images_id_index''
         (stmt (pg_create_unique_index ''images_id_index'' ''images'' [''tile_id''])),
       if_pg_proc_missing ''update_map_proc''
         (stmt (pg_create_or_replace_function ''update_map_proc'' 6)),
       if_has_scale skip (stmt (pg_create_or_replace_function ''update_map_proc'' 5))]"

subsection \<open>MySQL\<close>

text \<open>
  The statements of \<^verbatim>\<open>MBTilesMySQL.mbtiles_setup\<close>: every statement but the three
  \<^verbatim>\<open>CREATE TABLE IF NOT EXISTS\<close> stands in a \<^verbatim>\<open>try\<close> whose handler is \<^verbatim>\<open>pass\<close>.  An
  index is named within its table; the model keeps one index of a name.
\<close>

definition my_create_table_if_not_exists ::
    "string \<Rightarrow> string list \<Rightarrow> sql_store \<Rightarrow> error + sql_store" where
  "my_create_table_if_not_exists n cols db =
     (if relations db n \<noteq> None then Inr db else Inr (add_table n cols db))"

definition my_create_unique_index ::
    "string \<Rightarrow> string \<Rightarrow> string list \<Rightarrow> sql_store \<Rightarrow> error + sql_store" where
  "my_create_unique_index n tbl cols db =
     (case relations db tbl of
        Some (Table tcols) \<Rightarrow>
          if indexes db n \<noteq> None then Inl ProgrammingError
          else if \<not> list_all (\<lambda>c. c \<in> set tcols) cols then Inl ProgrammingError
          else if duplicate_keys db tbl cols then Inl IntegrityError
          else Inr (add_index n tbl cols db)
      | _ \<Rightarrow> Inl ProgrammingError)"

definition my_create_view :: "string \<Rightarrow> string list \<Rightarrow> sql_store \<Rightarrow> error + sql_store" where
  "my_create_view n cols db =
     (if relations db n \<noteq> None then Inl ProgrammingError
      else if \<not> view_sources_ok db cols then Inl ProgrammingError
      else Inr (add_view n cols db))"

definition mysql_mbtiles_setup :: "sql_store step" where
  "mysql_mbtiles_setup =
     run
      [stmt (my_create_table_if_not_exists ''images'' images_columns),
       stmt (my_create_table_if_not_exists ''map'' map_columns),
       stmt (my_create_table_if_not_exists ''metadata'' metadata_columns),
       try_except bare_except
         (stmt (my_create_unique_index ''metadata_name_index'' ''metadata'' [''name''])),
       try_except any_exception (stmt (my_create_view ''tiles'' tiles_view_columns)),
       try_except bare_except
         (stmt (my_create_unique_index ''map_index'' ''map'' coordinate_columns)),
       try_except bare_except
         (stmt (my_create_unique_index ''images_id_index'' ''images'' [''tile_id'']))]"

section \<open>The MongoDB store (class MBTilesMongoDB)\<close>

text \<open>
  A document of the collection \<^verbatim>\<open>tiles\<close> has the key \<^verbatim>\<open>"z/x/y/scale"\<close> and the fields
  \<^verbatim>\<open>z\<close>, \<^verbatim>\<open>s\<close>, \<^verbatim>\<open>t\<close>, \<^verbatim>\<open>d\<close>; a field can be missing.  A query is a
  dictionary from field names to a value or to a dictionary of comparison operators.
\<close>

record mongo_doc =
  doc_id :: string
  doc_z :: "int option"
  doc_s :: "int option"
  doc_t :: "int option"
  doc_d :: string

record mongo_db =
  tiles_collection :: "mongo_doc list"
  metadata_collection :: "(string \<times> string) list"


















definition mongodb_max_timestamp :: "mongo_db \<Rightarrow> pyval" where
  "mongodb_max_timestamp db = PyInt 0"

text \<open>
  The unsupported methods are \<^verbatim>\<open>raise("Not implemented")\<close>.  Python 2.6 and later
  refuse to raise a string: the statement raises TypeError (exceptions must be old-style
  classes or derived from BaseException, not str).  None of them is a generator, so the
  exception is raised by the call.
\<close>

definition raise_str :: "string \<Rightarrow> mongo_db \<Rightarrow> (error + 'a) \<times> mongo_db" where
  "raise_str msg db = (Inl TypeError, db)"

definition mongodb_columns_and_rows_for_zoom_level ::
    "mongo_db \<Rightarrow> int \<Rightarrow> int option \<Rightarrow> (error + (int \<times> int) list) \<times> mongo_db" where
  "mongodb_columns_and_rows_for_zoom_level db zoom scale = raise_str ''Not implemented'' db"

definition mongodb_columns_for_zoom_level_and_row ::
    "mongo_db \<Rightarrow> int \<Rightarrow> int \<Rightarrow> int option \<Rightarrow> (error + int set) \<times> mongo_db" where
  "mongodb_columns_for_zoom_level_and_row db zoom row scale = raise_str ''Not implemented'' db"

definition mongodb_updates ::
    "mongo_db \<Rightarrow> int \<Rightarrow> int \<Rightarrow> int \<Rightarrow> int \<Rightarrow> (error + update_row list) \<times> mongo_db" where
  "mongodb_updates db min_zoom max_zoom min_timestamp max_timestamp = raise_str ''Not implemented'' db"

definition mongodb_updates_count ::
    "mongo_db \<Rightarrow> int \<Rightarrow> int \<Rightarrow> int \<Rightarrow> int \<Rightarrow> (error + int) \<times> mongo_db" where
  "mongodb_updates_count db min_zoom max_zoom min_timestamp max_timestamp = raise_str ''Not implemented'' db"

definition mongodb_delete_tiles ::
    "mongo_db \<Rightarrow> int \<Rightarrow> int \<Rightarrow> int \<Rightarrow> int \<Rightarrow> int option \<Rightarrow> (error + unit) \<times> mongo_db" where
  "mongodb_delete_tiles db min_zoom max_zoom min_timestamp max_timestamp scale =
     raise_str ''Not implemented'' db"

definition mongodb_bounding_box_for_zoom_level ::
    "mongo_db \<Rightarrow> int \<Rightarrow> int option \<Rightarrow> (error + int \<times> int \<times> int \<times> int) \<times> mongo_db" where
  "mongodb_bounding_box_for_zoom_level db zoom scale = raise_str ''Not implemented'' db"

section \<open>The four stores behind one interface\<close>

datatype store = SQLite sql_store | Postgres sql_store | MySQL sql_store | MongoDB mongo_db

text \<open>\<^verbatim>\<open>MBTilesMongoDB.mbtiles_setup\<close> is \<^verbatim>\<open>pass\<close>.\<close>

fun mbtiles_setup :: "store \<Rightarrow> error option \<times> store" where
  "mbtiles_setup (SQLite db) = (case sqlite_mbtiles_setup db of (r, db') \<Rightarrow> (r, SQLite db'))"
| "mbtiles_setup (Postgres db) = (case postgres_mbtiles_setup db of (r, db') \<Rightarrow> (r, Postgres db'))"
| "mbtiles_setup (MySQL db) = (case mysql_mbtiles_setup db of (r, db') \<Rightarrow> (r, MySQL db'))"
| "mbtiles_setup (MongoDB db) = (None, MongoDB db)"

fun is_compacted :: "store \<Rightarrow> bool \<times> store" where
  "is_compacted (SQLite db) = (case sqlite_is_compacted db of (c, db') \<Rightarrow> (c, SQLite db'))"
| "is_compacted (Postgres db) = (case base_is_compacted db of (c, db') \<Rightarrow> (c, Postgres db'))"
| "is_compacted (MySQL db) = (case base_is_compacted db of (c, db') \<Rightarrow> (c, MySQL db'))"
| "is_compacted (MongoDB db) = (False, MongoDB db)"

fun has_scale :: "store \<Rightarrow> bool \<times> store" where
  "has_scale (SQLite db) = (case sqlite_has_scale db of (c, db') \<Rightarrow> (c, SQLite db'))"
| "has_scale (Postgres db) = (case postgres_has_scale db of (c, db') \<Rightarrow> (c, Postgres db'))"
| "has_scale (MySQL db) = (case base_has_scale db of (c, db') \<Rightarrow> (c, MySQL db'))"
| "has_scale (MongoDB db) = (True, MongoDB db)"

text \<open>
  What a successful \<^verbatim>\<open>mbtiles_setup\<close> has established, for SQLite and for Postgres.
\<close>

definition sqlite_setup_done :: "sql_store \<Rightarrow> bool" where
  "sqlite_setup_done db =
     ((\<exists>c. relations db ''images'' = Some (Table c)) \<and>
      (\<exists>c. relations db ''map'' = Some (Table c) \<and> ''tile_scale'' \<in> set c \<and> ''updated_at'' \<in> set c) \<and>
      (\<exists>c. relations db ''metadata'' = Some (Table c)) \<and>
      relations db ''tiles'' = Some (View tiles_view_columns) \<and>
      indexes db ''tiles'' = None \<and>
      relations db ''name'' = None \<and> relations db ''map_index'' = None \<and>
      relations db ''images_id'' = None \<and>
      indexes db ''name'' \<noteq> None \<and> indexes db ''map_index'' \<noteq> None \<and>
      indexes db ''images_id'' \<noteq> None)"

definition postgres_view_columns :: "bool \<Rightarrow> string list" where
  "postgres_view_columns hs = (if hs then tiles_view_columns else tiles_view_columns_no_scale)"

definition postgres_setup_done :: "sql_store \<Rightarrow> bool" where
  "postgres_setup_done db =
     (pg_class_count db ''images'' \<noteq> 0 \<and> pg_class_count db ''map'' \<noteq> 0 \<and>
      pg_class_count db ''metadata'' \<noteq> 0 \<and> pg_class_count db ''metadata_name_index'' \<noteq> 0 \<and>
      pg_class_count db ''map_coordinate_index'' \<noteq> 0 \<and>
      pg_class_count db ''images_id_index'' \<noteq> 0 \<and>
      procs db ''update_map_proc'' \<noteq> {} \<and>
      (\<exists>hs. database_has_scale db = Some hs \<and>
            relations db ''tiles'' = Some (View (postgres_view_columns hs)) \<and>
            view_sources_ok db (postgres_view_columns hs) \<and>
            (hs \<or> 5 \<in> procs db ''update_map_proc'')))"

text \<open>The effect of a \<^verbatim>\<open>try\<close> around \<^verbatim>\<open>ALTER TABLE map ADD COLUMN\<close> on the relations.\<close>

definition alter_effect :: "string \<Rightarrow> sql_store \<Rightarrow> sql_store \<Rightarrow> bool" where
  "alter_effect col s s' =
     ((\<forall>m. m \<noteq> ''map'' \<longrightarrow> relations s' m = relations s m) \<and>
      (\<forall>c. relations s ''map'' = Some (Table c) \<longrightarrow>
           (\<exists>c'. relations s' ''map'' = Some (Table c') \<and> set c \<subseteq> set c' \<and> col \<in> set c')) \<and>
      (\<forall>c. relations s ''map'' = Some (View c) \<longrightarrow> relations s' ''map'' = Some (View c)))"

text \<open>
  For the proofs about the Postgres and MySQL setup: a store grows when it keeps every
  name of \<^verbatim>\<open>pg_class\<close> and every procedure; what the MySQL setup has established is
  that its tables exist and that each of its guarded statements is refused; two stores
  have the same rows when map, images and metadata hold the same.
\<close>

definition grow :: "sql_store \<Rightarrow> sql_store \<Rightarrow> bool" where
  "grow s s' \<longleftrightarrow> (\<forall>n. pg_class_count s n \<noteq> 0 \<longrightarrow> pg_class_count s' n \<noteq> 0) \<and>
     (\<forall>n. procs s n \<subseteq> procs s' n)"

definition mysql_setup_done :: "sql_store \<Rightarrow> bool" where
  "mysql_setup_done db =
     (relations db ''images'' \<noteq> None \<and> relations db ''map'' \<noteq> None \<and>
      relations db ''metadata'' \<noteq> None \<and>
      isl (my_create_unique_index ''metadata_name_index'' ''metadata'' [''name''] db) \<and>
      isl (my_create_view ''tiles'' tiles_view_columns db) \<and>
      isl (my_create_unique_index ''map_index'' ''map'' coordinate_columns db) \<and>
      isl (my_create_unique_index ''images_id_index'' ''images'' [''tile_id''] db))"

definition same_rows :: "sql_store \<Rightarrow> sql_store \<Rightarrow> bool" where
  "same_rows s s' = (map_rows s' = map_rows s \<and> images_rows s' = images_rows s \<and>
     metadata_rows s' = metadata_rows s)"

section \<open>Coordinates and expiry\<close>

text \<open>
  The rows of map at one coordinate, and the store \<^verbatim>\<open>expire_tile\<close> leaves when both of
  its statements run: the images the coordinate's rows name are deleted, the rows keep
  their place with a NULL \<^verbatim>\<open>tile_id\<close> and the time of the call.
\<close>

definition at_coordinate :: "int \<Rightarrow> int \<Rightarrow> int \<Rightarrow> int \<Rightarrow> map_row \<Rightarrow> bool" where
  "at_coordinate z x y s r =
     (zoom_level r = z \<and> tile_column r = x \<and> tile_row r = y \<and> tile_scale r = s)"

definition expired_store :: "int \<Rightarrow> int \<Rightarrow> int \<Rightarrow> int \<Rightarrow> int \<Rightarrow> sql_store \<Rightarrow> sql_store" where
  "expired_store now z x y s db =
     db\<lparr>images_rows :=
          filter (\<lambda>i. \<not> (image_id i \<noteq> None \<and>
                          image_id i \<in> set (map tile_id (filter (at_coordinate z x y s) (map_rows db)))))
            (images_rows db),
        map_rows :=
          map (\<lambda>r. if at_coordinate z x y s r then r\<lparr>tile_id := None, updated_at := Some now\<rparr> else r)
            (map_rows db),
        database_is_compacted := Some True,
        database_has_scale := Some True\<rparr>"

section \<open>Stores that differ in their zoom levels only\<close>










section \<open>Example stores\<close>

text \<open>
  A store as \<^verbatim>\<open>mbtiles_setup\<close> leaves it, holding two coordinates that share one
  image, and an empty MongoDB store with one holding a tile.
\<close>

definition setup_relations :: "string \<rightharpoonup> relation" where
  "setup_relations =
     [''images'' \<mapsto> Table images_columns, ''map'' \<mapsto> Table map_columns,
      ''metadata'' \<mapsto> Table metadata_columns, ''tiles'' \<mapsto> View tiles_view_columns]"

definition setup_indexes :: "string \<rightharpoonup> string \<times> string list" where
  "setup_indexes =
     [''name'' \<mapsto> (''metadata'', [''name'']), ''map_index'' \<mapsto> (''map'', coordinate_columns),
      ''images_id'' \<mapsto> (''images'', [''tile_id''])]"

definition shared_store :: sql_store where
  "shared_store =
     \<lparr>relations = setup_relations, indexes = setup_indexes, procs = (\<lambda>n. {}),
      map_rows =
        [\<lparr>zoom_level = 1, tile_column = 0, tile_row = 0, tile_scale = 1,
          tile_id = Some ''a'', updated_at = Some 100\<rparr>,
         \<lparr>zoom_level = 2, tile_column = 0, tile_row = 0, tile_scale = 1,
          tile_id = Some ''a'', updated_at = Some 100\<rparr>],
      images_rows = [\<lparr>image_id = Some ''a'', image_data = ''A''\<rparr>],
      metadata_rows = [], tiles_rows = [],
      database_is_compacted = None, database_has_scale = None\<rparr>"

definition empty_store :: sql_store where
  "empty_store =
     \<lparr>relations = Map.empty, indexes = Map.empty, procs = (\<lambda>n. {}),
      map_rows = [], images_rows = [], metadata_rows = [], tiles_rows = [],
      database_is_compacted = None, database_has_scale = None\<rparr>"

definition empty_map_store :: sql_store where
  "empty_map_store = shared_store\<lparr>map_rows := [], images_rows := []\<rparr>"

definition empty_mongo :: mongo_db where
  "empty_mongo = \<lparr>tiles_collection = [], metadata_collection = []\<rparr>"

definition one_tile_mongo :: mongo_db where
  "one_tile_mongo =
     \<lparr>tiles_collection =
        [\<lparr>doc_id = ''3/1/2/1'', doc_z = Some 3, doc_s = None, doc_t = Some 5, doc_d = ''A''\<rparr>],
      metadata_collection = []\<rparr>"

text \<open>
  A store with two coordinates that have an image each; a store and a MongoDB collection
  that hold one tile at zoom level 19.
\<close>

definition two_tile_store :: sql_store where
  "two_tile_store =
     shared_store\<lparr>map_rows :=
          [\<lparr>zoom_level = 1, tile_column = 0, tile_row = 0, tile_scale = 1,
            tile_id = Some ''a'', updated_at = Some 100\<rparr>,
           \<lparr>zoom_level = 2, tile_column = 0, tile_row = 0, tile_scale = 1,
            tile_id = Some ''b'', updated_at = Some 100\<rparr>],
        images_rows :=
          [\<lparr>image_id = Some ''a'', image_data = ''A''\<rparr>,
           \<lparr>image_id = Some ''b'', image_data = ''B''\<rparr>]\<rparr>"



section \<open>Properties of the connection factory\<close>

text \<open>
  C8, as stated, fails: the tests of \<^verbatim>\<open>database_connect\<close> are an if/elif chain, and a
  descriptor that starts with \<open>pg:\<close> and ends in \<open>.mbtiles\<close> gets the SQLite backend,
  not the Postgres one.
\<close>

theorem database_connect_pg_prefix_counterexample:
  "prefix ''pg:'' ''pg:tiles.mbtiles'' \<and>
   constructed (database_connect ''pg:tiles.mbtiles'' default_options) \<noteq> Some MBTilesPostgres"
  by (simp add: database_connect_def suffix_to_prefix)

text \<open>
  C8, amended: the patterns are tried in the order SQLite, Postgres, MySQL, MongoDB and the
  first that matches decides.  A descriptor ending in \<open>.mbtiles\<close> gets the SQLite
  constructor with the descriptor unchanged; otherwise one that contains
  \<open>driver=postgres\<close> or starts with \<open>pg:\<close> gets the Postgres constructor, with the
  driver tag removed from the descriptor; otherwise the same for MySQL, then for MongoDB;
  a descriptor that matches no pattern gets no store: the error is logged and the process
  exits with status 1.
\<close>

theorem database_connect_dispatch:
  "(suffix ''.mbtiles'' cs \<longrightarrow>
      database_connect cs opts = Construct MBTilesSQLite cs opts) \<and>
   (\<not> suffix ''.mbtiles'' cs \<and> (sublist ''driver=postgres'' cs \<or> prefix ''pg:'' cs) \<longrightarrow>
      database_connect cs opts =
        Construct MBTilesPostgres (remove_all ''driver=postgres'' cs) opts) \<and>
   (\<not> suffix ''.mbtiles'' cs \<and> \<not> (sublist ''driver=postgres'' cs \<or> prefix ''pg:'' cs) \<and>
    (sublist ''driver=mysql'' cs \<or> prefix ''my:'' cs) \<longrightarrow>
      database_connect cs opts =
        Construct MBTilesMySQL (remove_all ''driver=mysql'' cs) opts) \<and>
   (\<not> suffix ''.mbtiles'' cs \<and> \<not> (sublist ''driver=postgres'' cs \<or> prefix ''pg:'' cs) \<and>
    \<not> (sublist ''driver=mysql'' cs \<or> prefix ''my:'' cs) \<and>
    (sublist ''driver=mongodb'' cs \<or> prefix ''mongodb:'' cs) \<longrightarrow>
      database_connect cs opts =
        Construct MBTilesMongoDB (remove_all ''driver=mongodb'' cs) opts) \<and>
   (\<not> suffix ''.mbtiles'' cs \<and> \<not> (sublist ''driver=postgres'' cs \<or> prefix ''pg:'' cs) \<and>
    \<not> (sublist ''driver=mysql'' cs \<or> prefix ''my:'' cs) \<and>
    \<not> (sublist ''driver=mongodb'' cs \<or> prefix ''mongodb:'' cs) \<longrightarrow>
      database_connect cs opts = LogErrorAndExit ''Unknown database connection string'' 1 \<and>
      constructed (database_connect cs opts) = None)"
  by (simp add: database_connect_def)

theorem database_connect_dispatch_witness:
  "suffix ''.mbtiles'' ''world.mbtiles'' \<and>
   database_connect ''world.mbtiles'' default_options =
     Construct MBTilesSQLite ''world.mbtiles'' default_options \<and>
   \<not> suffix ''.mbtiles'' ''driver=postgres dbname=t'' \<and>
   sublist ''driver=postgres'' ''driver=postgres dbname=t'' \<and>
   database_connect ''driver=postgres dbname=t'' default_options =
     Construct MBTilesPostgres '' dbname=t'' default_options \<and>
   prefix ''my:'' ''my:maps'' \<and>
   database_connect ''my:maps'' default_options =
     Construct MBTilesMySQL ''my:maps'' default_options \<and>
   prefix ''mongodb:'' ''mongodb:maps'' \<and>
   database_connect ''mongodb:maps'' default_options =
     Construct MBTilesMongoDB ''mongodb:maps'' default_options \<and>
   database_connect ''tiles.sqlite'' default_options =
     LogErrorAndExit ''Unknown database connection string'' 1"
proof -
  have sqlite: "suffix ''.mbtiles'' ''world.mbtiles''"
    by (simp add: suffix_to_prefix)
  have pg: "\<not> suffix ''.mbtiles'' ''driver=postgres dbname=t''"
    "sublist ''driver=postgres'' ''driver=postgres dbname=t''"
    by (simp_all add: suffix_to_prefix sublist_code)
  have my: "\<not> suffix ''.mbtiles'' ''my:maps''"
    "\<not> (sublist ''driver=postgres'' ''my:maps'' \<or> prefix ''pg:'' ''my:maps'')"
    "prefix ''my:'' ''my:maps''"
    by (simp_all add: suffix_to_prefix sublist_code)
  have mongo: "\<not> suffix ''.mbtiles'' ''mongodb:maps''"
    "\<not> (sublist ''driver=postgres'' ''mongodb:maps'' \<or> prefix ''pg:'' ''mongodb:maps'')"
    "\<not> (sublist ''driver=mysql'' ''mongodb:maps'' \<or> prefix ''my:'' ''mongodb:maps'')"
    "prefix ''mongodb:'' ''mongodb:maps''"
    by (simp_all add: suffix_to_prefix sublist_code)
  have none: "\<not> suffix ''.mbtiles'' ''tiles.sqlite''"
    "\<not> (sublist ''driver=postgres'' ''tiles.sqlite'' \<or> prefix ''pg:'' ''tiles.sqlite'')"
    "\<not> (sublist ''driver=mysql'' ''tiles.sqlite'' \<or> prefix ''my:'' ''tiles.sqlite'')"
    "\<not> (sublist ''driver=mongodb'' ''tiles.sqlite'' \<or> prefix ''mongodb:'' ''tiles.sqlite'')"
    by (simp_all add: suffix_to_prefix sublist_code)
  have a: "database_connect ''world.mbtiles'' default_options =
      Construct MBTilesSQLite ''world.mbtiles'' default_options"
    using database_connect_dispatch [of "''world.mbtiles''" default_options] sqlite by blast
  have b: "database_connect ''driver=postgres dbname=t'' default_options =
      Construct MBTilesPostgres (remove_all ''driver=postgres'' ''driver=postgres dbname=t'')
        default_options"
    using database_connect_dispatch [of "''driver=postgres dbname=t''" default_options] pg
    by blast
  have c: "database_connect ''my:maps'' default_options =
      Construct MBTilesMySQL (remove_all ''driver=mysql'' ''my:maps'') default_options"
    using database_connect_dispatch [of "''my:maps''" default_options] my by blast
  have d: "database_connect ''mongodb:maps'' default_options =
      Construct MBTilesMongoDB (remove_all ''driver=mongodb'' ''mongodb:maps'') default_options"
    using database_connect_dispatch [of "''mongodb:maps''" default_options] mongo by blast
  have e: "database_connect ''tiles.sqlite'' default_options =
      LogErrorAndExit ''Unknown database connection string'' 1"
    using database_connect_dispatch [of "''tiles.sqlite''" default_options] none by blast
  show ?thesis
    using sqlite pg my mongo a b c d e by simp
qed

section \<open>Properties of delete_tiles under a max-timestamp filter\<close>

lemma is_compacted_contents: "contents (snd (sqlite_is_compacted db)) = contents db"
  by (simp add: sqlite_is_compacted_def contents_def Let_def split: option.splits)

lemma has_scale_contents: "contents (snd (sqlite_has_scale db)) = contents db"
  by (simp add: sqlite_has_scale_def contents_def Let_def split: option.splits)

lemma postgres_has_scale_contents: "contents (snd (postgres_has_scale db)) = contents db"
  by (simp add: postgres_has_scale_def contents_def Let_def split: option.splits)

text \<open>
  C4: with \<open>max_timestamp > 0\<close>, \<^verbatim>\<open>delete_tiles\<close> of a compacted SQLite store, of a
  Postgres store and of a MySQL store raises TypeError where it builds the text that
  selects the images, before it executes a statement: the schema and the rows of the store
  are what they were (the SQLite and Postgres handles may have filled their capability
  caches on the way).
\<close>

theorem delete_tiles_max_timestamp_raises:
  assumes "max_timestamp > 0"
  shows "(fst (sqlite_is_compacted db) \<longrightarrow>
            fst (sqlite_delete_tiles db min_zoom max_zoom min_timestamp max_timestamp scale) =
              Inl TypeError \<and>
            contents (snd (sqlite_delete_tiles db min_zoom max_zoom min_timestamp max_timestamp scale)) =
              contents db) \<and>
         fst (postgres_delete_tiles db min_zoom max_zoom min_timestamp max_timestamp scale) =
           Inl TypeError \<and>
         contents (snd (postgres_delete_tiles db min_zoom max_zoom min_timestamp max_timestamp scale)) =
           contents db \<and>
         mysql_delete_tiles now db min_zoom max_zoom min_timestamp max_timestamp scale =
           (Inl TypeError, db)"
proof -
  have my: "mysql_delete_tiles now db min_zoom max_zoom min_timestamp max_timestamp scale =
      (Inl TypeError, db)"
    using assms by (simp add: mysql_delete_tiles_def Let_def)
  have pg: "postgres_delete_tiles db min_zoom max_zoom min_timestamp max_timestamp scale =
      (Inl TypeError, snd (postgres_has_scale db))"
    using assms by (simp add: postgres_delete_tiles_def Let_def split: prod.splits)
  have sq: "fst (sqlite_is_compacted db) \<Longrightarrow>
      sqlite_delete_tiles db min_zoom max_zoom min_timestamp max_timestamp scale =
      (Inl TypeError, snd (sqlite_has_scale (snd (sqlite_is_compacted db))))"
    using assms by (cases "sqlite_is_compacted db")
      (auto simp: sqlite_delete_tiles_def Let_def split: prod.splits)
  show ?thesis
    using my pg sq
    by (simp add: postgres_has_scale_contents has_scale_contents is_compacted_contents)
qed

theorem delete_tiles_max_timestamp_raises_witness:
  "(0::int) < 5 \<and> fst (sqlite_is_compacted shared_store) \<and>
   fst (sqlite_delete_tiles shared_store 0 18 0 5 None) = Inl TypeError \<and>
   map_rows (snd (sqlite_delete_tiles shared_store 0 18 0 5 None)) = map_rows shared_store \<and>
   images_rows (snd (sqlite_delete_tiles shared_store 0 18 0 5 None)) = images_rows shared_store \<and>
   fst (postgres_delete_tiles shared_store 0 18 0 5 None) = Inl TypeError \<and>
   mysql_delete_tiles 200 shared_store 0 18 0 5 None = (Inl TypeError, shared_store)"
proof -
  have c: "fst (sqlite_is_compacted shared_store)"
    by (simp add: sqlite_is_compacted_def shared_store_def setup_relations_def is_table_def Let_def)
  show ?thesis
    using delete_tiles_max_timestamp_raises [of 5 shared_store 0 18 0 None 200] c
    by (simp add: contents_def)
qed

section \<open>Properties of the unsupported MongoDB methods\<close>

text \<open>
  C9, as stated, fails: the exception of \<^verbatim>\<open>raise("Not implemented")\<close> is not a
  NotImplementedError.
\<close>

theorem mongodb_unsupported_counterexample:
  "fst (mongodb_updates empty_mongo 0 18 0 0) \<noteq> Inl NotImplementedError"
  by (simp add: mongodb_updates_def raise_str_def)

text \<open>
  C9, amended: on the MongoDB store every call of \<^verbatim>\<open>columns_and_rows_for_zoom_level\<close>,
  \<^verbatim>\<open>columns_for_zoom_level_and_row\<close>, \<^verbatim>\<open>bounding_box_for_zoom_level\<close>,
  \<^verbatim>\<open>updates\<close>, \<^verbatim>\<open>updates_count\<close> and \<^verbatim>\<open>delete_tiles\<close> raises an exception to its
  caller; it returns no value and leaves the store as it was.
\<close>

theorem mongodb_unsupported_raise:
  "(\<exists>e. mongodb_columns_and_rows_for_zoom_level db z scale = (Inl e, db)) \<and>
   (\<exists>e. mongodb_columns_for_zoom_level_and_row db z y scale = (Inl e, db)) \<and>
   (\<exists>e. mongodb_bounding_box_for_zoom_level db z scale = (Inl e, db)) \<and>
   (\<exists>e. mongodb_updates db min_zoom max_zoom min_timestamp max_timestamp = (Inl e, db)) \<and>
   (\<exists>e. mongodb_updates_count db min_zoom max_zoom min_timestamp max_timestamp = (Inl e, db)) \<and>
   (\<exists>e. mongodb_delete_tiles db min_zoom max_zoom min_timestamp max_timestamp scale = (Inl e, db))"
  by (simp add: mongodb_columns_and_rows_for_zoom_level_def
      mongodb_columns_for_zoom_level_and_row_def mongodb_bounding_box_for_zoom_level_def
      mongodb_updates_def mongodb_updates_count_def mongodb_delete_tiles_def raise_str_def)

section \<open>Properties of max_timestamp\<close>

lemma timestamps_set:
  "set [u. Some u \<leftarrow> map updated_at rows] = {u. \<exists>r\<in>set rows. updated_at r = Some u}"
  by (auto split: option.splits)

lemma max_updated_at_Max:
  assumes "\<exists>r\<in>set (map_rows db). updated_at r \<noteq> None"
  shows "max_updated_at db = Some (Max {u. \<exists>r\<in>set (map_rows db). updated_at r = Some u})"
proof -
  let ?us = "[u. Some u \<leftarrow> map updated_at (map_rows db)]"
  have ne: "?us \<noteq> []"
  proof
    assume "?us = []"
    then have "set ?us = {}" by simp
    then show False using assms unfolding timestamps_set by auto
  qed
  then obtain u us where us: "?us = u # us" by (cases ?us) auto
  have "Max (set ?us) = fold max us u" unfolding us by (rule Max.set_eq_fold)
  then show ?thesis
    unfolding max_updated_at_def us[unfolded] using us timestamps_set[of "map_rows db"]
    by simp
qed

text \<open>
  C7, as stated, fails: the MongoDB method is \<^verbatim>\<open>return 0\<close>.  The store below holds one
  tile, updated at 5.
\<close>

theorem max_timestamp_mongodb_counterexample:
  "doc_t (hd (tiles_collection one_tile_mongo)) = Some 5 \<and>
   mongodb_max_timestamp one_tile_mongo = PyInt 0"
  by (simp add: one_tile_mongo_def mongodb_max_timestamp_def)

text \<open>
  C7, amended: on an SQLite or Postgres store whose map table has a row with an update
  timestamp, \<^verbatim>\<open>max_timestamp\<close> returns the largest update timestamp of the rows of map;
  on a MongoDB store it returns 0 whatever the store holds.
\<close>

theorem max_timestamp_latest:
  "(has_columns db ''map'' [''updated_at''] \<and> (\<exists>r\<in>set (map_rows db). updated_at r \<noteq> None) \<longrightarrow>
      sqlite_max_timestamp db = PyInt (Max {u. \<exists>r\<in>set (map_rows db). updated_at r = Some u}) \<and>
      postgres_max_timestamp db =
        Inr (PyInt (Max {u. \<exists>r\<in>set (map_rows db). updated_at r = Some u}))) \<and>
   mongodb_max_timestamp m = PyInt 0"
  by (simp add: sqlite_max_timestamp_def postgres_max_timestamp_def mongodb_max_timestamp_def
      max_updated_at_Max py_opt_int_def)

lemma shared_store_timestamps:
  "{u. \<exists>r\<in>set (map_rows shared_store). updated_at r = Some u} = {100}"
  by (auto simp: shared_store_def)

theorem max_timestamp_latest_witness:
  "has_columns shared_store ''map'' [''updated_at''] \<and>
   (\<exists>r\<in>set (map_rows shared_store). updated_at r \<noteq> None) \<and>
   sqlite_max_timestamp shared_store = PyInt 100 \<and>
   postgres_max_timestamp shared_store = Inr (PyInt 100) \<and>
   mongodb_max_timestamp one_tile_mongo = PyInt 0"
proof -
  have a: "has_columns shared_store ''map'' [''updated_at'']"
    by (simp add: has_columns_def shared_store_def setup_relations_def map_columns_def)
  have b: "\<exists>r\<in>set (map_rows shared_store). updated_at r \<noteq> None"
    by (simp add: shared_store_def)
  show ?thesis
    using max_timestamp_latest [of shared_store one_tile_mongo] a b
    by (simp add: shared_store_timestamps)
qed

text \<open>
  What the amended claim leaves out: on a map table without rows the SQL stores do not
  return 0 (the aggregate query still yields a row, holding NULL), and the MySQL method
  returns the row, not its field.
\<close>

lemma max_timestamp_empty_map:
  "sqlite_max_timestamp empty_map_store = PyNone \<and>
   postgres_max_timestamp empty_map_store = Inr PyNone \<and>
   mysql_max_timestamp empty_map_store = Inr (PyTuple [PyNone]) \<and>
   mysql_max_timestamp shared_store = Inr (PyTuple [PyInt 100])"
  by (simp add: sqlite_max_timestamp_def postgres_max_timestamp_def mysql_max_timestamp_def
      empty_map_store_def has_columns_def shared_store_def setup_relations_def map_columns_def
      max_updated_at_def py_opt_int_def)

section \<open>Properties of expire_tile\<close>

lemma is_compacted_True:
  "fst (sqlite_is_compacted db) \<Longrightarrow>
   sqlite_is_compacted db = (True, db\<lparr>database_is_compacted := Some True\<rparr>)"
  by (cases "database_is_compacted db") (auto simp: sqlite_is_compacted_def Let_def)

lemma has_scale_True:
  "fst (sqlite_has_scale db) \<Longrightarrow>
   sqlite_has_scale db = (True, db\<lparr>database_has_scale := Some True\<rparr>)"
  by (cases "database_has_scale db") (auto simp: sqlite_has_scale_def Let_def)

lemma has_scale_after_is_compacted:
  "fst (sqlite_has_scale (db\<lparr>database_is_compacted := c\<rparr>)) = fst (sqlite_has_scale db)"
  by (cases "database_has_scale db") (auto simp: sqlite_has_scale_def Let_def has_columns_def)

lemma all_hold_coordinate:
  "all_hold [ZoomEq z, ColumnEq x, RowEq y, ScaleEq s] = at_coordinate z x y s"
  by (auto simp: all_hold_def at_coordinate_def fun_eq_iff)

lemma has_columns_mono:
  "has_columns db n cols \<Longrightarrow> set cols' \<subseteq> set cols \<Longrightarrow> has_columns db n cols'"
  by (auto simp: has_columns_def list_all_iff split: option.splits)

lemma expire_tile_result:
  assumes "fst (sqlite_is_compacted db)" "fst (sqlite_has_scale db)"
    and "is_table db ''map''" "has_columns db ''map'' map_columns"
    and "is_table db ''images''" "has_columns db ''images'' images_columns"
  shows "sqlite_expire_tile now db z x y (Some s) = (Inr (), expired_store now z x y s db)"
proof -
  let ?db1 = "db\<lparr>database_is_compacted := Some True\<rparr>"
  let ?db2 = "?db1\<lparr>database_has_scale := Some True\<rparr>"
  have ic: "sqlite_is_compacted db = (True, ?db1)" using assms(1) by (rule is_compacted_True)
  have hs: "sqlite_has_scale ?db1 = (True, ?db2)"
    using assms(2) by (intro has_scale_True) (simp add: has_scale_after_is_compacted)
  have cols: "has_columns ?db2 ''map'' [''tile_id'', ''zoom_level'', ''tile_column'', ''tile_row'', ''tile_scale'']"
     "has_columns ?db2 ''map'' [''tile_id'', ''updated_at'', ''zoom_level'', ''tile_column'', ''tile_row'', ''tile_scale'']"
     "has_columns ?db2 ''images'' [''tile_id'']" "is_table ?db2 ''images''" "is_table ?db2 ''map''"
    using assms(3-6) by (auto simp: has_columns_def is_table_def map_columns_def images_columns_def split: option.splits)
  have del: "delete_images_in OperationalError
        [Cond (ZoomEq z), AND, Cond (ColumnEq x), AND, Cond (RowEq y), AND, Cond (ScaleEq s)] ?db2 =
      Inr (?db2\<lparr>images_rows :=
          filter (\<lambda>i. \<not> (image_id i \<noteq> None \<and>
                          image_id i \<in> set (map tile_id (filter (at_coordinate z x y s) (map_rows db)))))
            (images_rows db)\<rparr>)" (is "_ = Inr ?db3")
    using cols by (simp add: delete_images_in_def map_where_def where_columns_def selected_tile_ids_def all_hold_coordinate)
  have cols3: "has_columns ?db3 ''map'' [''tile_id'', ''updated_at'', ''zoom_level'', ''tile_column'', ''tile_row'', ''tile_scale'']"
    "is_table ?db3 ''map''"
    using cols by (simp_all add: has_columns_def is_table_def)
  have exp: "expire_map OperationalError now
        [Cond (ZoomEq z), AND, Cond (ColumnEq x), AND, Cond (RowEq y), AND, Cond (ScaleEq s)] ?db3 =
      Inr (expired_store now z x y s db)"
    using cols3 by (simp add: expire_map_def map_where_def where_columns_def all_hold_coordinate expired_store_def)
  show ?thesis
    unfolding sqlite_expire_tile_def ic using hs del exp by (simp add: Let_def)
qed

lemma select_tiles_view:
  assumes "parse_where toks = Some conds"
    and "relations db ''tiles'' = Some (View tiles_view_columns)"
    and "view_sources_ok db tiles_view_columns"
    and "set (where_columns conds) \<subseteq> set tiles_view_columns"
  shows "select_tiles OperationalError db ScaleColumn toks =
     Inr (map (tile_of ScaleColumn) (filter (all_hold_tiles conds) (tiles_view_rows db)))"
proof -
  have m: "''zoom_level'' \<in> set tiles_view_columns" "''tile_column'' \<in> set tiles_view_columns"
    "''tile_row'' \<in> set tiles_view_columns" "''tile_scale'' \<in> set tiles_view_columns"
    "''tile_data'' \<in> set tiles_view_columns"
    by (simp_all add: tiles_view_columns_def)
  have w: "\<forall>c\<in>set (where_columns conds). c \<in> set tiles_view_columns"
    using assms(4) by blast
  show ?thesis
    using assms(1-3) m w by (simp add: select_tiles_def tiles_source_def list_all_iff)
qed

lemma sqlite_tiles_tokens:
  "\<exists>conds. parse_where
      ((if (min_zoom::int) > 0 then [Cond (ZoomGe min_zoom), AND] else []) @
       (if (max_zoom::int) < 18 then [Cond (ZoomLe max_zoom), AND] else []) @
       (case scale of Some sc \<Rightarrow> [Cond (ScaleEq sc), AND] | None \<Rightarrow> []) @
       (if (min_timestamp::int) > 0 then [Cond (UpdatedGt min_timestamp), AND] else []) @
       (if (max_timestamp::int) > 0 then [Cond (UpdatedLt max_timestamp), AND] else []) @
       [Cond One]) = Some conds \<and> set (where_columns conds) \<subseteq> set tiles_view_columns"
  by (cases scale) (simp_all add: where_columns_def tiles_view_columns_def)

lemma sqlite_tiles_view:
  assumes "database_has_scale db = Some True" "database_is_compacted db = Some True"
    and "relations db ''tiles'' = Some (View tiles_view_columns)"
    and "view_sources_ok db tiles_view_columns"
  shows "\<exists>conds. sqlite_tiles db min_zoom max_zoom min_timestamp max_timestamp scale =
     (Inr (map (tile_of ScaleColumn) (filter (all_hold_tiles conds) (tiles_view_rows db))), db)"
proof -
  obtain conds where c: "parse_where
      ((if (min_zoom::int) > 0 then [Cond (ZoomGe min_zoom), AND] else []) @
       (if (max_zoom::int) < 18 then [Cond (ZoomLe max_zoom), AND] else []) @
       (case scale of Some sc \<Rightarrow> [Cond (ScaleEq sc), AND] | None \<Rightarrow> []) @
       (if (min_timestamp::int) > 0 then [Cond (UpdatedGt min_timestamp), AND] else []) @
       (if (max_timestamp::int) > 0 then [Cond (UpdatedLt max_timestamp), AND] else []) @
       [Cond One]) = Some conds" "set (where_columns conds) \<subseteq> set tiles_view_columns"
    using sqlite_tiles_tokens by blast
  have hs: "sqlite_has_scale db = (True, db)" using assms(1) by (simp add: sqlite_has_scale_def)
  have ic: "sqlite_is_compacted db = (True, db)" using assms(2) by (simp add: sqlite_is_compacted_def)
  have "sqlite_tiles db min_zoom max_zoom min_timestamp max_timestamp scale =
     (select_tiles OperationalError db ScaleColumn ((if (min_zoom::int) > 0 then [Cond (ZoomGe min_zoom), AND] else []) @
       (if (max_zoom::int) < 18 then [Cond (ZoomLe max_zoom), AND] else []) @
       (case scale of Some sc \<Rightarrow> [Cond (ScaleEq sc), AND] | None \<Rightarrow> []) @
       (if (min_timestamp::int) > 0 then [Cond (UpdatedGt min_timestamp), AND] else []) @
       (if (max_timestamp::int) > 0 then [Cond (UpdatedLt max_timestamp), AND] else []) @
       [Cond One]), db)"
    by (cases scale) (simp_all add: sqlite_tiles_def hs ic Let_def)
  then show ?thesis
    using select_tiles_view[OF c(1) assms(3) assms(4) c(2)] by auto
qed

lemma expired_store_simps:
  "relations (expired_store now z x y s db) = relations db"
  "database_has_scale (expired_store now z x y s db) = Some True"
  "database_is_compacted (expired_store now z x y s db) = Some True"
  "map_rows (expired_store now z x y s db) =
     map (\<lambda>r. if at_coordinate z x y s r then r\<lparr>tile_id := None, updated_at := Some now\<rparr> else r)
       (map_rows db)"
  by (simp_all add: expired_store_def)

lemma has_columns_cong_relations:
  "relations db' = relations db \<Longrightarrow> has_columns db' n cols = has_columns db n cols"
  by (simp add: has_columns_def)

lemma tiles_view_rows_coordinate:
  assumes "r \<in> set (tiles_view_rows db)"
  shows "\<exists>m\<in>set (map_rows db). tile_id m \<noteq> None \<and>
           at_coordinate (t_zoom_level r) (t_tile_column r) (t_tile_row r) (t_tile_scale r) m"
  using assms by (auto simp: tiles_view_rows_def at_coordinate_def)

lemma present_row:
  assumes "fst (sqlite_is_compacted db)" "fst (sqlite_has_scale db)"
    and "relations db ''tiles'' = Some (View tiles_view_columns)"
    and "fst (sqlite_tiles db 0 18 0 0 None) = Inr ts" "(z, x, y, s, data) \<in> set ts"
  shows "\<exists>m\<in>set (map_rows db). at_coordinate z x y s m"
proof -
  let ?db1 = "db\<lparr>database_has_scale := Some True\<rparr>"
  let ?db2 = "?db1\<lparr>database_is_compacted := Some True\<rparr>"
  have hs: "sqlite_has_scale db = (True, ?db1)" using assms(2) by (rule has_scale_True)
  have hs1: "sqlite_has_scale ?db1 = (True, ?db1)" by (simp add: sqlite_has_scale_def)
  have "fst (sqlite_is_compacted ?db1)" using assms(1)
    by (cases "database_is_compacted db") (auto simp: sqlite_is_compacted_def Let_def is_table_def)
  then have ic: "sqlite_is_compacted ?db1 = (True, ?db2)" by (rule is_compacted_True)
  have t: "sqlite_tiles db 0 18 0 0 None = (select_tiles OperationalError ?db2 ScaleColumn [Cond One], ?db2)"
    by (simp add: sqlite_tiles_def hs hs1 ic Let_def)
  have "ts = map (tile_of ScaleColumn) (filter (all_hold_tiles [One]) (tiles_view_rows ?db2))"
    using assms(3,4) unfolding t
    by (auto simp: select_tiles_def tiles_source_def split: if_splits)
  then obtain r where r: "r \<in> set (tiles_view_rows ?db2)" "tile_of ScaleColumn r = (z, x, y, s, data)"
    using assms(5) by auto
  have "tiles_view_rows ?db2 = tiles_view_rows db" by (simp add: tiles_view_rows_def)
  then show ?thesis
    using tiles_view_rows_coordinate[of r db] r by (auto simp: tile_of_def)
qed

lemma expired_row_cases:
  assumes "k \<in> set (map_rows (expired_store now z x y s db))" "at_coordinate z x y s k"
  shows "tile_id k = None \<and> updated_at k = Some now"
proof -
  obtain k0 where k0: "k0 \<in> set (map_rows db)"
    "k = (if at_coordinate z x y s k0 then k0\<lparr>tile_id := None, updated_at := Some now\<rparr> else k0)"
    using assms(1) unfolding expired_store_simps by auto
  show ?thesis
  proof (cases "at_coordinate z x y s k0")
    case True
    then show ?thesis using k0(2) by simp
  next
    case False
    then show ?thesis using k0(2) assms(2) by simp
  qed
qed

lemma expired_row_mem:
  assumes "m \<in> set (map_rows db)" "at_coordinate z x y s m"
  shows "m\<lparr>tile_id := None, updated_at := Some now\<rparr> \<in> set (map_rows (expired_store now z x y s db))"
  unfolding expired_store_simps(4) set_map
  by (rule rev_image_eqI[OF assms(1)]) (simp add: assms(2))

lemma updates_rows_expired:
  assumes "k \<in> set (map_rows db)" "tile_id k = None"
    "in_window min_zoom max_zoom min_timestamp max_timestamp k"
  shows "(zoom_level k, tile_column k, tile_row k, tile_scale k, None, None)
     \<in> set (updates_rows db min_zoom max_zoom min_timestamp max_timestamp)"
proof -
  have "(zoom_level k, tile_column k, tile_row k, tile_scale k, None, None)
     \<in> set [(zoom_level m, tile_column m, tile_row m, tile_scale m, None, None).
           m \<leftarrow> map_rows db,
           in_window min_zoom max_zoom min_timestamp max_timestamp m \<and> tile_id m = None]"
    using assms by force
  then show ?thesis unfolding updates_rows_def by simp
qed

lemma expired_view_sources:
  assumes "has_columns db ''map'' map_columns" "has_columns db ''images'' images_columns"
  shows "view_sources_ok (expired_store now z x y s db) tiles_view_columns"
proof -
  have "set (view_reads_map tiles_view_columns) \<subseteq> set map_columns"
    by (simp add: view_reads_map_def tiles_view_columns_def map_columns_def)
  then have "has_columns db ''map'' (view_reads_map tiles_view_columns)"
    using assms(1) has_columns_mono by blast
  then show ?thesis
    using assms(2) by (simp add: view_sources_ok_def has_columns_def expired_store_simps(1))
qed

text \<open>
  On a compacted SQLite store with the scale column (the schema of \<^verbatim>\<open>mbtiles_setup\<close>)
  the expiration invariant holds.  Let \<open>(z, x, y, s)\<close> be a tile that \<^verbatim>\<open>tiles()\<close>
  yields.  After \<^verbatim>\<open>expire_tile(z, x, y, s)\<close> at time \<open>now\<close>, which returns without an
  exception, \<^verbatim>\<open>tiles()\<close> with any filter yields no tile at \<open>(z, x, y, s)\<close>;
  \<^verbatim>\<open>updates()\<close> over a window that holds \<open>z\<close> and \<open>now\<close> (its timestamp bounds are
  strict) yields the row \<open>(z, x, y, s, NULL, NULL)\<close>; and the rows of map at the
  coordinate, of which there is one, have a NULL \<^verbatim>\<open>tile_id\<close> and the update timestamp
  \<open>now\<close>.
\<close>

lemma sqlite_expire_tile_hides_tile_keeps_update:
  assumes compacted: "fst (sqlite_is_compacted db)" and scale: "fst (sqlite_has_scale db)"
    and schema: "is_table db ''map''" "has_columns db ''map'' map_columns"
      "is_table db ''images''" "has_columns db ''images'' images_columns"
      "relations db ''tiles'' = Some (View tiles_view_columns)"
    and present: "fst (sqlite_tiles db 0 18 0 0 None) = Inr ts" "(z, x, y, s, data) \<in> set ts"
    and window: "min_zoom \<le> z" "z \<le> max_zoom" "min_timestamp < now" "now < max_timestamp"
  shows "fst (sqlite_expire_tile now db z x y (Some s)) = Inr () \<and>
     (\<exists>ts'. fst (sqlite_tiles (snd (sqlite_expire_tile now db z x y (Some s))) a b c d sc) = Inr ts' \<and>
            (\<forall>data'. (z, x, y, s, data') \<notin> set ts')) \<and>
     (\<exists>us. sqlite_updates (snd (sqlite_expire_tile now db z x y (Some s)))
              min_zoom max_zoom min_timestamp max_timestamp = Inr us \<and>
           (z, x, y, s, None, None) \<in> set us) \<and>
     (\<exists>r\<in>set (map_rows (snd (sqlite_expire_tile now db z x y (Some s)))).
        at_coordinate z x y s r \<and> tile_id r = None \<and> updated_at r = Some now) \<and>
     (\<forall>r\<in>set (map_rows (snd (sqlite_expire_tile now db z x y (Some s)))).
        at_coordinate z x y s r \<longrightarrow>
        tile_id r = None \<and> (\<exists>u. updated_at r = Some u \<and> now \<le> u))"
proof -
  let ?e = "expired_store now z x y s db"
  have res: "sqlite_expire_tile now db z x y (Some s) = (Inr (), ?e)"
    using compacted scale schema(1-4) by (rule expire_tile_result)
  obtain m where m: "m \<in> set (map_rows db)" "at_coordinate z x y s m"
    using present_row[OF compacted scale schema(5) present] by blast
  let ?m' = "m\<lparr>tile_id := None, updated_at := Some now\<rparr>"
  have m'1: "?m' \<in> set (map_rows ?e)" using m by (rule expired_row_mem)
  have m'2: "at_coordinate z x y s ?m'" using m(2) by (simp add: at_coordinate_def)
  have vs: "view_sources_ok ?e tiles_view_columns"
    using schema(2,4) by (rule expired_view_sources)
  have rt: "relations ?e ''tiles'' = Some (View tiles_view_columns)"
    using schema(5) by (simp add: expired_store_simps(1))
  obtain conds where t: "sqlite_tiles ?e a b c d sc =
     (Inr (map (tile_of ScaleColumn) (filter (all_hold_tiles conds) (tiles_view_rows ?e))), ?e)"
    using sqlite_tiles_view[OF expired_store_simps(2) expired_store_simps(3) rt vs] by blast
  have gone: "(z, x, y, s, data') \<notin> set (map (tile_of ScaleColumn) (filter (all_hold_tiles conds) (tiles_view_rows ?e)))" for data'
  proof
    assume "(z, x, y, s, data') \<in> set (map (tile_of ScaleColumn) (filter (all_hold_tiles conds) (tiles_view_rows ?e)))"
    then obtain r where r: "r \<in> set (tiles_view_rows ?e)" "tile_of ScaleColumn r = (z, x, y, s, data')"
      by auto
    have "t_zoom_level r = z" "t_tile_column r = x" "t_tile_row r = y" "t_tile_scale r = s"
      using r(2) by (simp_all add: tile_of_def)
    then obtain k where k: "k \<in> set (map_rows ?e)" "tile_id k \<noteq> None" "at_coordinate z x y s k"
      using tiles_view_rows_coordinate[OF r(1)] by auto
    then show False using expired_row_cases[OF k(1) k(3)] by simp
  qed
  have hc: "has_columns ?e ''map'' map_columns" "has_columns ?e ''images'' images_columns"
    using schema(2,4) by (simp_all add: has_columns_def expired_store_simps(1))
  have w: "in_window min_zoom max_zoom min_timestamp max_timestamp ?m'"
    using window m(2) by (simp add: in_window_def at_coordinate_def)
  have "(zoom_level ?m', tile_column ?m', tile_row ?m', tile_scale ?m', None, None)
      \<in> set (updates_rows ?e min_zoom max_zoom min_timestamp max_timestamp)"
    using m'1 _ w by (rule updates_rows_expired) simp
  then have "(z, x, y, s, None, None) \<in> set (updates_rows ?e min_zoom max_zoom min_timestamp max_timestamp)"
    using m(2) by (simp add: at_coordinate_def)
  then have upd: "\<exists>us. sqlite_updates ?e min_zoom max_zoom min_timestamp max_timestamp = Inr us \<and>
           (z, x, y, s, None, None) \<in> set us"
    using hc by (simp add: sqlite_updates_def)
  have row: "\<exists>r\<in>set (map_rows ?e). at_coordinate z x y s r \<and> tile_id r = None \<and> updated_at r = Some now"
    using m'1 m'2 by (intro bexI[of _ ?m']) simp_all
  have tiles: "\<exists>ts'. fst (sqlite_tiles ?e a b c d sc) = Inr ts' \<and> (\<forall>data'. (z, x, y, s, data') \<notin> set ts')"
    unfolding t using gone by simp
  have all: "\<forall>r\<in>set (map_rows ?e). at_coordinate z x y s r \<longrightarrow>
        tile_id r = None \<and> (\<exists>u. updated_at r = Some u \<and> now \<le> u)"
    using expired_row_cases by auto
  show ?thesis
    unfolding res fst_conv snd_conv using tiles upd row all by blast
qed

lemmas shared_eval = sqlite_delete_tiles_def sqlite_expire_tile_def sqlite_is_compacted_def
  sqlite_has_scale_def shared_store_def setup_relations_def setup_indexes_def is_table_def
  has_columns_def Let_def delete_images_in_def delete_map_def expire_map_def map_where_def
  where_columns_def all_hold_def selected_tile_ids_def map_columns_def images_columns_def
  tiles_view_columns_def sqlite_tiles_def sqlite_tiles_count_def select_tiles_def
  tiles_source_def view_sources_ok_def view_reads_map_def tiles_view_rows_def count_map_def
  all_hold_tiles_def tile_of_def

lemma shared_store_tiles:
  "fst (sqlite_tiles shared_store 0 18 0 0 None) = Inr [(1, 0, 0, 1, ''A''), (2, 0, 0, 1, ''A'')]"
  by (simp add: shared_eval)

lemma sqlite_expire_tile_example:
  "fst (sqlite_tiles shared_store 0 18 0 0 None) = Inr [(1, 0, 0, 1, ''A''), (2, 0, 0, 1, ''A'')] \<and>
   fst (sqlite_expire_tile 200 shared_store 1 0 0 (Some 1)) = Inr () \<and>
   (\<exists>ts'. fst (sqlite_tiles (snd (sqlite_expire_tile 200 shared_store 1 0 0 (Some 1))) 0 18 0 0 None) = Inr ts' \<and>
          (\<forall>data'. (1, 0, 0, 1, data') \<notin> set ts')) \<and>
   (\<exists>us. sqlite_updates (snd (sqlite_expire_tile 200 shared_store 1 0 0 (Some 1))) 0 18 100 300 = Inr us \<and>
         (1, 0, 0, 1, None, None) \<in> set us)"
proof -
  have h: "fst (sqlite_is_compacted shared_store)" "fst (sqlite_has_scale shared_store)"
    "is_table shared_store ''map''" "has_columns shared_store ''map'' map_columns"
    "is_table shared_store ''images''" "has_columns shared_store ''images'' images_columns"
    "relations shared_store ''tiles'' = Some (View tiles_view_columns)"
    by (simp_all add: sqlite_is_compacted_def sqlite_has_scale_def shared_store_def
        setup_relations_def is_table_def has_columns_def Let_def map_columns_def images_columns_def)
  have p: "(1, 0, 0, 1, ''A'') \<in> set [(1, 0, 0, 1, ''A''), (2, 0, 0, 1, ''A'') :: tile]"
    by simp
  have w: "(0::int) \<le> 1" "(1::int) \<le> 18" "(100::int) < 200" "(200::int) < 300"
    by simp_all
  show ?thesis
    using sqlite_expire_tile_hides_tile_keeps_update [OF h shared_store_tiles p w, of 0 18 0 0 None]
      shared_store_tiles
    by blast
qed

lemma postgres_has_scale_True:
  "fst (postgres_has_scale db) \<Longrightarrow>
   postgres_has_scale db = (True, db\<lparr>database_has_scale := Some True\<rparr>)"
  by (cases "database_has_scale db") (auto simp: postgres_has_scale_def Let_def)

lemma postgres_expire_tile_result:
  assumes "fst (postgres_has_scale db)"
    and "is_table db ''map''" "has_columns db ''map'' map_columns"
    and "is_table db ''images''" "has_columns db ''images'' images_columns"
  shows "postgres_expire_tile now db z x y (Some s) =
     (Inr (), (expired_store now z x y s db)\<lparr>database_is_compacted := database_is_compacted db\<rparr>)"
proof -
  let ?db2 = "db\<lparr>database_has_scale := Some True\<rparr>"
  have hs: "postgres_has_scale db = (True, ?db2)" using assms(1) by (rule postgres_has_scale_True)
  have cols: "has_columns ?db2 ''map'' [''tile_id'', ''zoom_level'', ''tile_column'', ''tile_row'', ''tile_scale'']"
     "has_columns ?db2 ''map'' [''tile_id'', ''updated_at'', ''zoom_level'', ''tile_column'', ''tile_row'', ''tile_scale'']"
     "has_columns ?db2 ''images'' [''tile_id'']" "is_table ?db2 ''images''" "is_table ?db2 ''map''"
    using assms(2-5) by (auto simp: has_columns_def is_table_def map_columns_def images_columns_def split: option.splits)
  have del: "delete_images_in ProgrammingError
        [Cond (ZoomEq z), AND, Cond (ColumnEq x), AND, Cond (RowEq y), AND, Cond (ScaleEq s)] ?db2 =
      Inr (?db2\<lparr>images_rows :=
          filter (\<lambda>i. \<not> (image_id i \<noteq> None \<and>
                          image_id i \<in> set (map tile_id (filter (at_coordinate z x y s) (map_rows db)))))
            (images_rows db)\<rparr>)" (is "_ = Inr ?db3")
    using cols by (simp add: delete_images_in_def map_where_def where_columns_def selected_tile_ids_def all_hold_coordinate)
  have cols3: "has_columns ?db3 ''map'' [''tile_id'', ''updated_at'', ''zoom_level'', ''tile_column'', ''tile_row'', ''tile_scale'']"
    "is_table ?db3 ''map''"
    using cols by (simp_all add: has_columns_def is_table_def)
  have exp: "expire_map ProgrammingError now
        [Cond (ZoomEq z), AND, Cond (ColumnEq x), AND, Cond (RowEq y), AND, Cond (ScaleEq s)] ?db3 =
      Inr ((expired_store now z x y s db)\<lparr>database_is_compacted := database_is_compacted db\<rparr>)"
    using cols3 by (simp add: expire_map_def map_where_def where_columns_def all_hold_coordinate expired_store_def)
  show ?thesis
    unfolding postgres_expire_tile_def hs using del exp by (simp add: Let_def)
qed

lemma updates_rows_cache:
  "updates_rows (db\<lparr>database_is_compacted := c\<rparr>) a b c' d = updates_rows db a b c' d"
  by (simp add: updates_rows_def)

text \<open>
  On a Postgres store with the scale column the second half of the expiration invariant
  holds: after \<^verbatim>\<open>expire_tile(z, x, y, s)\<close> at time \<open>now\<close> on a coordinate that map
  holds, \<^verbatim>\<open>updates()\<close> over a window that holds \<open>z\<close> and \<open>now\<close> yields the row
  \<open>(z, x, y, s, NULL, NULL)\<close>.
\<close>

lemma postgres_expire_tile_keeps_update:
  assumes scale: "fst (postgres_has_scale db)"
    and schema: "is_table db ''map''" "has_columns db ''map'' map_columns"
      "is_table db ''images''" "has_columns db ''images'' images_columns"
    and present: "m \<in> set (map_rows db)" "at_coordinate z x y s m"
    and window: "min_zoom \<le> z" "z \<le> max_zoom" "min_timestamp < now" "now < max_timestamp"
  shows "fst (postgres_expire_tile now db z x y (Some s)) = Inr () \<and>
     (\<exists>us. postgres_updates (snd (postgres_expire_tile now db z x y (Some s)))
              min_zoom max_zoom min_timestamp max_timestamp = Inr us \<and>
           (z, x, y, s, None, None) \<in> set us)"
proof -
  let ?e = "expired_store now z x y s db"
  let ?e' = "?e\<lparr>database_is_compacted := database_is_compacted db\<rparr>"
  have res: "postgres_expire_tile now db z x y (Some s) = (Inr (), ?e')"
    using scale schema by (rule postgres_expire_tile_result)
  let ?m' = "m\<lparr>tile_id := None, updated_at := Some now\<rparr>"
  have m'1: "?m' \<in> set (map_rows ?e)" using present by (rule expired_row_mem)
  have w: "in_window min_zoom max_zoom min_timestamp max_timestamp ?m'"
    using window present(2) by (simp add: in_window_def at_coordinate_def)
  have "(zoom_level ?m', tile_column ?m', tile_row ?m', tile_scale ?m', None, None)
      \<in> set (updates_rows ?e min_zoom max_zoom min_timestamp max_timestamp)"
    using m'1 _ w by (rule updates_rows_expired) simp
  then have in_rows: "(z, x, y, s, None, None) \<in> set (updates_rows ?e' min_zoom max_zoom min_timestamp max_timestamp)"
    using present(2) by (simp add: at_coordinate_def updates_rows_cache)
  have hc: "has_columns ?e' ''map'' map_columns" "has_columns ?e' ''images'' images_columns"
    using schema(2,4) by (simp_all add: has_columns_def expired_store_simps(1))
  have "postgres_updates ?e' min_zoom max_zoom min_timestamp max_timestamp =
      Inr (updates_rows ?e' min_zoom max_zoom min_timestamp max_timestamp)"
    using hc by (simp add: postgres_updates_def updates_query_def knows_equality_def)
  then show ?thesis unfolding res fst_conv snd_conv using in_rows by simp
qed

lemma mysql_updates_refused:
  "mysql_updates db min_zoom max_zoom min_timestamp max_timestamp = Inl ProgrammingError"
  by (simp add: mysql_updates_def updates_query_def knows_equality_def)

lemma sqlite_updates_query:
  "sqlite_updates db min_zoom max_zoom min_timestamp max_timestamp =
   updates_query SQLiteDialect DoubleEquals OperationalError db
     min_zoom max_zoom min_timestamp max_timestamp"
  by (simp add: sqlite_updates_def updates_query_def knows_equality_def)

lemmas two_tile_eval = two_tile_store_def shared_store_def setup_relations_def setup_indexes_def
  is_table_def has_columns_def Let_def delete_images_in_def expire_map_def map_where_def
  where_columns_def all_hold_def selected_tile_ids_def map_columns_def images_columns_def
  tiles_view_columns_def select_tiles_def tiles_source_def view_sources_ok_def
  view_reads_map_def tiles_view_rows_def all_hold_tiles_def tile_of_def
  dialect_select_tiles_def integer_as_condition_def knows_equality_def updates_query_def
  updates_rows_def in_window_def

text \<open>
  C3 does not hold of the code on every compacted backend.  \<^verbatim>\<open>MBTilesMySQL.updates\<close>
  has the text of the SQLite method, whose join condition is written with \<^verbatim>\<open>==\<close>;
  MySQL refuses the statement, so \<^verbatim>\<open>updates\<close> raises for every store and every window
  and shows no row of an expired tile.  (\<^verbatim>\<open>MBTilesPostgres.updates\<close> is written with
  \<^verbatim>\<open>=\<close>.)  In the store below the coordinates (1, 0, 0) and (2, 0, 0) have an image
  each.  On MySQL, \<^verbatim>\<open>expire_tile(1, 0, 0, 1)\<close> at time 200 leaves the row of the
  coordinate with a NULL \<^verbatim>\<open>tile_id\<close> and the timestamp 200, and \<^verbatim>\<open>tiles()\<close> no
  longer yields the tile, but \<^verbatim>\<open>updates(0, 18, 100, 300)\<close> raises; on Postgres and on
  SQLite the same calls yield the row (1, 0, 0, 1, NULL, NULL).
\<close>

theorem expire_tile_mysql_updates_refused:
  "fst (mysql_tiles two_tile_store 0 18 0 0 None) = Inr [(1, 0, 0, 1, ''A''), (2, 0, 0, 1, ''B'')] \<and>
   mysql_expire_tile 200 two_tile_store 1 0 0 (Some 1) =
     (Inr (),
      two_tile_store\<lparr>map_rows :=
          [\<lparr>zoom_level = 1, tile_column = 0, tile_row = 0, tile_scale = 1,
            tile_id = None, updated_at = Some 200\<rparr>,
           \<lparr>zoom_level = 2, tile_column = 0, tile_row = 0, tile_scale = 1,
            tile_id = Some ''b'', updated_at = Some 100\<rparr>],
        images_rows := [\<lparr>image_id = Some ''b'', image_data = ''B''\<rparr>]\<rparr>) \<and>
   fst (mysql_tiles (snd (mysql_expire_tile 200 two_tile_store 1 0 0 (Some 1))) 0 18 0 0 None) =
     Inr [(2, 0, 0, 1, ''B'')] \<and>
   mysql_updates (snd (mysql_expire_tile 200 two_tile_store 1 0 0 (Some 1))) 0 18 100 300 =
     Inl ProgrammingError \<and>
   postgres_updates (snd (postgres_expire_tile 200 two_tile_store 1 0 0 (Some 1))) 0 18 100 300 =
     Inr [(1, 0, 0, 1, None, None)] \<and>
   sqlite_updates (snd (sqlite_expire_tile 200 two_tile_store 1 0 0 (Some 1))) 0 18 100 300 =
     Inr [(1, 0, 0, 1, None, None)]"
proof -
  have t: "fst (mysql_tiles two_tile_store 0 18 0 0 None) =
      Inr [(1, 0, 0, 1, ''A''), (2, 0, 0, 1, ''B'')]"
    by (simp add: mysql_tiles_def two_tile_eval)
  have e: "mysql_expire_tile 200 two_tile_store 1 0 0 (Some 1) =
     (Inr (),
      two_tile_store\<lparr>map_rows :=
          [\<lparr>zoom_level = 1, tile_column = 0, tile_row = 0, tile_scale = 1,
            tile_id = None, updated_at = Some 200\<rparr>,
           \<lparr>zoom_level = 2, tile_column = 0, tile_row = 0, tile_scale = 1,
            tile_id = Some ''b'', updated_at = Some 100\<rparr>],
        images_rows := [\<lparr>image_id = Some ''b'', image_data = ''B''\<rparr>]\<rparr>)"
    by (simp add: mysql_expire_tile_def two_tile_eval)
  have t': "fst (mysql_tiles (snd (mysql_expire_tile 200 two_tile_store 1 0 0 (Some 1))) 0 18 0 0 None) =
     Inr [(2, 0, 0, 1, ''B'')]"
    unfolding e by (simp add: mysql_tiles_def two_tile_eval)
  have u: "mysql_updates db 0 18 100 300 = Inl ProgrammingError" for db
    by (simp add: mysql_updates_def updates_query_def knows_equality_def)
  have p: "postgres_updates (snd (postgres_expire_tile 200 two_tile_store 1 0 0 (Some 1))) 0 18 100 300 =
     Inr [(1, 0, 0, 1, None, None)]"
    by (simp add: postgres_updates_def postgres_expire_tile_def postgres_has_scale_def two_tile_eval)
  have s: "sqlite_updates (snd (sqlite_expire_tile 200 two_tile_store 1 0 0 (Some 1))) 0 18 100 300 =
     Inr [(1, 0, 0, 1, None, None)]"
    by (simp add: sqlite_updates_def sqlite_expire_tile_def sqlite_has_scale_def
        sqlite_is_compacted_def two_tile_eval)
  show ?thesis using t e t' u p s by simp
qed

section \<open>Deleting or expiring a coordinate that shares its image\<close>

text \<open>
  C1 does not hold of the code.  \<^verbatim>\<open>delete_tiles\<close> and \<^verbatim>\<open>expire_tile\<close> delete every
  image whose id a selected coordinate names, whether or not another coordinate names it
  too.  In the store below the coordinates (1, 0, 0) and (2, 0, 0) share the image
  \<open>a\<close>.  Deleting zoom level 1, or expiring the tile (1, 0, 0), removes the image; the row
  of (2, 0, 0) keeps \<open>tile_id = a\<close>, which no image has any more, and \<^verbatim>\<open>tiles()\<close> no
  longer yields the tile (2, 0, 0).
\<close>

theorem delete_tiles_removes_shared_image:
  "map tile_id (map_rows shared_store) = [Some ''a'', Some ''a''] \<and>
   fst (sqlite_tiles shared_store 0 18 0 0 None) = Inr [(1, 0, 0, 1, ''A''), (2, 0, 0, 1, ''A'')] \<and>
   sqlite_delete_tiles shared_store 1 1 0 0 None =
     (Inr (),
      shared_store\<lparr>map_rows :=
          [\<lparr>zoom_level = 2, tile_column = 0, tile_row = 0, tile_scale = 1,
            tile_id = Some ''a'', updated_at = Some 100\<rparr>],
        images_rows := [],
        database_is_compacted := Some True, database_has_scale := Some True\<rparr>) \<and>
   fst (sqlite_tiles (snd (sqlite_delete_tiles shared_store 1 1 0 0 None)) 0 18 0 0 None) = Inr [] \<and>
   sqlite_expire_tile 200 shared_store 1 0 0 (Some 1) =
     (Inr (),
      shared_store\<lparr>map_rows :=
          [\<lparr>zoom_level = 1, tile_column = 0, tile_row = 0, tile_scale = 1,
            tile_id = None, updated_at = Some 200\<rparr>,
           \<lparr>zoom_level = 2, tile_column = 0, tile_row = 0, tile_scale = 1,
            tile_id = Some ''a'', updated_at = Some 100\<rparr>],
        images_rows := [],
        database_is_compacted := Some True, database_has_scale := Some True\<rparr>) \<and>
   fst (sqlite_tiles (snd (sqlite_expire_tile 200 shared_store 1 0 0 (Some 1))) 0 18 0 0 None) = Inr []"
proof -
  have d: "sqlite_delete_tiles shared_store 1 1 0 0 None =
     (Inr (),
      shared_store\<lparr>map_rows :=
          [\<lparr>zoom_level = 2, tile_column = 0, tile_row = 0, tile_scale = 1,
            tile_id = Some ''a'', updated_at = Some 100\<rparr>],
        images_rows := [],
        database_is_compacted := Some True, database_has_scale := Some True\<rparr>)"
    by (simp add: shared_eval)
  have e: "sqlite_expire_tile 200 shared_store 1 0 0 (Some 1) =
     (Inr (),
      shared_store\<lparr>map_rows :=
          [\<lparr>zoom_level = 1, tile_column = 0, tile_row = 0, tile_scale = 1,
            tile_id = None, updated_at = Some 200\<rparr>,
           \<lparr>zoom_level = 2, tile_column = 0, tile_row = 0, tile_scale = 1,
            tile_id = Some ''a'', updated_at = Some 100\<rparr>],
        images_rows := [],
        database_is_compacted := Some True, database_has_scale := Some True\<rparr>)"
    by (simp add: shared_eval)
  have t: "fst (sqlite_tiles shared_store 0 18 0 0 None) = Inr [(1, 0, 0, 1, ''A''), (2, 0, 0, 1, ''A'')]"
    by (simp add: shared_eval)
  have dt: "fst (sqlite_tiles (snd (sqlite_delete_tiles shared_store 1 1 0 0 None)) 0 18 0 0 None) = Inr []"
    unfolding d by (simp add: shared_eval)
  have et: "fst (sqlite_tiles (snd (sqlite_expire_tile 200 shared_store 1 0 0 (Some 1))) 0 18 0 0 None) = Inr []"
    unfolding e by (simp add: shared_eval)
  have i: "map tile_id (map_rows shared_store) = [Some ''a'', Some ''a'']"
    by (simp add: shared_store_def)
  show ?thesis using d e t dt et i by simp
qed

section \<open>Properties of the zoom, timestamp and scale filters\<close>










































text \<open>
  On an SQLite store that is not compacted \<^verbatim>\<open>tiles_count\<close> sends a statement that
  ends with \<^verbatim>\<open>WHERE\<close> or with \<^verbatim>\<open>AND\<close>, which SQLite refuses.
\<close>

lemma sqlite_tiles_count_not_compacted:
  assumes "\<not> fst (sqlite_is_compacted db)"
  shows "fst (sqlite_tiles_count db min_zoom max_zoom min_timestamp max_timestamp scale) =
     Inl OperationalError"
proof -
  obtain hs db1 where h: "sqlite_has_scale db = (hs, db1)" by (cases "sqlite_has_scale db") auto
  have db1: "relations db1 = relations db" "database_is_compacted db1 = database_is_compacted db"
    using h by (auto simp: sqlite_has_scale_def Let_def split: option.splits)
  have "\<not> fst (sqlite_is_compacted db1)"
    using assms by (cases "database_is_compacted db")
      (auto simp: sqlite_is_compacted_def Let_def db1 is_table_def)
  then obtain db2 where c: "sqlite_is_compacted db1 = (False, db2)"
    by (cases "sqlite_is_compacted db1") auto
  have p: "parse_where (xs @ [Cond c', AND]) = None" for xs c'
    by (induction xs rule: parse_where.induct) simp_all
  have "parse_where
     ((if min_zoom > 0 then [Cond (ZoomGe min_zoom), AND] else []) @
      (if max_zoom < 18 then [Cond (ZoomLe max_zoom), AND] else []) @
      (case scale of Some sc \<Rightarrow> if hs then [Cond (ScaleEq sc), AND] else [] | None \<Rightarrow> [])) = None"
    using p[of "[]"] p[of "[Cond (ZoomGe min_zoom), AND]"]
      p[of "[Cond (ZoomLe max_zoom), AND]"] p[of "[Cond (ZoomGe min_zoom), AND, Cond (ZoomLe max_zoom), AND]"]
    by (cases scale) (simp_all)
  then show ?thesis
    by (simp add: sqlite_tiles_count_def h c Let_def count_map_def map_where_def)
qed

text \<open>
  \<^verbatim>\<open>MBTilesPostgres.tiles\<close> sends a condition that ends with the integer literal
  \<^verbatim>\<open>1\<close>, which Postgres refuses: the method raises for every store and every filter.
  (\<^verbatim>\<open>tiles_with_tile_id\<close> of the same class is written without it.)
\<close>

lemma postgres_tiles_refused:
  "fst (postgres_tiles db min_zoom max_zoom min_timestamp max_timestamp scale) = Inl ProgrammingError"
proof -
  obtain hs db1 where h: "postgres_has_scale db = (hs, db1)" by (cases "postgres_has_scale db") auto
  obtain hs' db2 where h': "postgres_has_scale db1 = (hs', db2)" by (cases "postgres_has_scale db1") auto
  show ?thesis
    by (simp add: postgres_tiles_def h h' Let_def dialect_select_tiles_def integer_as_condition_def)
qed





section \<open>Properties of mbtiles_setup\<close>

lemma run_Cons_None:
  "run (f # fs) s = (None, s') \<longleftrightarrow> (\<exists>s1. f s = (None, s1) \<and> run fs s1 = (None, s'))"
  by (auto split: prod.splits option.splits)

lemma run_Nil_None: "run [] s = (None, s') \<longleftrightarrow> s' = s"
  by auto

lemma stmt_None: "stmt f s = (None, s') \<longleftrightarrow> f s = Inr s'"
  by (auto simp: stmt_def split: sum.splits)

lemma stmt_Some: "stmt f s = (Some e, s') \<longleftrightarrow> f s = Inl e \<and> s' = s"
  by (auto simp: stmt_def split: sum.splits)

lemma skip_None: "skip s = (None, s') \<longleftrightarrow> s' = s"
  by (auto simp: skip_def)

lemma sqlite_create_table_succ:
  assumes "stmt (sqlite_create_table_if_not_exists n cols) s = (None, s')"
  shows "relations s' n \<noteq> None"
    and "\<And>m. m \<noteq> n \<Longrightarrow> relations s' m = relations s m"
    and "indexes s' = indexes s"
  using assms
  by (auto simp: stmt_None sqlite_create_table_if_not_exists_def add_table_def clear_rows_def
      split: option.splits if_splits)

lemma sqlite_create_index_succ:
  assumes "stmt (sqlite_create_unique_index_if_not_exists n tbl cols) s = (None, s')"
  shows "\<exists>c. relations s tbl = Some (Table c)"
    and "relations s n = None"
    and "relations s' = relations s"
    and "indexes s' n \<noteq> None"
    and "\<And>m. m \<noteq> n \<Longrightarrow> indexes s' m = indexes s m"
  using assms
  by (auto simp: stmt_None sqlite_create_unique_index_if_not_exists_def add_index_def
      split: option.splits if_splits relation.splits)

lemma sqlite_alter_succ:
  assumes "stmt (sqlite_alter_table_map_add_column col fill) s = (None, s')"
  shows "\<exists>c. relations s ''map'' = Some (Table c) \<and> relations s' = (relations s)(''map'' \<mapsto> Table (c @ [col]))"
    and "indexes s' = indexes s"
  using assms
  by (auto simp: stmt_None sqlite_alter_table_map_add_column_def
      split: option.splits if_splits relation.splits)

lemma sqlite_alter_fail:
  assumes "stmt (sqlite_alter_table_map_add_column col fill) s = (Some e, s')"
  shows "s' = s" and "\<And>c. relations s ''map'' = Some (Table c) \<Longrightarrow> col \<in> set c"
  using assms
  by (auto simp: stmt_Some sqlite_alter_table_map_add_column_def
      split: option.splits if_splits relation.splits)

lemma sqlite_drop_index_any:
  assumes "stmt (sqlite_drop_index n) s = (r, s')"
  shows "relations s' = relations s" and "\<And>m. m \<noteq> n \<Longrightarrow> indexes s' m = indexes s m"
  using assms
  by (auto simp: stmt_def sqlite_drop_index_def split: option.splits if_splits sum.splits)

lemma sqlite_drop_view_any:
  assumes "stmt (sqlite_drop_view n) s = (r, s')"
  shows "\<And>m. m \<noteq> n \<Longrightarrow> relations s' m = relations s m" and "indexes s' = indexes s"
  using assms
  by (auto simp: stmt_def sqlite_drop_view_def split: option.splits if_splits sum.splits relation.splits)

lemma sqlite_create_view_succ:
  assumes "stmt (sqlite_create_view n cols) s = (None, s')"
  shows "relations s' n = Some (View cols) \<and> (\<forall>m. m \<noteq> n \<longrightarrow> relations s' m = relations s m)
    \<and> indexes s n = None \<and> indexes s' = indexes s"
  using assms
  by (cases "indexes s n")
    (auto simp: stmt_None sqlite_create_view_def add_view_def split: if_splits)

text \<open>the two try blocks around ALTER TABLE\<close>

lemma sqlite_try_alter_scale:
  assumes "try_except is_OperationalError
         (run [stmt (sqlite_alter_table_map_add_column col fill),
               stmt (sqlite_drop_index ix)]) s = (None, s')"
  shows "alter_effect col s s' \<and> (\<forall>m. m \<noteq> ix \<longrightarrow> indexes s' m = indexes s m)"
proof -
  obtain r1 s1 where a: "stmt (sqlite_alter_table_map_add_column col fill) s = (r1, s1)"
    by (cases "stmt (sqlite_alter_table_map_add_column col fill) s") auto
  show ?thesis
  proof (cases r1)
    case None
    obtain r2 s2 where d: "stmt (sqlite_drop_index ix) s1 = (r2, s2)"
      by (cases "stmt (sqlite_drop_index ix) s1") auto
    have "s' = s2" using assms a d None
      by (auto simp: try_except_def split: option.splits if_splits)
    then show ?thesis
      using sqlite_alter_succ[OF a[unfolded None]] sqlite_drop_index_any[OF d]
      by (auto simp: alter_effect_def)
  next
    case (Some e)
    have "s' = s" using assms a Some sqlite_alter_fail(1)[OF a[unfolded Some]]
      by (auto simp: try_except_def split: option.splits if_splits)
    then show ?thesis
      using sqlite_alter_fail(2)[OF a[unfolded Some]] by (auto simp: alter_effect_def)
  qed
qed

lemma sqlite_try_alter_updated:
  assumes "try_except is_OperationalError
         (stmt (sqlite_alter_table_map_add_column col fill)) s = (None, s')"
  shows "alter_effect col s s' \<and> indexes s' = indexes s"
proof -
  obtain r1 s1 where a: "stmt (sqlite_alter_table_map_add_column col fill) s = (r1, s1)"
    by (cases "stmt (sqlite_alter_table_map_add_column col fill) s") auto
  show ?thesis
  proof (cases r1)
    case None
    have "s' = s1" using assms a None
      by (auto simp: try_except_def split: option.splits if_splits)
    then show ?thesis
      using sqlite_alter_succ[OF a[unfolded None]]
      by (auto simp: alter_effect_def)
  next
    case (Some e)
    have "s' = s" using assms a Some sqlite_alter_fail(1)[OF a[unfolded Some]]
      by (auto simp: try_except_def split: option.splits if_splits)
    then show ?thesis
      using sqlite_alter_fail(2)[OF a[unfolded Some]] by (auto simp: alter_effect_def)
  qed
qed

lemma sqlite_try_drop_view:
  assumes "try_except is_OperationalError (stmt (sqlite_drop_view n)) s = (None, s')"
  shows "(\<forall>m. m \<noteq> n \<longrightarrow> relations s' m = relations s m) \<and> indexes s' = indexes s"
proof -
  obtain r1 s1 where a: "stmt (sqlite_drop_view n) s = (r1, s1)"
    by (cases "stmt (sqlite_drop_view n) s") auto
  have "s' = s1" using assms a
    by (auto simp: try_except_def split: option.splits if_splits)
  then show ?thesis using sqlite_drop_view_any[OF a] by auto
qed


lemma sqlite_setup_establishes: assumes "sqlite_mbtiles_setup db = (None, db1)" shows "sqlite_setup_done db1"
proof -
  from assms obtain s1 s2 s3 s4 s5 s6 s7 s8 s9 where
    st1: "stmt (sqlite_create_table_if_not_exists ''images'' images_columns) db = (None, s1)" and
    st2: "stmt (sqlite_create_table_if_not_exists ''map'' map_columns) s1 = (None, s2)" and
    st3: "stmt (sqlite_create_table_if_not_exists ''metadata'' metadata_columns) s2 = (None, s3)" and
    st4: "stmt (sqlite_create_unique_index_if_not_exists ''name'' ''metadata'' [''name'']) s3 = (None, s4)" and
    st5: "try_except is_OperationalError
         (run [stmt (sqlite_alter_table_map_add_column ''tile_scale'' (\<lambda>r. r\<lparr>tile_scale := 1\<rparr>)),
               stmt (sqlite_drop_index ''map_index'')]) s4 = (None, s5)" and
    st6: "try_except is_OperationalError
         (stmt (sqlite_alter_table_map_add_column ''updated_at'' (\<lambda>r. r\<lparr>updated_at := None\<rparr>))) s5 = (None, s6)" and
    st7: "try_except is_OperationalError (stmt (sqlite_drop_view ''tiles'')) s6 = (None, s7)" and
    st8: "stmt (sqlite_create_view ''tiles'' tiles_view_columns) s7 = (None, s8)" and
    st9: "stmt (sqlite_create_unique_index_if_not_exists ''map_index'' ''map'' coordinate_columns) s8 = (None, s9)" and
    st10: "stmt (sqlite_create_unique_index_if_not_exists ''images_id'' ''images'' [''tile_id'']) s9 = (None, db1)"
    unfolding sqlite_mbtiles_setup_def run_Cons_None run_Nil_None skip_None by blast
  note c1 = sqlite_create_table_succ[OF st1]
  note c2 = sqlite_create_table_succ[OF st2]
  note c3 = sqlite_create_table_succ[OF st3]
  note i4 = sqlite_create_index_succ[OF st4]
  note a5 = sqlite_try_alter_scale[OF st5]
  note a6 = sqlite_try_alter_updated[OF st6]
  note d7 = sqlite_try_drop_view[OF st7]
  note v8 = sqlite_create_view_succ[OF st8]
  note i9 = sqlite_create_index_succ[OF st9]
  note i10 = sqlite_create_index_succ[OF st10]
  have r54: "\<And>m. m \<noteq> ''map'' \<Longrightarrow> relations s5 m = relations s4 m"
    using a5 by (simp add: alter_effect_def)
  have r65: "\<And>m. m \<noteq> ''map'' \<Longrightarrow> relations s6 m = relations s5 m"
    using a6 by (simp add: alter_effect_def)
  have r76: "\<And>m. m \<noteq> ''tiles'' \<Longrightarrow> relations s7 m = relations s6 m"
    using d7 by simp
  have r87: "\<And>m. m \<noteq> ''tiles'' \<Longrightarrow> relations s8 m = relations s7 m"
    using v8 by simp
  have r10: "relations db1 = relations s8" using i9(3) i10(3) by simp
  have images: "\<exists>c. relations db1 ''images'' = Some (Table c)"
    using i10(1) i10(3) by simp
  have "\<exists>c. relations s4 ''metadata'' = Some (Table c)" using i4(1) i4(3) by simp
  then have metadata: "\<exists>c. relations db1 ''metadata'' = Some (Table c)"
    by (simp add: r10 r87 r76 r65 r54)
  have tiles: "relations db1 ''tiles'' = Some (View tiles_view_columns)"
    using v8 by (simp add: r10)
  have tiles_ix: "indexes db1 ''tiles'' = None"
    using v8 i9(5)[of "''tiles''"] i10(5)[of "''tiles''"] by simp
  have "relations s4 ''name'' = None" using i4(2) i4(3) by simp
  then have name: "relations db1 ''name'' = None"
    by (simp add: r10 r87 r76 r65 r54)
  have "indexes s5 ''name'' \<noteq> None" using i4(4) a5 by simp
  then have name_ix: "indexes db1 ''name'' \<noteq> None"
    using a6 d7 v8 i9(5)[of "''name''"] i10(5)[of "''name''"] by simp
  have map_index: "relations db1 ''map_index'' = None" "indexes db1 ''map_index'' \<noteq> None"
    using i9(2) i9(4) i10(5)[of "''map_index''"] by (simp_all add: r10)
  have images_id: "relations db1 ''images_id'' = None" "indexes db1 ''images_id'' \<noteq> None"
    using i10(2) i10(4) i10(3) by simp_all
  obtain c8 where m8: "relations s8 ''map'' = Some (Table c8)"
    using i9(1) by blast
  then have m6: "relations s6 ''map'' = Some (Table c8)"
    by (simp add: r87 r76)
  have m4: "relations s4 ''map'' \<noteq> None"
    using c2(1) c3(2)[of "''map''"] i4(3) by simp
  have "\<exists>c. relations s4 ''map'' = Some (Table c)"
  proof (rule ccontr)
    assume "\<not> (\<exists>c. relations s4 ''map'' = Some (Table c))"
    then obtain v where "relations s4 ''map'' = Some (View v)"
      using m4 by (cases "relations s4 ''map''") (auto, metis relation.exhaust)
    then have "relations s5 ''map'' = Some (View v)" using a5 by (simp add: alter_effect_def)
    then have "relations s6 ''map'' = Some (View v)" using a6 by (simp add: alter_effect_def)
    then show False using m6 by simp
  qed
  then obtain c4 where "relations s4 ''map'' = Some (Table c4)" by blast
  then obtain c5 where m5: "relations s5 ''map'' = Some (Table c5)" "''tile_scale'' \<in> set c5"
    using a5 unfolding alter_effect_def by blast
  then obtain c6 where "relations s6 ''map'' = Some (Table c6)" "set c5 \<subseteq> set c6" "''updated_at'' \<in> set c6"
    using a6 unfolding alter_effect_def by blast
  then have "''tile_scale'' \<in> set c8 \<and> ''updated_at'' \<in> set c8"
    using m6 m5 by auto
  then have map: "\<exists>c. relations db1 ''map'' = Some (Table c) \<and> ''tile_scale'' \<in> set c \<and> ''updated_at'' \<in> set c"
    using m8 by (simp add: r10)
  show ?thesis
    unfolding sqlite_setup_done_def
    using images map metadata tiles tiles_ix name name_ix map_index images_id by blast
qed


lemma sqlite_setup_done_noop: "sqlite_setup_done db \<Longrightarrow> sqlite_mbtiles_setup db = (None, db)"
  unfolding sqlite_setup_done_def sqlite_mbtiles_setup_def
  by (auto simp: skip_def stmt_def try_except_def sqlite_create_table_if_not_exists_def
      sqlite_create_unique_index_if_not_exists_def sqlite_alter_table_map_add_column_def
      sqlite_drop_index_def sqlite_drop_view_def sqlite_create_view_def add_view_def
      is_OperationalError_def fun_upd_idem)

lemma grow_refl: "grow s s" by (simp add: grow_def)

lemma grow_trans: "grow a b \<Longrightarrow> grow b c \<Longrightarrow> grow a c"
  unfolding grow_def by (meson subset_trans)

lemma view_sources_ok_cong:
  "relations s' ''map'' = relations s ''map'' \<Longrightarrow> relations s' ''images'' = relations s ''images'' \<Longrightarrow>
   view_sources_ok s' cols = view_sources_ok s cols"
  by (simp add: view_sources_ok_def has_columns_def)

lemma pg_table_step:
  assumes "stmt (pg_create_table_if_not_exists n cols) s = (r, s')"
  shows "r = None \<and> pg_class_count s' n \<noteq> 0 \<and> grow s s'"
  using assms
  by (auto simp: stmt_def pg_create_table_if_not_exists_def pg_class_count_def add_table_def
      clear_rows_def grow_def split: if_splits)

lemma pg_index_stmt:
  assumes "stmt (pg_create_unique_index n tbl cols) s = (None, s')"
  shows "pg_class_count s' n \<noteq> 0 \<and> grow s s' \<and> relations s' = relations s \<and>
     database_has_scale s' = database_has_scale s"
  using assms
  by (auto simp: stmt_None pg_create_unique_index_def pg_class_count_def add_index_def grow_def
      split: if_splits option.splits relation.splits)

lemma pg_index_step:
  assumes "if_pg_class_missing n (stmt (pg_create_unique_index n tbl cols)) s = (None, s')"
  shows "pg_class_count s' n \<noteq> 0 \<and> grow s s' \<and> relations s' = relations s \<and>
     database_has_scale s' = database_has_scale s"
proof (cases "pg_class_count s n = 0")
  case True
  then show ?thesis using assms pg_index_stmt by (simp add: if_pg_class_missing_def)
next
  case False
  then show ?thesis using assms by (simp add: if_pg_class_missing_def grow_refl)
qed

lemma pg_has_scale_step:
  assumes "postgres_has_scale s = (hs, s')"
  shows "database_has_scale s' = Some hs \<and> relations s' = relations s \<and> indexes s' = indexes s \<and>
     procs s' = procs s \<and> (\<forall>c. database_has_scale s = Some c \<longrightarrow> hs = c \<and> s' = s)"
  using assms by (auto simp: postgres_has_scale_def Let_def split: option.splits)

lemma pg_has_scale_grow: "postgres_has_scale s = (hs, s') \<Longrightarrow> grow s s'"
  using pg_has_scale_step[of s hs s'] by (simp add: grow_def pg_class_count_def)

lemma pg_view_stmt:
  assumes "stmt (pg_create_or_replace_view ''tiles'' cols) s = (None, s')"
  shows "relations s' ''tiles'' = Some (View cols) \<and> view_sources_ok s' cols \<and> grow s s' \<and>
     database_has_scale s' = database_has_scale s"
proof -
  have s': "s' = add_view ''tiles'' cols s" and ok: "view_sources_ok s cols"
    using assms
    by (auto simp: stmt_None pg_create_or_replace_view_def split: if_splits option.splits relation.splits)
  have "view_sources_ok s' cols = view_sources_ok s cols"
    by (rule view_sources_ok_cong) (simp_all add: s' add_view_def)
  then show ?thesis using ok
    by (auto simp: s' add_view_def grow_def pg_class_count_def)
qed

lemma pg_view_step:
  assumes "if_has_scale (stmt (pg_create_or_replace_view ''tiles'' tiles_view_columns))
         (stmt (pg_create_or_replace_view ''tiles'' tiles_view_columns_no_scale)) s = (None, s')"
  shows "\<exists>hs. database_has_scale s' = Some hs \<and>
     relations s' ''tiles'' = Some (View (postgres_view_columns hs)) \<and>
     view_sources_ok s' (postgres_view_columns hs) \<and> grow s s'"
proof -
  obtain hs s1 where h: "postgres_has_scale s = (hs, s1)" by (cases "postgres_has_scale s") auto
  have v: "stmt (pg_create_or_replace_view ''tiles'' (postgres_view_columns hs)) s1 = (None, s')"
    using assms h by (cases hs) (simp_all add: if_has_scale_def postgres_view_columns_def)
  show ?thesis
    using pg_view_stmt[OF v] pg_has_scale_step[OF h] pg_has_scale_grow[OF h] grow_trans
    by (intro exI[of _ hs]) auto
qed

lemma pg_index_scale_step:
  assumes "if_pg_class_missing n
         (if_has_scale (stmt (pg_create_unique_index n tbl cols))
            (stmt (pg_create_unique_index n tbl cols'))) s = (None, s')"
  shows "pg_class_count s' n \<noteq> 0 \<and> grow s s' \<and> relations s' = relations s \<and>
     (\<forall>c. database_has_scale s = Some c \<longrightarrow> database_has_scale s' = Some c)"
proof (cases "pg_class_count s n = 0")
  case True
  obtain hs s1 where h: "postgres_has_scale s = (hs, s1)" by (cases "postgres_has_scale s") auto
  have v: "stmt (pg_create_unique_index n tbl (if hs then cols else cols')) s1 = (None, s')"
    using assms h True by (cases hs) (simp_all add: if_has_scale_def if_pg_class_missing_def)
  show ?thesis
    using pg_index_stmt[OF v] pg_has_scale_step[OF h] pg_has_scale_grow[OF h] grow_trans
    by auto
next
  case False
  then show ?thesis using assms by (simp add: if_pg_class_missing_def grow_refl)
qed

lemma pg_proc6_step:
  assumes "if_pg_proc_missing n (stmt (pg_create_or_replace_function n a)) s = (None, s')"
  shows "procs s' n \<noteq> {} \<and> grow s s' \<and> relations s' = relations s \<and>
     database_has_scale s' = database_has_scale s"
  using assms
  by (auto simp: if_pg_proc_missing_def stmt_None pg_create_or_replace_function_def grow_def
      pg_class_count_def split: if_splits)

lemma pg_proc5_step:
  assumes "if_has_scale skip (stmt (pg_create_or_replace_function n a)) s = (None, s')"
  shows "grow s s' \<and> relations s' = relations s \<and>
     (\<forall>c. database_has_scale s = Some c \<longrightarrow> database_has_scale s' = Some c \<and> (c \<or> a \<in> procs s' n))"
proof -
  obtain hs s1 where h: "postgres_has_scale s = (hs, s1)" by (cases "postgres_has_scale s") auto
  show ?thesis
  proof (cases hs)
    case True
    then have "s' = s1" using assms h by (simp add: if_has_scale_def skip_def)
    then show ?thesis using pg_has_scale_step[OF h] pg_has_scale_grow[OF h] True by auto
  next
    case False
    then have "stmt (pg_create_or_replace_function n a) s1 = (None, s')"
      using assms h by (simp add: if_has_scale_def)
    then have s': "s' = s1\<lparr>procs := (procs s1)(n := insert a (procs s1 n))\<rparr>"
      by (simp add: stmt_None pg_create_or_replace_function_def)
    have "grow s1 s'" by (auto simp: s' grow_def pg_class_count_def)
    then show ?thesis
      using pg_has_scale_step[OF h] pg_has_scale_grow[OF h] grow_trans False
      by (auto simp: s')
  qed
qed

lemma grow_count: "grow s s' \<Longrightarrow> pg_class_count s n \<noteq> 0 \<Longrightarrow> pg_class_count s' n \<noteq> 0"
  by (simp add: grow_def)

lemma grow_procs: "grow s s' \<Longrightarrow> a \<in> procs s n \<Longrightarrow> a \<in> procs s' n"
  by (auto simp: grow_def)

lemma grow_procs_nonempty: "grow s s' \<Longrightarrow> procs s n \<noteq> {} \<Longrightarrow> procs s' n \<noteq> {}"
  by (auto simp: grow_def)

lemma postgres_setup_establishes:
  assumes "postgres_mbtiles_setup db = (None, db1)"
  shows "postgres_setup_done db1"
proof -
  from assms obtain s1 s2 s3 s4 s5 s6 s7 s8 where
    st1: "stmt (pg_create_table_if_not_exists ''images'' images_columns) db = (None, s1)" and
    st2: "stmt (pg_create_table_if_not_exists ''map'' map_columns) s1 = (None, s2)" and
    st3: "stmt (pg_create_table_if_not_exists ''metadata'' metadata_columns) s2 = (None, s3)" and
    st4: "if_pg_class_missing ''metadata_name_index''
         (stmt (pg_create_unique_index ''metadata_name_index'' ''metadata'' [''name''])) s3 = (None, s4)" and
    st5: "if_has_scale
         (stmt (pg_create_or_replace_view ''tiles'' tiles_view_columns))
         (stmt (pg_create_or_replace_view ''tiles'' tiles_view_columns_no_scale)) s4 = (None, s5)" and
    st6: "if_pg_class_missing ''map_coordinate_index''
         (if_has_scale
            (stmt (pg_create_unique_index ''map_coordinate_index'' ''map'' coordinate_columns))
            (stmt (pg_create_unique_index ''map_coordinate_index'' ''map''
                     coordinate_columns_no_scale))) s5 = (None, s6)" and
    st7: "if_pg_class_missing ''images_id_index''
         (stmt (pg_create_unique_index ''images_id_index'' ''images'' [''tile_id''])) s6 = (None, s7)" and
    st8: "if_pg_proc_missing ''update_map_proc''
         (stmt (pg_create_or_replace_function ''update_map_proc'' 6)) s7 = (None, s8)" and
    st9: "if_has_scale skip (stmt (pg_create_or_replace_function ''update_map_proc'' 5)) s8 = (None, db1)"
    unfolding postgres_mbtiles_setup_def run_Cons_None run_Nil_None by blast
  note p1 = pg_table_step[OF st1] and p2 = pg_table_step[OF st2] and p3 = pg_table_step[OF st3]
  note p4 = pg_index_step[OF st4]
  note p6 = pg_index_scale_step[OF st6]
  note p7 = pg_index_step[OF st7]
  note p8 = pg_proc6_step[OF st8]
  note p9 = pg_proc5_step[OF st9]
  obtain hs where p5: "database_has_scale s5 = Some hs"
     "relations s5 ''tiles'' = Some (View (postgres_view_columns hs))"
     "view_sources_ok s5 (postgres_view_columns hs)" "grow s4 s5"
    using pg_view_step[OF st5] by blast
  have g19: "grow s1 db1" using p2 p3 p4 p5(4) p6 p7 p8 p9 by (meson grow_trans)
  have g29: "grow s2 db1" using p3 p4 p5(4) p6 p7 p8 p9 by (meson grow_trans)
  have g39: "grow s3 db1" using p4 p5(4) p6 p7 p8 p9 by (meson grow_trans)
  have g49: "grow s4 db1" using p5(4) p6 p7 p8 p9 by (meson grow_trans)
  have g69: "grow s6 db1" using p7 p8 p9 by (meson grow_trans)
  have g79: "grow s7 db1" using p8 p9 by (meson grow_trans)
  have g89: "grow s8 db1" using p9 by simp
  have c: "pg_class_count db1 ''images'' \<noteq> 0" "pg_class_count db1 ''map'' \<noteq> 0"
    "pg_class_count db1 ''metadata'' \<noteq> 0" "pg_class_count db1 ''metadata_name_index'' \<noteq> 0"
    "pg_class_count db1 ''map_coordinate_index'' \<noteq> 0" "pg_class_count db1 ''images_id_index'' \<noteq> 0"
    using grow_count[OF g19] grow_count[OF g29] grow_count[OF g39] grow_count[OF g49]
      grow_count[OF g69] grow_count[OF g79] p1 p2 p3 p4 p6 p7 by blast+
  have pr: "procs db1 ''update_map_proc'' \<noteq> {}"
    using grow_procs_nonempty[OF g89] p8 by blast
  have r: "relations db1 = relations s5" using p6 p7 p8 p9 by simp
  have h8: "database_has_scale s8 = Some hs" using p5(1) p6 p7 p8 by simp
  have h9: "database_has_scale db1 = Some hs" "hs \<or> 5 \<in> procs db1 ''update_map_proc''"
    using p9 h8 by blast+
  have v: "view_sources_ok db1 (postgres_view_columns hs)"
    using p5(3) view_sources_ok_cong[of db1 s5] r by simp
  show ?thesis
    unfolding postgres_setup_done_def using c pr h9 p5(2) r v by auto
qed

lemma postgres_setup_done_noop:
  assumes "postgres_setup_done db"
  shows "postgres_mbtiles_setup db = (None, db)"
proof -
  obtain hs where h: "database_has_scale db = Some hs"
    "relations db ''tiles'' = Some (View (postgres_view_columns hs))"
    "view_sources_ok db (postgres_view_columns hs)" "hs \<or> 5 \<in> procs db ''update_map_proc''"
    using assms unfolding postgres_setup_done_def by blast
  have c: "pg_class_count db ''images'' \<noteq> 0" "pg_class_count db ''map'' \<noteq> 0"
    "pg_class_count db ''metadata'' \<noteq> 0" "pg_class_count db ''metadata_name_index'' \<noteq> 0"
    "pg_class_count db ''map_coordinate_index'' \<noteq> 0" "pg_class_count db ''images_id_index'' \<noteq> 0"
    "procs db ''update_map_proc'' \<noteq> {}"
    using assms unfolding postgres_setup_done_def by blast+
  have hsc: "postgres_has_scale db = (hs, db)" using h(1) by (simp add: postgres_has_scale_def)
  have t: "stmt (pg_create_table_if_not_exists n cols) db = (None, db)" if "pg_class_count db n \<noteq> 0" for n cols
    using that by (simp add: stmt_def pg_create_table_if_not_exists_def)
  have av: "add_view ''tiles'' (postgres_view_columns hs) db = db"
    using h(2) by (simp add: add_view_def fun_upd_idem)
  have vw: "stmt (pg_create_or_replace_view ''tiles'' (postgres_view_columns hs)) db = (None, db)"
    using h(2,3) av by (simp add: stmt_def pg_create_or_replace_view_def)
  have view: "if_has_scale
         (stmt (pg_create_or_replace_view ''tiles'' tiles_view_columns))
         (stmt (pg_create_or_replace_view ''tiles'' tiles_view_columns_no_scale)) db = (None, db)"
    using vw hsc by (cases hs) (simp_all add: if_has_scale_def postgres_view_columns_def)
  have ix: "if_pg_class_missing n f db = (None, db)" if "pg_class_count db n \<noteq> 0" for n f
    using that by (simp add: if_pg_class_missing_def)
  have p6: "if_pg_proc_missing ''update_map_proc'' f db = (None, db)" for f
    using c(7) by (simp add: if_pg_proc_missing_def)
  have p5: "if_has_scale skip (stmt (pg_create_or_replace_function ''update_map_proc'' 5)) db = (None, db)"
  proof (cases hs)
    case True
    then show ?thesis using hsc by (simp add: if_has_scale_def skip_def)
  next
    case False
    then have "5 \<in> procs db ''update_map_proc''" using h(4) by simp
    then have "(procs db)(''update_map_proc'' := insert 5 (procs db ''update_map_proc'')) = procs db"
      by (simp add: insert_absorb)
    then show ?thesis using hsc False
      by (simp add: if_has_scale_def stmt_def pg_create_or_replace_function_def)
  qed
  show ?thesis
    unfolding postgres_mbtiles_setup_def
    by (simp add: t[OF c(1)] t[OF c(2)] t[OF c(3)] ix[OF c(4)] ix[OF c(5)] ix[OF c(6)] view p6 p5)
qed

lemma my_table_step:
  assumes "stmt (my_create_table_if_not_exists n cols) s = (r, s')"
  shows "r = None \<and> relations s' n \<noteq> None \<and> (\<forall>m. m \<noteq> n \<longrightarrow> relations s' m = relations s m)"
  using assms
  by (auto simp: stmt_def my_create_table_if_not_exists_def add_table_def clear_rows_def
      split: if_splits)

lemma my_index_step:
  assumes "try_except bare_except (stmt (my_create_unique_index n tbl cols)) s = (r, s')"
  shows "r = None \<and> isl (my_create_unique_index n tbl cols s') \<and> relations s' = relations s \<and>
     (\<forall>m. m \<noteq> n \<longrightarrow> indexes s' m = indexes s m) \<and> same_rows s s'"
proof (cases "my_create_unique_index n tbl cols s")
  case (Inl e)
  then have "r = None \<and> s' = s" using assms by (simp add: try_except_def stmt_def bare_except_def)
  then show ?thesis using Inl by (simp add: same_rows_def)
next
  case (Inr t)
  then have rs: "r = None" "s' = t" using assms by (simp_all add: try_except_def stmt_def)
  have t: "t = add_index n tbl cols s" "\<exists>c. relations s tbl = Some (Table c)"
    using Inr by (auto simp: my_create_unique_index_def split: option.splits relation.splits if_splits)
  show ?thesis
    using t unfolding rs
    by (auto simp: add_index_def my_create_unique_index_def same_rows_def)
qed

lemma my_view_error: "my_create_view n cols s = Inl e \<Longrightarrow> any_exception e"
  by (auto simp: my_create_view_def any_exception_def split: if_splits)

lemma my_view_step:
  assumes "try_except any_exception (stmt (my_create_view n cols)) s = (r, s')"
  shows "r = None \<and> isl (my_create_view n cols s') \<and>
     (\<forall>m. m \<noteq> n \<longrightarrow> relations s' m = relations s m) \<and> indexes s' = indexes s \<and> same_rows s s'"
proof (cases "my_create_view n cols s")
  case (Inl e)
  then have "r = None \<and> s' = s"
    using assms my_view_error[OF Inl] by (simp add: try_except_def stmt_def)
  then show ?thesis using Inl by (simp add: same_rows_def)
next
  case (Inr t)
  then have rs: "r = None" "s' = t" using assms by (simp_all add: try_except_def stmt_def)
  have t: "t = add_view n cols s"
    using Inr by (auto simp: my_create_view_def split: if_splits)
  show ?thesis
    unfolding rs t by (simp add: add_view_def my_create_view_def same_rows_def)
qed

lemma my_index_blocked_cong:
  assumes "relations s' tbl = relations s tbl" "indexes s' n = indexes s n" "same_rows s s'"
  shows "isl (my_create_unique_index n tbl cols s') = isl (my_create_unique_index n tbl cols s)"
proof -
  have "table_keys s' tbl cols = table_keys s tbl cols"
    using assms(3) by (simp add: table_keys_def same_rows_def)
  then have "duplicate_keys s' tbl cols = duplicate_keys s tbl cols"
    by (simp add: duplicate_keys_def)
  then show ?thesis
    using assms(1,2)
    by (simp add: my_create_unique_index_def split: option.splits relation.splits)
qed

lemma my_view_blocked_cong:
  assumes "relations s' = relations s"
  shows "isl (my_create_view n cols s') = isl (my_create_view n cols s)"
  using assms view_sources_ok_cong[of s' s cols] by (simp add: my_create_view_def)

lemma same_rows_trans: "same_rows a b \<Longrightarrow> same_rows b c \<Longrightarrow> same_rows a c"
  by (simp add: same_rows_def)

lemma mysql_setup_establishes:
  assumes "mysql_mbtiles_setup db = (r, db1)"
  shows "r = None \<and> mysql_setup_done db1"
proof -
  obtain r1 s1 where st1: "stmt (my_create_table_if_not_exists ''images'' images_columns) db = (r1, s1)"
    by (cases "stmt (my_create_table_if_not_exists ''images'' images_columns) db") auto
  obtain r2 s2 where st2: "stmt (my_create_table_if_not_exists ''map'' map_columns) s1 = (r2, s2)"
    by (cases "stmt (my_create_table_if_not_exists ''map'' map_columns) s1") auto
  obtain r3 s3 where st3: "stmt (my_create_table_if_not_exists ''metadata'' metadata_columns) s2 = (r3, s3)"
    by (cases "stmt (my_create_table_if_not_exists ''metadata'' metadata_columns) s2") auto
  obtain r4 s4 where st4: "try_except bare_except
         (stmt (my_create_unique_index ''metadata_name_index'' ''metadata'' [''name''])) s3 = (r4, s4)"
    by (cases "try_except bare_except
         (stmt (my_create_unique_index ''metadata_name_index'' ''metadata'' [''name''])) s3") auto
  obtain r5 s5 where st5: "try_except any_exception (stmt (my_create_view ''tiles'' tiles_view_columns)) s4 = (r5, s5)"
    by (cases "try_except any_exception (stmt (my_create_view ''tiles'' tiles_view_columns)) s4") auto
  obtain r6 s6 where st6: "try_except bare_except
         (stmt (my_create_unique_index ''map_index'' ''map'' coordinate_columns)) s5 = (r6, s6)"
    by (cases "try_except bare_except
         (stmt (my_create_unique_index ''map_index'' ''map'' coordinate_columns)) s5") auto
  obtain r7 s7 where st7: "try_except bare_except
         (stmt (my_create_unique_index ''images_id_index'' ''images'' [''tile_id''])) s6 = (r7, s7)"
    by (cases "try_except bare_except
         (stmt (my_create_unique_index ''images_id_index'' ''images'' [''tile_id''])) s6") auto
  note t1 = my_table_step[OF st1] and t2 = my_table_step[OF st2] and t3 = my_table_step[OF st3]
  note i4 = my_index_step[OF st4] and v5 = my_view_step[OF st5]
  note i6 = my_index_step[OF st6] and i7 = my_index_step[OF st7]
  have n: "r1 = None" "r2 = None" "r3 = None" "r4 = None" "r5 = None" "r6 = None" "r7 = None"
    using t1 t2 t3 i4 v5 i6 i7 by blast+
  have res: "mysql_mbtiles_setup db = (None, s7)"
    unfolding mysql_mbtiles_setup_def
    by (simp add: st1[unfolded n] st2[unfolded n] st3[unfolded n] st4[unfolded n]
        st5[unfolded n] st6[unfolded n] st7[unfolded n])
  then have r: "r = None" "db1 = s7" using assms by simp_all
  have "relations s1 ''images'' \<noteq> None" using t1 by blast
  then have "relations s2 ''images'' \<noteq> None" using t2 by simp
  then have im3: "relations s3 ''images'' \<noteq> None" using t3 by simp
  have "relations s2 ''map'' \<noteq> None" using t2 by blast
  then have mp3: "relations s3 ''map'' \<noteq> None" using t3 by simp
  have md3: "relations s3 ''metadata'' \<noteq> None" using t3 by blast
  note rel3 = im3 mp3 md3
  have rel75: "relations s7 = relations s5" using i6 i7 by presburger
  have rel43: "relations s4 = relations s3" using i4 by blast
  have rel54: "\<And>m. m \<noteq> ''tiles'' \<Longrightarrow> relations s5 m = relations s4 m" using v5 by blast
  have rel: "relations s7 ''images'' \<noteq> None" "relations s7 ''map'' \<noteq> None"
    "relations s7 ''metadata'' \<noteq> None"
    using rel3 by (simp_all add: rel75 rel54 rel43)
  have b4: "isl (my_create_unique_index ''metadata_name_index'' ''metadata'' [''name''] s7)"
  proof -
    have "relations s7 ''metadata'' = relations s4 ''metadata''" by (simp add: rel75 rel54)
    moreover have "indexes s7 ''metadata_name_index'' = indexes s4 ''metadata_name_index''"
    proof -
      have "indexes s5 = indexes s4" using v5 by blast
      moreover have "indexes s6 ''metadata_name_index'' = indexes s5 ''metadata_name_index''"
        using i6 by simp
      moreover have "indexes s7 ''metadata_name_index'' = indexes s6 ''metadata_name_index''"
        using i7 by simp
      ultimately show ?thesis by simp
    qed
    moreover have "same_rows s4 s7"
    proof -
      have "same_rows s4 s5" "same_rows s5 s6" "same_rows s6 s7" using v5 i6 i7 by blast+
      then show ?thesis by (blast intro: same_rows_trans)
    qed
    moreover have "isl (my_create_unique_index ''metadata_name_index'' ''metadata'' [''name''] s4)"
      using i4 by blast
    ultimately show ?thesis using my_index_blocked_cong by blast
  qed
  have b5: "isl (my_create_view ''tiles'' tiles_view_columns s7)"
  proof -
    have "isl (my_create_view ''tiles'' tiles_view_columns s5)" using v5 by blast
    then show ?thesis using my_view_blocked_cong[OF rel75] by simp
  qed
  have b6: "isl (my_create_unique_index ''map_index'' ''map'' coordinate_columns s7)"
  proof -
    have "relations s7 ''map'' = relations s6 ''map''" using i7 by simp
    moreover have "indexes s7 ''map_index'' = indexes s6 ''map_index''" using i7 by simp
    moreover have "same_rows s6 s7" using i7 by blast
    moreover have "isl (my_create_unique_index ''map_index'' ''map'' coordinate_columns s6)"
      using i6 by blast
    ultimately show ?thesis using my_index_blocked_cong by blast
  qed
  have b7: "isl (my_create_unique_index ''images_id_index'' ''images'' [''tile_id''] s7)"
    using i7 by blast
  show ?thesis unfolding r mysql_setup_done_def using rel b4 b5 b6 b7 by blast
qed

lemma mysql_setup_done_noop:
  assumes "mysql_setup_done db"
  shows "mysql_mbtiles_setup db = (None, db)"
proof -
  have t: "stmt (my_create_table_if_not_exists n cols) db = (None, db)" if "relations db n \<noteq> None" for n cols
    using that by (simp add: stmt_def my_create_table_if_not_exists_def)
  have i: "try_except bare_except (stmt f) db = (None, db)" if "isl (f db)" for f
    using that by (cases "f db") (simp_all add: try_except_def stmt_def bare_except_def)
  have v: "try_except any_exception (stmt (my_create_view ''tiles'' tiles_view_columns)) db = (None, db)"
    if "isl (my_create_view ''tiles'' tiles_view_columns db)"
    using that my_view_error[of "''tiles''" tiles_view_columns db]
    by (cases "my_create_view ''tiles'' tiles_view_columns db") (simp_all add: try_except_def stmt_def)
  show ?thesis
    using assms unfolding mysql_setup_done_def mysql_mbtiles_setup_def
    by (simp add: t i v)
qed

text \<open>
  C5: when a call of \<^verbatim>\<open>mbtiles_setup\<close> has returned without an exception, a second call
  returns without an exception too and leaves the store exactly as the first call left it:
  the same tables, views, indexes and procedures, the same rows, the same capability
  caches, and so the same answers of \<^verbatim>\<open>is_compacted()\<close> and \<^verbatim>\<open>has_scale()\<close>.  This
  holds for the SQLite, Postgres, MySQL and MongoDB classes.
\<close>

theorem mbtiles_setup_idempotent:
  assumes "mbtiles_setup st = (None, st1)"
  shows "mbtiles_setup st1 = (None, st1) \<and>
     fst (is_compacted (snd (mbtiles_setup st1))) = fst (is_compacted st1) \<and>
     fst (has_scale (snd (mbtiles_setup st1))) = fst (has_scale st1)"
proof -
  have again: "mbtiles_setup st1 = (None, st1)"
  proof (cases st)
    case (SQLite db)
    then obtain db1 where d: "sqlite_mbtiles_setup db = (None, db1)" "st1 = SQLite db1"
      using assms by (cases "sqlite_mbtiles_setup db") auto
    have "sqlite_mbtiles_setup db1 = (None, db1)"
      using sqlite_setup_done_noop[OF sqlite_setup_establishes[OF d(1)]] .
    then show ?thesis by (simp add: d(2))
  next
    case (Postgres db)
    then obtain db1 where d: "postgres_mbtiles_setup db = (None, db1)" "st1 = Postgres db1"
      using assms by (cases "postgres_mbtiles_setup db") auto
    have "postgres_mbtiles_setup db1 = (None, db1)"
      using postgres_setup_done_noop[OF postgres_setup_establishes[OF d(1)]] .
    then show ?thesis by (simp add: d(2))
  next
    case (MySQL db)
    then obtain db1 where d: "mysql_mbtiles_setup db = (None, db1)" "st1 = MySQL db1"
      using assms by (cases "mysql_mbtiles_setup db") auto
    have "mysql_mbtiles_setup db1 = (None, db1)"
      using mysql_setup_done_noop mysql_setup_establishes[OF d(1)] by blast
    then show ?thesis by (simp add: d(2))
  next
    case (MongoDB db)
    then show ?thesis using assms by auto
  qed
  then show ?thesis by simp
qed

lemma sqlite_setup_empty: "fst (sqlite_mbtiles_setup empty_store) = None"
  by (simp add: sqlite_mbtiles_setup_def empty_store_def skip_def stmt_def try_except_def
      sqlite_create_table_if_not_exists_def sqlite_create_unique_index_if_not_exists_def
      sqlite_alter_table_map_add_column_def sqlite_drop_index_def sqlite_drop_view_def
      sqlite_create_view_def add_view_def add_table_def add_index_def clear_rows_def
      is_OperationalError_def duplicate_keys_def table_keys_def
      images_columns_def map_columns_def metadata_columns_def coordinate_columns_def)

lemma postgres_setup_empty: "fst (postgres_mbtiles_setup empty_store) = None"
  by (simp add: postgres_mbtiles_setup_def empty_store_def skip_def stmt_def
      pg_create_table_if_not_exists_def pg_create_unique_index_def pg_create_or_replace_view_def
      pg_create_or_replace_function_def pg_class_count_def if_pg_class_missing_def
      if_has_scale_def if_pg_proc_missing_def postgres_has_scale_def has_columns_def Let_def
      view_sources_ok_def view_reads_map_def tiles_view_columns_def
      add_view_def add_table_def add_index_def clear_rows_def duplicate_keys_def table_keys_def
      images_columns_def map_columns_def metadata_columns_def coordinate_columns_def)

theorem mbtiles_setup_idempotent_witness:
  "fst (mbtiles_setup (SQLite empty_store)) = None \<and>
   mbtiles_setup (snd (mbtiles_setup (SQLite empty_store))) =
     (None, snd (mbtiles_setup (SQLite empty_store))) \<and>
   fst (mbtiles_setup (Postgres empty_store)) = None \<and>
   mbtiles_setup (snd (mbtiles_setup (Postgres empty_store))) =
     (None, snd (mbtiles_setup (Postgres empty_store)))"
proof -
  have a: "fst (mbtiles_setup (SQLite empty_store)) = None"
    using sqlite_setup_empty by (cases "sqlite_mbtiles_setup empty_store") simp
  have b: "fst (mbtiles_setup (Postgres empty_store)) = None"
    using postgres_setup_empty by (cases "postgres_mbtiles_setup empty_store") simp
  have a': "mbtiles_setup (SQLite empty_store) = (None, snd (mbtiles_setup (SQLite empty_store)))"
    using a by (cases "mbtiles_setup (SQLite empty_store)") simp
  have b': "mbtiles_setup (Postgres empty_store) = (None, snd (mbtiles_setup (Postgres empty_store)))"
    using b by (cases "mbtiles_setup (Postgres empty_store)") simp
  show ?thesis
    using mbtiles_setup_idempotent [OF a'] mbtiles_setup_idempotent [OF b'] a b by simp
qed

section \<open>Properties of the coordinate converter\<close>











text \<open>
  The scenario of the specification for the whole world at zoom 0, and a tile address
  outside its zoom level, which the round trip does not give back.
\<close>

lemma world_bbox_tiles:
  "convert_bbox_to_tiles (-180) (-85) 180 85 False 0 0 = [(0, 0, 0)]"
  by (simp add: convert_bbox_to_tiles_def tiles_for_bbox_def coordinate_to_tile_def Let_def)

lemma round_trip_outside: "round_trip 0 1 0 False = [(0, 0, 0)]"
  by (simp add: round_trip_def convert_bbox_to_tiles_def tiles_for_bbox_def
      coordinate_to_tile_def Let_def split: prod.splits)


section \<open>The envelope of the root tile\<close>

text \<open>
  The latitude of the upper edge of the world is \<open>arctan (sinh pi)\<close>, in degrees.  To
  place it between two decimal numbers: bounds of \<open>pi\<close> from the sign of the sine (its
  Maclaurin polynomial of degree 19 with the remainder), bounds of \<open>exp pi\<close> from the
  exponential series, and bounds of the tangent at two small angles from the sine
  polynomial of degree 3.
\<close>

lemma sin_partial_20:
  "(\<Sum>m<20. sin_coeff m * x ^ m) =
     x - x^3 / 6 + x^5 / 120 - x^7 / 5040 + x^9 / 362880 - x^11 / 39916800
       + x^13 / 6227020800 - x^15 / 1307674368000 + x^17 / 355687428096000
       - x^19 / 121645100408832000"
  for x :: real
proof -
  have "(\<Sum>m<Suc (Suc (Suc (Suc (Suc (Suc (Suc (Suc (Suc (Suc (Suc (Suc (Suc (Suc (Suc (Suc (Suc (Suc (Suc (Suc 0))))))))))))))))))). sin_coeff m * x ^ m) =
     x - x^3 / 6 + x^5 / 120 - x^7 / 5040 + x^9 / 362880 - x^11 / 39916800
       + x^13 / 6227020800 - x^15 / 1307674368000 + x^17 / 355687428096000
       - x^19 / 121645100408832000"
    by (simp add: sin_coeff_Suc cos_coeff_Suc numeral_eq_Suc)
  then show ?thesis by (simp add: numeral_eq_Suc)
qed

lemma sin_below_pi: "0 < sin (314159 / 100000 :: real)"
proof -
  have b: "\<bar>sin (314159 / 100000 :: real) - (\<Sum>m<20. sin_coeff m * (314159 / 100000) ^ m)\<bar>
             \<le> inverse (fact 20) * \<bar>314159 / 100000\<bar> ^ 20"
    by (rule Maclaurin_sin_bound)
  have r: "inverse (fact 20) * \<bar>314159 / 100000 :: real\<bar> ^ 20 < 1 / 10000000"
    by (simp add: fact_numeral power_divide)
  have p: "(\<Sum>m<20. sin_coeff m * (314159 / 100000 :: real) ^ m) > 1 / 1000000"
    unfolding sin_partial_20 by (simp add: power_divide)
  show ?thesis using b r p by linarith
qed

lemma sin_above_pi: "sin (3927 / 1250 :: real) < 0"
proof -
  have b: "\<bar>sin (3927 / 1250 :: real) - (\<Sum>m<20. sin_coeff m * (3927 / 1250) ^ m)\<bar>
             \<le> inverse (fact 20) * \<bar>3927 / 1250\<bar> ^ 20"
    by (rule Maclaurin_sin_bound)
  have r: "inverse (fact 20) * \<bar>3927 / 1250 :: real\<bar> ^ 20 < 1 / 10000000"
    by (simp add: fact_numeral power_divide)
  have p: "(\<Sum>m<20. sin_coeff m * (3927 / 1250 :: real) ^ m) < - (1 / 1000000)"
    unfolding sin_partial_20 by (simp add: power_divide)
  show ?thesis using b r p by linarith
qed

lemma pi_lower: "314159 / 100000 < pi"
proof (rule ccontr)
  assume "\<not> 314159 / 100000 < pi"
  then have le: "pi \<le> 314159 / 100000" by simp
  have lt: "(314159 / 100000 :: real) < 2 * pi" using pi_ge_two by simp
  have "sin (314159 / 100000 :: real) \<le> 0"
  proof (cases "pi = 314159 / 100000")
    case True
    have "sin (314159 / 100000 :: real) = sin pi" by (subst True) (rule refl)
    then show ?thesis by simp
  next
    case False
    then have "pi < 314159 / 100000" using le by simp
    then have "sin (314159 / 100000 :: real) < 0" using lt by (rule sin_lt_zero)
    then show ?thesis by simp
  qed
  then show False using sin_below_pi by simp
qed

lemma pi_upper: "pi < 3927 / 1250"
proof (rule ccontr)
  assume "\<not> pi < 3927 / 1250"
  then have "3927 / 1250 \<le> pi" by simp
  then have "0 \<le> sin (3927 / 1250 :: real)" by (intro sin_ge_zero) simp_all
  then show False using sin_above_pi by simp
qed

lemma exp_partial_bounds:
  fixes x :: real
  assumes "0 \<le> x" "x \<le> 4"
  shows "(\<Sum>m<n. x ^ m / fact m) \<le> exp x"
    and "exp x \<le> (\<Sum>m<n. x ^ m / fact m) + 81 * x ^ n / fact n"
proof -
  obtain t where t: "\<bar>t\<bar> \<le> \<bar>x\<bar>"
    and e: "exp x = (\<Sum>m<n. x ^ m / fact m) + (exp t / fact n) * x ^ n"
    using Maclaurin_exp_le [of x n] by blast
  have xn: "0 \<le> x ^ n" using assms(1) by simp
  have "0 \<le> (exp t / fact n) * x ^ n" using xn by simp
  then show "(\<Sum>m<n. x ^ m / fact m) \<le> exp x" using e by linarith
  have "t \<le> 4" using t assms by linarith
  then have "exp t \<le> exp (4::real)" by simp
  also have "exp (4::real) = exp 1 ^ 4" by (simp add: exp_of_nat_mult [symmetric] flip: exp_of_nat_mult)
  also have "\<dots> \<le> 3 ^ 4" by (intro power_mono exp_le) simp
  finally have "exp t \<le> 81" by simp
  then have "exp t * x ^ n \<le> 81 * x ^ n" using xn by (rule mult_right_mono)
  then have "(exp t / fact n) * x ^ n \<le> 81 * x ^ n / fact n"
    by (simp add: divide_right_mono)
  then show "exp x \<le> (\<Sum>m<n. x ^ m / fact m) + 81 * x ^ n / fact n" using e by linarith
qed

lemma exp_pi_lower: "231406 / 10000 < exp pi"
proof -
  have "231406 / 10000 < (\<Sum>m<20. (314159 / 100000 :: real) ^ m / fact m)"
    by (simp add: numeral_eq_Suc power_divide)
  also have "\<dots> \<le> exp (314159 / 100000)" by (rule exp_partial_bounds) simp_all
  also have "\<dots> < exp pi" using pi_lower by simp
  finally show ?thesis .
qed

lemma exp_pi_upper: "exp pi < 231409 / 10000"
proof -
  have "exp pi < exp (3927 / 1250 :: real)" using pi_upper by simp
  also have "\<dots> \<le> (\<Sum>m<20. (3927 / 1250 :: real) ^ m / fact m) + 81 * (3927 / 1250) ^ 20 / fact 20"
    by (rule exp_partial_bounds) simp_all
  also have "\<dots> < 231409 / 10000"
    by (simp add: numeral_eq_Suc power_divide)
  finally show ?thesis .
qed

lemma sinh_pi_bounds: "115486 / 10000 < sinh pi" "sinh pi < 115489 / 10000"
proof -
  have lo: "231406 / 10000 < exp pi" by (rule exp_pi_lower)
  have hi: "exp pi < 231409 / 10000" by (rule exp_pi_upper)
  have pos: "0 < exp pi" by simp
  have i1: "inverse (exp pi) < 10000 / 231406"
  proof -
    have "inverse (exp pi) < inverse (231406 / 10000 :: real)"
      using lo by (intro less_imp_inverse_less) simp_all
    then show ?thesis by simp
  qed
  have i2: "10000 / 231409 < inverse (exp pi)"
  proof -
    have "inverse (231409 / 10000 :: real) < inverse (exp pi)"
      using hi pos by (intro less_imp_inverse_less) simp_all
    then show ?thesis by simp
  qed
  have s: "sinh pi = (exp pi - inverse (exp pi)) / 2"
    by (simp add: sinh_field_def exp_minus)
  show "115486 / 10000 < sinh pi" unfolding s using lo i1 by simp
  show "sinh pi < 115489 / 10000" unfolding s using hi i2 by simp
qed

lemma sin_partial_5: "(\<Sum>m<5. sin_coeff m * x ^ m) = x - x ^ 3 / 6" for x :: real
proof -
  have "(\<Sum>m<Suc (Suc (Suc (Suc (Suc 0)))). sin_coeff m * x ^ m) = x - x ^ 3 / 6"
    by (simp add: sin_coeff_Suc cos_coeff_Suc numeral_eq_Suc)
  then show ?thesis by (simp add: numeral_eq_Suc)
qed

lemma sin_bounds:
  fixes x :: real
  assumes "0 \<le> x"
  shows "x - x ^ 3 / 6 - x ^ 5 / 120 \<le> sin x" "sin x \<le> x - x ^ 3 / 6 + x ^ 5 / 120"
proof -
  have "\<bar>sin x - (\<Sum>m<5. sin_coeff m * x ^ m)\<bar> \<le> inverse (fact 5) * \<bar>x\<bar> ^ 5"
    by (rule Maclaurin_sin_bound)
  then have b: "\<bar>sin x - (x - x ^ 3 / 6)\<bar> \<le> x ^ 5 / 120"
    using assms by (simp add: sin_partial_5 fact_numeral)
  show "x - x ^ 3 / 6 - x ^ 5 / 120 \<le> sin x" using b by linarith
  show "sin x \<le> x - x ^ 3 / 6 + x ^ 5 / 120" using b by linarith
qed

lemma cos_half: "cos x = 1 - 2 * (sin (x / 2))\<^sup>2" for x :: real
  using cos_double_sin[of "x / 2"] by simp

lemma tan_lower: "86605 / 1000000 < tan (8639 / 100000 :: real)"
proof -
  let ?x = "8639 / 100000 :: real"
  have s: "?x - ?x ^ 3 / 6 - ?x ^ 5 / 120 \<le> sin ?x" by (rule sin_bounds) simp
  have h: "?x / 2 - (?x / 2) ^ 3 / 6 - (?x / 2) ^ 5 / 120 \<le> sin (?x / 2)" by (rule sin_bounds) simp
  have hp: "0 \<le> ?x / 2 - (?x / 2) ^ 3 / 6 - (?x / 2) ^ 5 / 120" by (simp add: power_divide)
  have "(?x / 2 - (?x / 2) ^ 3 / 6 - (?x / 2) ^ 5 / 120)\<^sup>2 \<le> (sin (?x / 2))\<^sup>2"
    using h hp by (rule power_mono)
  then have c: "cos ?x \<le> 1 - 2 * (?x / 2 - (?x / 2) ^ 3 / 6 - (?x / 2) ^ 5 / 120)\<^sup>2"
    unfolding cos_half[of ?x] by simp
  have cpos: "0 < cos ?x"
    by (rule cos_gt_zero) (use pi_lower in simp_all)
  have sl: "862825 / 10000000 < ?x - ?x ^ 3 / 6 - ?x ^ 5 / 120" by (simp add: power_divide)
  have cu: "1 - 2 * (?x / 2 - (?x / 2) ^ 3 / 6 - (?x / 2) ^ 5 / 120)\<^sup>2 < 9962708 / 10000000"
    by (simp add: power_divide power2_eq_square)
  have s': "862825 / 10000000 < sin ?x" using s sl by linarith
  have c': "cos ?x < 9962708 / 10000000" using c cu by linarith
  have "86605 / 1000000 * cos ?x < 86605 / 1000000 * (9962708 / 10000000)"
    using c' by simp
  also have "\<dots> < 862825 / 10000000" by simp
  also have "\<dots> < sin ?x" by (rule s')
  finally have "86605 / 1000000 * cos ?x < sin ?x" .
  then have "86605 / 1000000 < sin ?x / cos ?x"
    using cpos by (simp add: pos_less_divide_eq)
  then show ?thesis by (simp add: tan_def)
qed

lemma tan_upper: "tan (8636 / 100000 :: real) < 86576 / 1000000"
proof -
  let ?x = "8636 / 100000 :: real"
  have s: "sin ?x \<le> ?x - ?x ^ 3 / 6 + ?x ^ 5 / 120" by (rule sin_bounds) simp
  have h: "sin (?x / 2) \<le> ?x / 2 - (?x / 2) ^ 3 / 6 + (?x / 2) ^ 5 / 120" by (rule sin_bounds) simp
  have hp: "0 \<le> sin (?x / 2)"
    by (rule sin_ge_zero) (use pi_lower in simp_all)
  have "(sin (?x / 2))\<^sup>2 \<le> (?x / 2 - (?x / 2) ^ 3 / 6 + (?x / 2) ^ 5 / 120)\<^sup>2"
    using h hp by (rule power_mono)
  then have c: "1 - 2 * (?x / 2 - (?x / 2) ^ 3 / 6 + (?x / 2) ^ 5 / 120)\<^sup>2 \<le> cos ?x"
    unfolding cos_half[of ?x] by simp
  have su: "?x - ?x ^ 3 / 6 + ?x ^ 5 / 120 < 862527 / 10000000" by (simp add: power_divide)
  have cl: "9962732 / 10000000 < 1 - 2 * (?x / 2 - (?x / 2) ^ 3 / 6 + (?x / 2) ^ 5 / 120)\<^sup>2"
    by (simp add: power_divide power2_eq_square)
  have s': "sin ?x < 862527 / 10000000" using s su by linarith
  have c': "9962732 / 10000000 < cos ?x" using c cl by linarith
  then have cpos: "0 < cos ?x" by linarith
  have "sin ?x < 862527 / 10000000" by (rule s')
  also have "\<dots> < 86576 / 1000000 * (9962732 / 10000000)" by simp
  also have "\<dots> < 86576 / 1000000 * cos ?x" using c' by simp
  finally have "sin ?x < 86576 / 1000000 * cos ?x" .
  then have "sin ?x / cos ?x < 86576 / 1000000"
    using cpos by (simp add: pos_divide_less_eq)
  then show ?thesis by (simp add: tan_def)
qed

lemma arctan_sinh_pi_lower: "1701 / 20 * pi / 180 < arctan (sinh pi)"
proof -
  let ?b = "11 * pi / 400"
  let ?a = "1701 / 20 * pi / 180"
  have a: "?a = pi / 2 - ?b" by simp
  have b0: "8639 / 100000 < ?b" using pi_lower by simp
  have b1: "?b < pi / 2" using pi_gt_zero by simp
  have y0: "- (pi / 2) < 8639 / 100000" using pi_gt_zero by linarith
  have "tan (8639 / 100000) < tan ?b"
    using y0 b0 b1 by (rule tan_monotone)
  then have t: "86605 / 1000000 < tan ?b" using tan_lower by linarith
  then have "inverse (tan ?b) < inverse (86605 / 1000000 :: real)"
    by (intro less_imp_inverse_less) simp_all
  also have "\<dots> < 115486 / 10000" by simp
  also have "\<dots> < sinh pi" by (rule sinh_pi_bounds)
  finally have "tan ?a < sinh pi" unfolding a tan_cot .
  then have "arctan (tan ?a) < arctan (sinh pi)" by (simp only: arctan_less_iff)
  moreover have "arctan (tan ?a) = ?a"
    by (rule arctan_tan) (use pi_gt_zero in linarith)+
  ultimately show ?thesis by simp
qed

lemma arctan_sinh_pi_upper: "arctan (sinh pi) < 21263 / 250 * pi / 180"
proof -
  let ?b = "1237 * pi / 45000"
  let ?a = "21263 / 250 * pi / 180"
  have a: "?a = pi / 2 - ?b" by simp
  have b0: "?b < 8636 / 100000" using pi_upper by simp
  have b1: "0 < ?b" using pi_gt_zero by simp
  have b2: "?b < pi / 2" using pi_gt_zero by simp
  have y0: "- (pi / 2) < ?b" using pi_gt_zero by linarith
  have y1: "8636 / 100000 < pi / 2" using pi_lower by linarith
  have "tan ?b < tan (8636 / 100000)"
    using y0 b0 y1 by (rule tan_monotone)
  then have t: "tan ?b < 86576 / 1000000" using tan_upper by linarith
  have tp: "0 < tan ?b" using b1 b2 by (rule tan_gt_zero)
  have "sinh pi < 115489 / 10000" by (rule sinh_pi_bounds)
  also have "\<dots> < inverse (86576 / 1000000 :: real)" by simp
  also have "\<dots> < inverse (tan ?b)"
    using t tp by (intro less_imp_inverse_less) simp_all
  finally have "sinh pi < tan ?a" unfolding a tan_cot .
  then have "arctan (sinh pi) < arctan (tan ?a)" by (simp only: arctan_less_iff)
  moreover have "arctan (tan ?a) = ?a"
    by (rule arctan_tan) (use pi_gt_zero in linarith)+
  ultimately show ?thesis by simp
qed

lemma world_latitude:
  "1701 / 20 < arctan (sinh pi) * 180 / pi" "arctan (sinh pi) * 180 / pi < 21263 / 250"
proof -
  have p: "0 < pi" by simp
  show "1701 / 20 < arctan (sinh pi) * 180 / pi"
    using arctan_sinh_pi_lower p by (simp add: field_simps)
  show "arctan (sinh pi) * 180 / pi < 21263 / 250"
    using arctan_sinh_pi_upper p by (simp add: field_simps)
qed

lemma root_tile_bbox:
  "convert_tile_to_bbox 0 0 0 False =
     (- 180, - (arctan (sinh pi) * 180 / pi), 180, arctan (sinh pi) * 180 / pi)"
  by (simp add: convert_tile_to_bbox_def tile_to_coordinate_def Let_def arctan_minus)

text \<open>
  C10: \<^verbatim>\<open>convert_tile_to_bbox(0, 0, 0, False)\<close> is the whole world: the longitudes
  are -180 and 180, the latitudes are opposite, and the upper one lies between 85.05 and
  85.052 degrees.  The projection is the one modelled from the specification, over the
  real numbers.
\<close>

theorem root_tile_world_envelope:
  "\<exists>lat. convert_tile_to_bbox 0 0 0 False = (- 180, - lat, 180, lat) \<and>
         8505 / 100 < lat \<and> lat < 85052 / 1000"
proof -
  have "1701 / 20 = (8505 / 100 :: real)" "21263 / 250 = (85052 / 1000 :: real)" by simp_all
  then show ?thesis
    using root_tile_bbox world_latitude by (intro exI[of _ "arctan (sinh pi) * 180 / pi"]) simp
qed

end
